(* ===== verification/Prelude.thy ===== *)
theory Prelude
  imports Complex_Main "HOL-Library.Word"
begin

text \<open>
  Shared vocabulary of the point-cloud viewer development: the three-component
  vector that the C++ code takes from Qt (\<open>QVector3D\<close>), its arithmetic as the
  renderer uses it, the collections of rewrite rules the component theories add
  to, and generic lemmas about running minima and maxima over lists that the
  bounding-box proofs of the loaders share.

  Floating-point numbers (\<open>float\<close> in the sources) are modelled as \<open>real\<close>:
  comparisons, \<open>std::min\<close>/\<open>std::max\<close> and sums of finite values are exact in
  the model, rounding of \<open>float\<close> arithmetic is not modelled.
\<close>

named_theorems geom_defs "definitions of the vector and matrix operations"
named_theorems stream_defs "definitions of the character-stream operations"

record vec3 =
  vx :: real
  vy :: real
  vz :: real

definition vec3_add :: "vec3 \<Rightarrow> vec3 \<Rightarrow> vec3" where
  [geom_defs]: "vec3_add a b = \<lparr>vx = vx a + vx b, vy = vy a + vy b, vz = vz a + vz b\<rparr>"

definition vec3_sub :: "vec3 \<Rightarrow> vec3 \<Rightarrow> vec3" where
  [geom_defs]: "vec3_sub a b = \<lparr>vx = vx a - vx b, vy = vy a - vy b, vz = vz a - vz b\<rparr>"

definition vec3_scale :: "vec3 \<Rightarrow> real \<Rightarrow> vec3" where
  [geom_defs]: "vec3_scale a k = \<lparr>vx = vx a * k, vy = vy a * k, vz = vz a * k\<rparr>"

definition vec3_neg :: "vec3 \<Rightarrow> vec3" where
  [geom_defs]: "vec3_neg a = \<lparr>vx = - vx a, vy = - vy a, vz = - vz a\<rparr>"

text \<open>\<open>QVector3D::length\<close>: the Euclidean norm.\<close>

definition vec3_length :: "vec3 \<Rightarrow> real" where
  [geom_defs]: "vec3_length a = sqrt (vx a ^ 2 + vy a ^ 2 + vz a ^ 2)"

definition vec3_zero :: vec3 where
  [geom_defs]: "vec3_zero = \<lparr>vx = 0, vy = 0, vz = 0\<rparr>"

definition vec3_const :: "real \<Rightarrow> vec3" where
  [geom_defs]: "vec3_const k = \<lparr>vx = k, vy = k, vz = k\<rparr>"

text \<open>Componentwise order, the relation a bounding box states about a point.\<close>

definition vec3_le :: "vec3 \<Rightarrow> vec3 \<Rightarrow> bool" where
  [geom_defs]: "vec3_le a b \<longleftrightarrow> vx a \<le> vx b \<and> vy a \<le> vy b \<and> vz a \<le> vz b"

subsection \<open>Running minima and maxima\<close>

text \<open>
  The loaders keep the bounding box as a running \<open>std::min\<close>/\<open>std::max\<close> per
  axis; these are the facts about such folds that every axis of every loader uses.
\<close>

lemma foldl_min_le_start [simp]:
  "foldl (\<lambda>m x. min m (f x)) (a::real) xs \<le> a"
proof (induction xs arbitrary: a)
  case Nil
  then show ?case by simp
next
  case (Cons y ys)
  have "foldl (\<lambda>m x. min m (f x)) (min a (f y)) ys \<le> min a (f y)"
    by (rule Cons.IH)
  then show ?case by (simp add: min.bounded_iff)
qed

lemma foldl_max_ge_start [simp]:
  "(a::real) \<le> foldl (\<lambda>m x. max m (f x)) a xs"
proof (induction xs arbitrary: a)
  case Nil
  then show ?case by simp
next
  case (Cons y ys)
  have "max a (f y) \<le> foldl (\<lambda>m x. max m (f x)) (max a (f y)) ys"
    by (rule Cons.IH)
  then show ?case by (simp add: max.bounded_iff)
qed

lemma foldl_min_le_elem:
  "x \<in> set xs \<Longrightarrow> foldl (\<lambda>m x. min m (f x)) (a::real) xs \<le> f x"
proof (induction xs arbitrary: a)
  case Nil
  then show ?case by simp
next
  case (Cons y ys)
  show ?case
  proof (cases "x = y")
    case True
    have "foldl (\<lambda>m x. min m (f x)) (min a (f y)) ys \<le> min a (f y)"
      by (rule foldl_min_le_start)
    with True show ?thesis by (simp add: min.bounded_iff)
  next
    case False
    with Cons.prems have "x \<in> set ys" by simp
    then show ?thesis using Cons.IH by simp
  qed
qed

lemma foldl_max_ge_elem:
  "x \<in> set xs \<Longrightarrow> f x \<le> foldl (\<lambda>m x. max m (f x)) (a::real) xs"
proof (induction xs arbitrary: a)
  case Nil
  then show ?case by simp
next
  case (Cons y ys)
  show ?case
  proof (cases "x = y")
    case True
    have "f y \<le> max a (f y)" by simp
    also have "\<dots> \<le> foldl (\<lambda>m x. max m (f x)) (max a (f y)) ys"
      by (rule foldl_max_ge_start)
    finally show ?thesis using True by simp
  next
    case False
    with Cons.prems have "x \<in> set ys" by simp
    then show ?thesis using Cons.IH by simp
  qed
qed

text \<open>A running minimum is attained: it is the start value or one of the elements.\<close>

lemma foldl_min_attained:
  "foldl (\<lambda>m x. min m (f x)) (a::real) xs = a \<or>
   (\<exists>x \<in> set xs. foldl (\<lambda>m x. min m (f x)) a xs = f x)"
proof (induction xs arbitrary: a)
  case Nil
  then show ?case by simp
next
  case (Cons y ys)
  from Cons.IH [of "min a (f y)"] show ?case
    by (auto simp: min_def split: if_splits)
qed

lemma foldl_max_attained:
  "foldl (\<lambda>m x. max m (f x)) (a::real) xs = a \<or>
   (\<exists>x \<in> set xs. foldl (\<lambda>m x. max m (f x)) a xs = f x)"
proof (induction xs arbitrary: a)
  case Nil
  then show ?case by simp
next
  case (Cons y ys)
  from Cons.IH [of "max a (f y)"] show ?case
    by (auto simp: max_def split: if_splits)
qed

lemma vec3_le_refl [simp]: "vec3_le a a"
  by (simp add: vec3_le_def)

lemma vec3_le_trans: "vec3_le a b \<Longrightarrow> vec3_le b c \<Longrightarrow> vec3_le a c"
  by (auto simp: vec3_le_def)

end
