(* ===== verification/Text.thy ===== *)
theory Text
  imports Prelude
begin

text \<open>
  Character-level behaviour of the library calls the two loaders make
  (\<open>src/pointcloudrenderer.cpp\<close>, \<open>loadPtsFile\<close> and \<open>loadPlyFile\<close>).
  A file is a \<open>string\<close>, i.e.\ a list of 8-bit \<open>char\<close>s, so it is its byte
  sequence as well.
  \<^item> Qt side (\<open>.pts\<close>): \<open>QTextStream::readLine\<close> as \<open>qt_lines\<close>,
    \<open>QString::trimmed\<close> as \<open>trimmed\<close>, \<open>split(QRegularExpression("\\s+"),
    Qt::SkipEmptyParts)\<close> as \<open>split_ws\<close>, \<open>QString::toFloat\<close> as
    \<open>qt_toFloat\<close>.
  \<^item> C++ standard library side (\<open>.ply\<close>): an \<open>std::istream\<close> is the record
    \<open>istream\<close> of the unread input and the \<open>eofbit\<close>/\<open>failbit\<close> flags;
    \<open>std::getline\<close>, \<open>operator>>\<close> into \<open>std::string\<close>, \<open>int\<close> and
    \<open>float\<close>, and \<open>istream::read\<close> are \<open>std_getline\<close>, \<open>read_word\<close>,
    \<open>read_int\<close>, \<open>read_float\<close> and \<open>read_bytes\<close>, following libstdc++:
    an extraction whose sentry fails (stream not good, or only white space left)
    does not write its target (\<open>None\<close>); a failed numeric conversion writes 0;
    an out-of-range one writes the type's extreme value; every failure sets
    \<open>failbit\<close>, after which every later extraction fails.
  Both sides use the same decimal grammar \<open>scan_decimal\<close> (sign, digits,
  optional fraction, optional exponent; a dangling exponent is a failure, as in
  libstdc++'s \<open>num_get\<close> and in Qt). White space is the C locale's
  \<open>isspace\<close> set. Not modelled: the words \<open>inf\<close>/\<open>nan\<close> that
  \<open>QString::toFloat\<close> accepts, and non-ASCII white space.
\<close>

subsection \<open>Characters\<close>

definition is_space :: "char \<Rightarrow> bool" where
  [stream_defs]: "is_space c \<longleftrightarrow>
     c = CHR '' '' \<or> c = CHR 0x09 \<or> c = CHR 0x0A \<or> c = CHR 0x0B \<or> c = CHR 0x0C \<or> c = CHR 0x0D"

definition is_digit :: "char \<Rightarrow> bool" where
  [stream_defs]: "is_digit c \<longleftrightarrow> 48 \<le> (of_char c :: nat) \<and> (of_char c :: nat) \<le> 57"

definition digit_val :: "char \<Rightarrow> nat" where
  [stream_defs]: "digit_val c = of_char c - 48"

definition digits_val :: "string \<Rightarrow> nat" where
  [stream_defs]: "digits_val ds = foldl (\<lambda>n c. 10 * n + digit_val c) 0 ds"

text \<open>Decimal rendering of an unsigned number (\<open>QString::arg\<close> on an integer).\<close>

fun nat_to_dec :: "nat \<Rightarrow> string" where
  "nat_to_dec n =
     (if n < 10 then [char_of (48 + n)] else nat_to_dec (n div 10) @ [char_of (48 + n mod 10)])"

subsection \<open>Qt text handling\<close>

text \<open>\<open>QString::trimmed\<close>: white space removed at both ends.\<close>

definition trimmed :: "string \<Rightarrow> string" where
  [stream_defs]: "trimmed s = rev (dropWhile is_space (rev (dropWhile is_space s)))"

text \<open>
  Splitting on runs of white space, skipping empty parts: the current token is
  accumulated reversed.
\<close>

fun split_ws_acc :: "string \<Rightarrow> string \<Rightarrow> string list" where
  "split_ws_acc cur [] = (if cur = [] then [] else [rev cur])"
| "split_ws_acc cur (c # cs) =
     (if is_space c then (if cur = [] then split_ws_acc [] cs else rev cur # split_ws_acc [] cs)
      else split_ws_acc (c # cur) cs)"

definition split_ws :: "string \<Rightarrow> string list" where
  "split_ws s = split_ws_acc [] s"

text \<open>Splitting at line feeds; every segment is kept.\<close>

fun split_lines_acc :: "string \<Rightarrow> string \<Rightarrow> string list" where
  "split_lines_acc cur [] = [rev cur]"
| "split_lines_acc cur (c # cs) =
     (if c = CHR 0x0A then rev cur # split_lines_acc [] cs else split_lines_acc (c # cur) cs)"

text \<open>
  \<open>while (!in.atEnd()) in.readLine()\<close>: the lines of the text, where a final line
  feed does not start another line. A carriage return before the line feed is
  kept here; every caller trims the line, which removes it.
\<close>

definition qt_lines :: "string \<Rightarrow> string list" where
  "qt_lines s = (let ls = split_lines_acc [] s in if last ls = [] then butlast ls else ls)"

subsection \<open>Decimal numbers\<close>

fun scan_sign :: "string \<Rightarrow> int \<times> string" where
  "scan_sign [] = (1, [])"
| "scan_sign (c # cs) =
     (if c = CHR ''-'' then (-1, cs) else if c = CHR ''+'' then (1, cs) else (1, c # cs))"

definition pow10 :: "int \<Rightarrow> real" where
  [stream_defs]: "pow10 e = (if 0 \<le> e then 10 ^ nat e else 1 / 10 ^ nat (- e))"

text \<open>An exponent part; \<open>None\<close> when an \<open>e\<close> is not followed by digits.\<close>

definition scan_exponent :: "string \<Rightarrow> (int \<times> string) option" where
  [stream_defs]: "scan_exponent s =
     (case s of
        [] \<Rightarrow> Some (0, [])
      | c # r \<Rightarrow>
          (if c = CHR ''e'' \<or> c = CHR ''E'' then
             (let (sg, r1) = scan_sign r; ds = takeWhile is_digit r1
              in if ds = [] then None else Some (sg * int (digits_val ds), dropWhile is_digit r1))
           else Some (0, s)))"

text \<open>The longest prefix that is a decimal number, with its value.\<close>

definition scan_decimal :: "string \<Rightarrow> (real \<times> string) option" where
  [stream_defs]: "scan_decimal s =
     (let (sg, s1) = scan_sign s;
          ip = takeWhile is_digit s1;
          s2 = dropWhile is_digit s1;
          (fp, s3) = (case s2 of
                        [] \<Rightarrow> ([], [])
                      | c # r \<Rightarrow> (if c = CHR ''.'' then (takeWhile is_digit r, dropWhile is_digit r)
                                  else ([], s2)))
      in if ip = [] \<and> fp = [] then None
         else (case scan_exponent s3 of
                 None \<Rightarrow> None
               | Some (e, s4) \<Rightarrow>
                   Some (of_int sg * of_nat (digits_val (ip @ fp)) / 10 ^ length fp * pow10 e, s4)))"

text \<open>\<open>QString::toFloat\<close>: the whole string must be a number; otherwise 0.\<close>

definition qt_toFloat :: "string \<Rightarrow> real" where
  [stream_defs]: "qt_toFloat s = (case scan_decimal s of Some (v, []) \<Rightarrow> v | _ \<Rightarrow> 0)"

subsection \<open>C++ input streams\<close>

record istream =
  is_rest :: string
  is_eof :: bool
  is_fail :: bool

definition good :: "istream \<Rightarrow> bool" where
  [stream_defs]: "good st \<longleftrightarrow> \<not> is_eof st \<and> \<not> is_fail st"

definition open_stream :: "string \<Rightarrow> istream" where
  [stream_defs]: "open_stream s = \<lparr>is_rest = s, is_eof = False, is_fail = False\<rparr>"

text \<open>
  \<open>std::getline(in, line)\<close>: the second argument is the old value of \<open>line\<close>,
  kept when the sentry fails. A line ends at a line feed, which is consumed; reaching
  the end sets \<open>eofbit\<close>, and \<open>failbit\<close> too when nothing was extracted.
\<close>

definition std_getline :: "istream \<Rightarrow> string \<Rightarrow> string \<times> istream" where
  [stream_defs]: "std_getline st line =
     (if \<not> good st then (line, st\<lparr>is_fail := True\<rparr>)
      else
        (let r = is_rest st; l = takeWhile (\<lambda>c. c \<noteq> CHR 0x0A) r;
             after = dropWhile (\<lambda>c. c \<noteq> CHR 0x0A) r
         in if after = [] then (l, st\<lparr>is_rest := [], is_eof := True, is_fail := (r = [])\<rparr>)
            else (l, st\<lparr>is_rest := tl after\<rparr>)))"

text \<open>\<open>in >> word\<close> for an \<open>std::string\<close>.\<close>

definition read_word :: "istream \<Rightarrow> string option \<times> istream" where
  [stream_defs]: "read_word st =
     (if \<not> good st then (None, st\<lparr>is_fail := True\<rparr>)
      else
        (let r = dropWhile is_space (is_rest st)
         in if r = [] then (None, st\<lparr>is_rest := [], is_eof := True, is_fail := True\<rparr>)
            else
              (let w = takeWhile (\<lambda>c. \<not> is_space c) r; r' = dropWhile (\<lambda>c. \<not> is_space c) r
               in (Some w, st\<lparr>is_rest := r', is_eof := (r' = [])\<rparr>))))"

definition int_max :: int where
  [stream_defs]: "int_max = 2 ^ 31 - 1"

definition int_min :: int where
  [stream_defs]: "int_min = - (2 ^ 31)"

text \<open>\<open>in >> n\<close> for an \<open>int\<close>.\<close>

definition read_int :: "istream \<Rightarrow> int option \<times> istream" where
  [stream_defs]: "read_int st =
     (if \<not> good st then (None, st\<lparr>is_fail := True\<rparr>)
      else
        (let r = dropWhile is_space (is_rest st)
         in if r = [] then (None, st\<lparr>is_rest := [], is_eof := True, is_fail := True\<rparr>)
            else
              (let (sg, r1) = scan_sign r; ds = takeWhile is_digit r1; r2 = dropWhile is_digit r1;
                   v = sg * int (digits_val ds); st' = st\<lparr>is_rest := r2, is_eof := (r2 = [])\<rparr>
               in if ds = [] then (Some 0, st'\<lparr>is_fail := True\<rparr>)
                  else if int_max < v then (Some int_max, st'\<lparr>is_fail := True\<rparr>)
                  else if v < int_min then (Some int_min, st'\<lparr>is_fail := True\<rparr>)
                  else (Some v, st'))))"

text \<open>
  \<open>std::numeric_limits<float>::max()\<close>, and the least magnitude that rounds to
  infinity in single precision (half an ulp above it).
\<close>

definition flt_max :: real where
  [stream_defs]: "flt_max = (2 ^ 24 - 1) * 2 ^ 104"

definition flt_overflow :: real where
  [stream_defs]: "flt_overflow = 2 ^ 128 - 2 ^ 103"

text \<open>\<open>in >> x\<close> for a \<open>float\<close>; overflow writes \<open>\<plusminus>FLT_MAX\<close> and fails.\<close>

definition read_float :: "istream \<Rightarrow> real option \<times> istream" where
  [stream_defs]: "read_float st =
     (if \<not> good st then (None, st\<lparr>is_fail := True\<rparr>)
      else
        (let r = dropWhile is_space (is_rest st)
         in if r = [] then (None, st\<lparr>is_rest := [], is_eof := True, is_fail := True\<rparr>)
            else
              (case scan_decimal r of
                 None \<Rightarrow> (Some 0, st\<lparr>is_rest := [], is_fail := True\<rparr>)
               | Some (v, r') \<Rightarrow>
                   (let st' = st\<lparr>is_rest := r', is_eof := (r' = [])\<rparr>
                    in if flt_overflow \<le> \<bar>v\<bar> then (Some (sgn v * flt_max), st'\<lparr>is_fail := True\<rparr>)
                       else (Some v, st')))))"

text \<open>\<open>in.read(buf, n)\<close>: \<open>n\<close> raw bytes, or failure when fewer are left.\<close>

definition read_bytes :: "nat \<Rightarrow> istream \<Rightarrow> string option \<times> istream" where
  [stream_defs]: "read_bytes n st =
     (if \<not> good st then (None, st\<lparr>is_fail := True\<rparr>)
      else if n \<le> length (is_rest st) then
        (Some (take n (is_rest st)), st\<lparr>is_rest := drop n (is_rest st)\<rparr>)
      else (None, st\<lparr>is_rest := [], is_eof := True, is_fail := True\<rparr>))"

text \<open>A word that \<open>operator>>\<close> reads whole: non-empty, without white space.\<close>

definition is_token :: "string \<Rightarrow> bool" where
  "is_token w \<longleftrightarrow> w \<noteq> [] \<and> list_all (\<lambda>c. \<not> is_space c) w"

subsection \<open>Lemmas\<close>

declare nat_to_dec.simps [simp del]

text \<open>Every token of a split is a non-empty run of non-space characters.\<close>

lemma split_ws_acc_tokens:
  "\<forall>c \<in> set cur. \<not> is_space c \<Longrightarrow>
   \<forall>t \<in> set (split_ws_acc cur s). t \<noteq> [] \<and> (\<forall>c \<in> set t. \<not> is_space c)"
proof (induction cur s rule: split_ws_acc.induct)
  case (1 cur)
  then show ?case by simp
next
  case (2 cur c cs)
  have triv: "\<forall>c \<in> set ([]::string). \<not> is_space c" by simp
  show ?case
  proof (cases "is_space c")
    case True
    have IH1: "\<forall>t \<in> set (split_ws_acc [] cs). t \<noteq> [] \<and> (\<forall>c \<in> set t. \<not> is_space c)"
    proof (cases "cur = []")
      case True
      show ?thesis by (rule "2.IH"(1) [OF \<open>is_space c\<close> True triv])
    next
      case False
      show ?thesis by (rule "2.IH"(2) [OF \<open>is_space c\<close> False triv])
    qed
    from True have eq: "split_ws_acc cur (c # cs) =
        (if cur = [] then split_ws_acc [] cs else rev cur # split_ws_acc [] cs)"
      by (simp only: split_ws_acc.simps if_True)
    show ?thesis unfolding eq using IH1 "2.prems" by auto
  next
    case False
    from "2.prems" False have "\<forall>c' \<in> set (c # cur). \<not> is_space c'" by simp
    then have IH2: "\<forall>t \<in> set (split_ws_acc (c # cur) cs). t \<noteq> [] \<and> (\<forall>c \<in> set t. \<not> is_space c)"
      by (rule "2.IH"(3) [OF False])
    from False have eq: "split_ws_acc cur (c # cs) = split_ws_acc (c # cur) cs"
      by (simp only: split_ws_acc.simps if_False)
    show ?thesis unfolding eq by (rule IH2)
  qed
qed

lemma split_ws_tokens:
  "t \<in> set (split_ws s) \<Longrightarrow> t \<noteq> [] \<and> (\<forall>c \<in> set t. \<not> is_space c)"
  using split_ws_acc_tokens [of "[]" s] by (simp add: split_ws_def)

lemma concat_split_ws_acc:
  "concat (split_ws_acc cur s) = rev cur @ filter (\<lambda>c. \<not> is_space c) s"
  by (induction cur s rule: split_ws_acc.induct) simp_all

text \<open>Splitting loses exactly the white space.\<close>

lemma concat_split_ws: "concat (split_ws s) = filter (\<lambda>c. \<not> is_space c) s"
  by (simp add: split_ws_def concat_split_ws_acc)

lemma split_ws_acc_append_space:
  "is_space c \<Longrightarrow> split_ws_acc cur (w @ c # s) = split_ws_acc cur w @ split_ws_acc [] s"
  by (induction cur w rule: split_ws_acc.induct) simp_all

lemma split_ws_acc_word:
  "\<forall>c \<in> set w. \<not> is_space c \<Longrightarrow>
   split_ws_acc cur w = (if cur @ rev w = [] then [] else [rev cur @ w])"
  by (induction w arbitrary: cur) simp_all

text \<open>
  Words without white space joined by one blank split back
  into the same words.
\<close>

lemma split_ws_join:
  "\<forall>t \<in> set ts. t \<noteq> [] \<and> (\<forall>c \<in> set t. \<not> is_space c) \<Longrightarrow>
   split_ws (concat (map (\<lambda>t. t @ '' '') ts)) = ts"
proof (induction ts)
  case Nil
  then show ?case by (simp add: split_ws_def)
next
  case (Cons t ts)
  have sp: "is_space (CHR '' '')" by (simp add: is_space_def)
  from Cons.prems have "split_ws_acc [] t = [t]"
    by (simp add: split_ws_acc_word)
  with Cons show ?case
    by (simp add: split_ws_def split_ws_acc_append_space [OF sp])
qed

lemma split_ws_acc_spaces:
  "\<forall>c \<in> set sp. is_space c \<Longrightarrow> split_ws_acc cur sp = split_ws_acc cur []"
  by (induction sp arbitrary: cur) auto

lemma split_ws_acc_append_spaces:
  "\<forall>c \<in> set sp. is_space c \<Longrightarrow> split_ws_acc cur (w @ sp) = split_ws_acc cur w"
  by (induction cur w rule: split_ws_acc.induct) (simp_all add: split_ws_acc_spaces)

lemma split_ws_acc_dropWhile: "split_ws_acc [] (dropWhile is_space s) = split_ws_acc [] s"
  by (induction s) auto

text \<open>Trimming does not change the parts of a split.\<close>

lemma split_ws_trimmed: "split_ws (trimmed s) = split_ws s"
proof -
  let ?s1 = "dropWhile is_space s"
  have d: "?s1 = rev (dropWhile is_space (rev ?s1)) @ rev (takeWhile is_space (rev ?s1))"
    by (metis rev_append rev_rev_ident takeWhile_dropWhile_id)
  have sp: "\<forall>c \<in> set (rev (takeWhile is_space (rev ?s1))). is_space c"
    by (auto dest: set_takeWhileD)
  have "split_ws_acc [] ?s1 = split_ws_acc [] (rev (dropWhile is_space (rev ?s1)))"
    by (subst d) (rule split_ws_acc_append_spaces [OF sp])
  then show ?thesis
    by (simp add: split_ws_def trimmed_def split_ws_acc_dropWhile)
qed

lemma trimmed_hd:
  assumes "s \<noteq> []" and "\<not> is_space (hd s)" and "trimmed s \<noteq> []"
  shows "hd (trimmed s) = hd s"
proof -
  have "dropWhile is_space s = s" using assms(1,2) by (cases s) auto
  moreover have "s = rev (dropWhile is_space (rev s)) @ rev (takeWhile is_space (rev s))"
    by (metis rev_append rev_rev_ident takeWhile_dropWhile_id)
  ultimately show ?thesis
    using assms(3) by (metis hd_append2 trimmed_def)
qed

lemma split_lines_acc_line:
  "CHR 0x0A \<notin> set l \<Longrightarrow> split_lines_acc cur (l @ CHR 0x0A # r) = (rev cur @ l) # split_lines_acc [] r"
  by (induction l arbitrary: cur) auto

lemma split_lines_acc_lines:
  "\<forall>l \<in> set ls. CHR 0x0A \<notin> set l \<Longrightarrow>
   split_lines_acc [] (concat (map (\<lambda>l. l @ [CHR 0x0A]) ls)) = ls @ [[]]"
  by (induction ls) (simp_all add: split_lines_acc_line [where r = "concat _", simplified])

text \<open>Lines each ended by a line feed read back as the lines.\<close>

lemma qt_lines_lines:
  "\<forall>l \<in> set ls. CHR 0x0A \<notin> set l \<Longrightarrow> qt_lines (concat (map (\<lambda>l. l @ [CHR 0x0A]) ls)) = ls"
  by (simp add: qt_lines_def split_lines_acc_lines)

lemma std_getline_line:
  assumes "CHR 0x0A \<notin> set l"
  shows "std_getline (open_stream (l @ CHR 0x0A # r)) line = (l, open_stream r)"
proof -
  have "takeWhile (\<lambda>c. c \<noteq> CHR 0x0A) (l @ CHR 0x0A # r) = l"
    and "dropWhile (\<lambda>c. c \<noteq> CHR 0x0A) (l @ CHR 0x0A # r) = CHR 0x0A # r"
    using assms by (induction l) auto
  then show ?thesis by (simp add: std_getline_def open_stream_def good_def)
qed

lemma open_stream_fail [simp]: "is_fail (open_stream s) = False"
  by (simp add: open_stream_def)

lemma read_word_token:
  assumes "is_token w" and "\<forall>c \<in> set sp. is_space c" and "r = [] \<or> is_space (hd r)"
  shows "read_word \<lparr>is_rest = sp @ w @ r, is_eof = False, is_fail = False\<rparr> =
           (Some w, \<lparr>is_rest = r, is_eof = (r = []), is_fail = False\<rparr>)"
proof -
  have w: "w \<noteq> []" "\<forall>c \<in> set w. \<not> is_space c" using assms(1) by (auto simp: is_token_def list_all_iff)
  have d: "dropWhile is_space (sp @ w @ r) = w @ r"
    using assms(2) w by (cases w) (simp_all add: dropWhile_append2)
  have tw: "takeWhile (\<lambda>c. \<not> is_space c) (w @ r) = w" and dw: "dropWhile (\<lambda>c. \<not> is_space c) (w @ r) = r"
    using w assms(3) by (cases r; simp add: takeWhile_append2 dropWhile_append2)+
  show ?thesis using w by (simp add: read_word_def good_def d tw dw Let_def)
qed

lemma is_space_blank [simp]: "is_space (CHR '' '')"
  by (simp add: is_space_def)

subsubsection \<open>Decimal digits\<close>

lemma digit_char [simp]: "(d::nat) < 10 \<Longrightarrow> digit_val (char_of (48 + d)) = d"
  by (simp add: digit_val_def of_char_of)

lemma is_digit_char [simp]: "(d::nat) < 10 \<Longrightarrow> is_digit (char_of (48 + d))"
  by (simp add: is_digit_def of_char_of)

lemma digits_val_snoc [simp]: "digits_val (ds @ [c]) = 10 * digits_val ds + digit_val c"
  by (simp add: digits_val_def)

lemma nat_to_dec_digits: "c \<in> set (nat_to_dec n) \<Longrightarrow> is_digit c"
proof (induction n rule: nat_to_dec.induct)
  case (1 n)
  then show ?case by (subst (asm) nat_to_dec.simps) (auto split: if_splits)
qed

lemma nat_to_dec_nonempty: "nat_to_dec n \<noteq> []"
  by (subst nat_to_dec.simps) simp

lemma digits_val_nat_to_dec: "digits_val (nat_to_dec n) = n"
proof (induction n rule: nat_to_dec.induct)
  case (1 n)
  show ?case
  proof (cases "n < 10")
    case True
    then show ?thesis by (subst nat_to_dec.simps) (simp add: digits_val_def)
  next
    case False
    with "1.IH" have "digits_val (nat_to_dec (n div 10)) = n div 10" by simp
    with False show ?thesis by (subst nat_to_dec.simps) simp
  qed
qed

lemma takeWhile_all [simp]: "\<forall>c \<in> set s. P c \<Longrightarrow> takeWhile P s = s"
  by (induction s) auto

lemma dropWhile_all [simp]: "\<forall>c \<in> set s. P c \<Longrightarrow> dropWhile P s = []"
  by (induction s) auto

lemma scan_sign_digit: "is_digit c \<Longrightarrow> scan_sign (c # cs) = (1, c # cs)"
  by (auto simp: is_digit_def)

lemma scan_sign_digits: "s \<noteq> [] \<Longrightarrow> \<forall>c \<in> set s. is_digit c \<Longrightarrow> scan_sign s = (1, s)"
  by (cases s) (simp_all del: scan_sign.simps add: scan_sign_digit)

lemma scan_decimal_digits:
  assumes "s \<noteq> []" and "\<forall>c \<in> set s. is_digit c"
  shows "scan_decimal s = Some (real (digits_val s), [])"
  using assms by (simp add: scan_decimal_def scan_sign_digits scan_exponent_def pow10_def)

lemma scan_decimal_nat_to_dec: "scan_decimal (nat_to_dec n) = Some (real n, [])"
  using scan_decimal_digits [OF nat_to_dec_nonempty] nat_to_dec_digits
  by (simp add: digits_val_nat_to_dec)

subsubsection \<open>Streams\<close>

text \<open>A line that \<open>std_getline\<close> extracts without failing consumed input.\<close>

lemma std_getline_progress:
  assumes g: "std_getline st l = (l', st')" and nf: "\<not> is_fail st'"
  shows "length (is_rest st') < length (is_rest st)"
proof -
  define r where "r = is_rest st"
  define after where "after = dropWhile (\<lambda>c. c \<noteq> CHR 0x0A) r"
  have good: "good st"
  proof (rule ccontr)
    assume "\<not> good st"
    then have "st' = st\<lparr>is_fail := True\<rparr>" using g by (simp add: std_getline_def)
    with nf show False by simp
  qed
  have unf: "std_getline st l =
      (if after = [] then (takeWhile (\<lambda>c. c \<noteq> CHR 0x0A) r, st\<lparr>is_rest := [], is_eof := True, is_fail := (r = [])\<rparr>)
       else (takeWhile (\<lambda>c. c \<noteq> CHR 0x0A) r, st\<lparr>is_rest := tl after\<rparr>))"
    using good unfolding std_getline_def r_def after_def Let_def by simp
  show ?thesis
  proof (cases "after = []")
    case True
    with g unf have "st' = st\<lparr>is_rest := [], is_eof := True, is_fail := (r = [])\<rparr>" by simp
    with nf have "r \<noteq> []" and "is_rest st' = []" by simp_all
    then show ?thesis by (simp add: r_def)
  next
    case False
    with g unf have "st' = st\<lparr>is_rest := tl after\<rparr>" by simp
    moreover have "length after \<le> length r" unfolding after_def by (rule length_dropWhile_le)
    moreover have "0 < length after" using False by simp
    ultimately show ?thesis by (cases after) (simp_all add: r_def)
  qed
qed

text \<open>No \<open>getline\<close> makes the unread input longer.\<close>

lemma std_getline_rest_le: "length (is_rest (snd (std_getline st l))) \<le> length (is_rest st)"
proof -
  have "length (tl (dropWhile (\<lambda>c. c \<noteq> CHR 0x0A) r)) \<le> length r" for r :: string
    using length_dropWhile_le [of "\<lambda>c. c \<noteq> CHR 0x0A" r] by simp
  then show ?thesis by (simp add: std_getline_def Let_def)
qed

text \<open>Once \<open>failbit\<close> is set, every extraction fails and writes nothing.\<close>

lemma failed_extractions:
  assumes "is_fail st"
  shows "fst (read_word st) = None" and "fst (read_int st) = None"
    and "fst (read_float st) = None" and "fst (read_bytes n st) = None"
    and "is_fail (snd (read_float st))" and "is_fail (snd (read_int st))"
  using assms by (simp_all add: read_word_def read_int_def read_float_def read_bytes_def good_def)

lemma read_float_fail_sticky: "is_fail st \<Longrightarrow> read_float st = (None, st)"
  by (simp add: read_float_def good_def)

text \<open>
  A value that \<open>in >> n\<close> writes into an \<open>int\<close> lies in
  the 32-bit range, also when the text denotes a larger number.
\<close>

lemma read_int_bounds:
  assumes "fst (read_int st) = Some v"
  shows "int_min \<le> v \<and> v \<le> int_max"
proof -
  have mm: "int_min \<le> 0 \<and> (0::int) \<le> int_max" by (simp add: int_min_def int_max_def)
  show ?thesis
    using assms mm unfolding read_int_def Let_def
    by (auto split: if_splits prod.splits)
qed

text \<open>
  A value that \<open>in >> x\<close> writes into a \<open>float\<close> has
  a magnitude below the single-precision overflow threshold.
\<close>

lemma read_float_bounds:
  assumes "fst (read_float st) = Some v"
  shows "\<bar>v\<bar> < flt_overflow"
proof -
  have fm: "flt_max < flt_overflow" and fo: "0 < flt_overflow"
    by (simp_all add: flt_max_def flt_overflow_def)
  have sg: "\<bar>sgn w * flt_max\<bar> < flt_overflow" for w :: real
  proof -
    have "\<bar>sgn w * flt_max\<bar> \<le> flt_max" by (simp add: abs_mult abs_sgn_eq flt_max_def)
    with fm show ?thesis by linarith
  qed
  show ?thesis
    using assms fo sg unfolding read_float_def Let_def
    by (auto split: if_splits prod.splits option.splits)
qed

subsection \<open>Properties\<close>

text \<open>
  \<open>QString::toFloat\<close> reads the decimal rendering of
  a natural number back as that number.
\<close>

theorem qt_toFloat_nat_to_dec: "qt_toFloat (nat_to_dec n) = real n"
  by (simp add: qt_toFloat_def scan_decimal_nat_to_dec)

theorem read_int_overflow_clamps:
  "fst (read_int (open_stream ''99999999999'')) = Some int_max \<and> int_min \<le> int_max \<and> int_max \<le> int_max"
proof -
  have h: "fst (read_int (open_stream ''99999999999'')) = Some int_max"
    by (simp add: read_int_def stream_defs Let_def)
  show ?thesis using h read_int_bounds [OF h] by simp
qed

theorem read_float_overflow_clamps:
  "fst (read_float (open_stream ''1e39'')) = Some flt_max \<and> \<bar>flt_max\<bar> < flt_overflow"
proof -
  have h: "fst (read_float (open_stream ''1e39'')) = Some flt_max"
    by (simp add: read_float_def stream_defs Let_def)
  show ?thesis using h read_float_bounds [OF h] by simp
qed

end
