(* ===== verification/Geometry.thy ===== *)
theory Geometry
  imports Text
begin

text \<open>
  The geometric data of \<open>src/pointcloudrenderer.h\<close> and
  \<open>src/pointcloudrenderer.cpp\<close>: the \<open>Vertex\<close> struct, the bounding box
  the loaders keep as a running per-axis \<open>std::min\<close>/\<open>std::max\<close> started at
  the sentinels \<open>numeric_limits<float>::max()\<close>/\<open>lowest()\<close>, the model
  centre and initial camera distance derived from it, and the \<open>QMatrix4x4\<close>
  operations of \<open>updateModelViewMatrix\<close> and \<open>resizeGL\<close>.
  A 4x4 matrix is the list of its four rows; \<open>QMatrix4x4::translate\<close> and
  \<open>rotate\<close> multiply the matrix on the right, as Qt does. Rotations are taken
  about the x and y axes only, the two axes the code uses; Qt's exact cases for
  multiples of 90 degrees agree with \<open>cos\<close>/\<open>sin\<close> over the reals.
\<close>

record vertex =
  position :: vec3
  color :: vec3

type_synonym bbox = "vec3 \<times> vec3"

type_synonym mat4 = "real list list"

subsection \<open>Bounding box\<close>

text \<open>The sentinel box of both loaders: \<open>min = FLT_MAX\<close>, \<open>max = lowest()\<close> per axis.\<close>

definition bbox_init :: bbox where
  [geom_defs]: "bbox_init = (vec3_const flt_max, vec3_const (- flt_max))"

text \<open>The six \<open>setX(std::min(...))\<close>/\<open>setX(std::max(...))\<close> updates for one point.\<close>

definition bbox_add :: "bbox \<Rightarrow> vec3 \<Rightarrow> bbox" where
  [geom_defs]: "bbox_add b p =
     (\<lparr>vx = min (vx (fst b)) (vx p), vy = min (vy (fst b)) (vy p), vz = min (vz (fst b)) (vz p)\<rparr>,
      \<lparr>vx = max (vx (snd b)) (vx p), vy = max (vy (snd b)) (vy p), vz = max (vz (snd b)) (vz p)\<rparr>)"

definition bbox_of :: "vertex list \<Rightarrow> bbox" where
  "bbox_of vs = foldl (\<lambda>b v. bbox_add b (position v)) bbox_init vs"

text \<open>\<open>m_modelCenter = (min + max) * 0.5\<close>.\<close>

definition box_center :: "bbox \<Rightarrow> vec3" where
  [geom_defs]: "box_center b = vec3_scale (vec3_add (fst b) (snd b)) (1 / 2)"

text \<open>\<open>m_distance = (max - min).length() * 1.5\<close>.\<close>

definition box_distance :: "bbox \<Rightarrow> real" where
  [geom_defs]: "box_distance b = vec3_length (vec3_sub (snd b) (fst b)) * (3 / 2)"

text \<open>The box contains a point: the property the bounding box promises.\<close>

definition box_contains :: "bbox \<Rightarrow> vec3 \<Rightarrow> bool" where
  [geom_defs]: "box_contains b p \<longleftrightarrow> vec3_le (fst b) p \<and> vec3_le p (snd b)"

subsection \<open>Matrices\<close>

definition mat_of :: "(nat \<Rightarrow> nat \<Rightarrow> real) \<Rightarrow> mat4" where
  [geom_defs]: "mat_of f = map (\<lambda>i. map (f i) [0..<4]) [0..<4]"

definition mat_mul :: "mat4 \<Rightarrow> mat4 \<Rightarrow> mat4" where
  [geom_defs]: "mat_mul a b = mat_of (\<lambda>i j. \<Sum>k\<leftarrow>[0..<4]. a ! i ! k * b ! k ! j)"

text \<open>\<open>QMatrix4x4::setToIdentity\<close>, and the default-constructed matrix.\<close>

definition mat_ident :: mat4 where
  [geom_defs]: "mat_ident = mat_of (\<lambda>i j. if i = j then 1 else 0)"

definition translation :: "vec3 \<Rightarrow> mat4" where
  [geom_defs]: "translation v =
     [[1, 0, 0, vx v], [0, 1, 0, vy v], [0, 0, 1, vz v], [0, 0, 0, 1]]"

definition deg_rad :: "real \<Rightarrow> real" where
  [geom_defs]: "deg_rad a = a * pi / 180"

definition rotation_x :: "real \<Rightarrow> mat4" where
  [geom_defs]: "rotation_x a =
     (let c = cos (deg_rad a); s = sin (deg_rad a)
      in [[1, 0, 0, 0], [0, c, - s, 0], [0, s, c, 0], [0, 0, 0, 1]])"

definition rotation_y :: "real \<Rightarrow> mat4" where
  [geom_defs]: "rotation_y a =
     (let c = cos (deg_rad a); s = sin (deg_rad a)
      in [[c, 0, s, 0], [0, 1, 0, 0], [- s, 0, c, 0], [0, 0, 0, 1]])"

text \<open>\<open>m.translate(v)\<close>, \<open>m.rotate(a, 1, 0, 0)\<close> and \<open>m.rotate(a, 0, 1, 0)\<close>.\<close>

definition mat_translate :: "mat4 \<Rightarrow> vec3 \<Rightarrow> mat4" where
  [geom_defs]: "mat_translate m v = mat_mul m (translation v)"

definition mat_rotate_x :: "mat4 \<Rightarrow> real \<Rightarrow> mat4" where
  [geom_defs]: "mat_rotate_x m a = mat_mul m (rotation_x a)"

definition mat_rotate_y :: "mat4 \<Rightarrow> real \<Rightarrow> mat4" where
  [geom_defs]: "mat_rotate_y m a = mat_mul m (rotation_y a)"

text \<open>
  \<open>PointCloudRenderer::updateModelViewMatrix\<close>: the view matrix as a function
  of distance, rotation and model centre.
\<close>

definition mv_matrix :: "real \<Rightarrow> vec3 \<Rightarrow> vec3 \<Rightarrow> mat4" where
  "mv_matrix d rot c =
     mat_translate
       (mat_rotate_y
          (mat_rotate_x (mat_translate mat_ident \<lparr>vx = 0, vy = 0, vz = - d\<rparr>) (vx rot))
          (vy rot))
       (vec3_neg c)"

text \<open>
  \<open>QMatrix4x4::perspective(angle, aspect, near, far)\<close>: unchanged when the
  volume is empty, otherwise multiplied by the projection.
\<close>

definition perspective :: "mat4 \<Rightarrow> real \<Rightarrow> real \<Rightarrow> real \<Rightarrow> real \<Rightarrow> mat4" where
  [geom_defs]: "perspective m angle aspect near far =
     (if near = far \<or> aspect = 0 then m
      else
        (let r = deg_rad (angle / 2); s = sin r
         in if s = 0 then m
            else
              (let cot = cos r / s; clip = far - near
               in mat_mul m [[cot / aspect, 0, 0, 0], [0, cot, 0, 0],
                             [0, 0, - (near + far) / clip, - (2 * near * far) / clip],
                             [0, 0, -1, 0]])))"

text \<open>The image of a point under a matrix, in homogeneous coordinates.\<close>

definition mat_apply :: "mat4 \<Rightarrow> vec3 \<Rightarrow> real list" where
  [geom_defs]: "mat_apply m p =
     (let v = [vx p, vy p, vz p, 1] in map (\<lambda>i. \<Sum>k\<leftarrow>[0..<4]. m ! i ! k * v ! k) [0..<4])"

subsection \<open>Lemmas\<close>

lemma bbox_of_Nil [simp]: "bbox_of [] = bbox_init"
  by (simp add: bbox_of_def)

lemma bbox_of_snoc [simp]: "bbox_of (vs @ [v]) = bbox_add (bbox_of vs) (position v)"
  by (simp add: bbox_of_def)

text \<open>Each axis of the box is a running minimum or maximum.\<close>

lemma bbox_fold_axes:
  "foldl (\<lambda>b v. bbox_add b (position v)) b0 vs =
     (\<lparr>vx = foldl (\<lambda>m v. min m (vx (position v))) (vx (fst b0)) vs,
       vy = foldl (\<lambda>m v. min m (vy (position v))) (vy (fst b0)) vs,
       vz = foldl (\<lambda>m v. min m (vz (position v))) (vz (fst b0)) vs\<rparr>,
      \<lparr>vx = foldl (\<lambda>m v. max m (vx (position v))) (vx (snd b0)) vs,
       vy = foldl (\<lambda>m v. max m (vy (position v))) (vy (snd b0)) vs,
       vz = foldl (\<lambda>m v. max m (vz (position v))) (vz (snd b0)) vs\<rparr>)"
proof (induction vs arbitrary: b0)
  case Nil
  obtain lo hi where "b0 = (lo, hi)" by (cases b0)
  then show ?case by simp
next
  case (Cons v vs)
  show ?case using Cons.IH [of "bbox_add b0 (position v)"] by (simp add: bbox_add_def)
qed

text \<open>Every point folded into a box lies inside it.\<close>

lemma bbox_fold_contains:
  assumes "v \<in> set vs"
  shows "box_contains (foldl (\<lambda>b v. bbox_add b (position v)) b0 vs) (position v)"
  using foldl_min_le_elem [OF assms, of "\<lambda>v. vx (position v)"]
    foldl_min_le_elem [OF assms, of "\<lambda>v. vy (position v)"]
    foldl_min_le_elem [OF assms, of "\<lambda>v. vz (position v)"]
    foldl_max_ge_elem [OF assms, of "\<lambda>v. vx (position v)"]
    foldl_max_ge_elem [OF assms, of "\<lambda>v. vy (position v)"]
    foldl_max_ge_elem [OF assms, of "\<lambda>v. vz (position v)"]
  by (simp add: bbox_fold_axes box_contains_def vec3_le_def)

lemma bbox_of_contains: "v \<in> set vs \<Longrightarrow> box_contains (bbox_of vs) (position v)"
  unfolding bbox_of_def by (rule bbox_fold_contains)

text \<open>Once a point is in, the box is not empty: \<open>min \<le> max\<close> on every axis.\<close>

lemma bbox_of_ordered: "vs \<noteq> [] \<Longrightarrow> vec3_le (fst (bbox_of vs)) (snd (bbox_of vs))"
proof -
  assume "vs \<noteq> []"
  then obtain v where "v \<in> set vs" by (cases vs) auto
  then have "box_contains (bbox_of vs) (position v)" by (rule bbox_of_contains)
  then show ?thesis by (auto simp: box_contains_def intro: vec3_le_trans)
qed

text \<open>The centre of a non-empty box lies inside it.\<close>

lemma box_center_contained: "vec3_le (fst b) (snd b) \<Longrightarrow> box_contains b (box_center b)"
  by (simp add: box_contains_def box_center_def vec3_le_def vec3_add_def vec3_scale_def)

text \<open>
  Whatever the rotation, the view matrix of
  \<open>updateModelViewMatrix\<close> sends the model centre to the point at distance
  \<open>d\<close> straight ahead of the camera.
\<close>

lemma mv_matrix_center: "mat_apply (mv_matrix d rot c) c = [0, 0, - d, 1]"
  by (simp add: mv_matrix_def geom_defs Let_def upt_rec algebra_simps)

end
