(* ===== verification/PtsFormat.thy ===== *)
theory PtsFormat
  imports Geometry
begin

text \<open>
  The parsing loop of \<open>PointCloudRenderer::loadPtsFile\<close>
  (\<open>src/pointcloudrenderer.cpp\<close>, lines 245--281): each line is trimmed; blank
  lines and lines starting with \<open>#\<close> are skipped; a line with at least three
  white-space separated parts becomes a vertex whose position is read with
  \<open>QString::toFloat\<close> (0 for a malformed number) and whose colour is parts 4--6
  divided by 255 when there are six parts, white otherwise; shorter lines are
  skipped silently. The vertex is appended and the running bounding box updated.
  The effect of the whole load on the renderer is in theory \<open>Renderer\<close>.
\<close>

text \<open>One accepted line (lines 255--270): \<open>parts\<close> has at least three entries.\<close>

definition pts_record :: "string list \<Rightarrow> vertex" where
  "pts_record parts =
     (let pos = \<lparr>vx = qt_toFloat (parts ! 0), vy = qt_toFloat (parts ! 1), vz = qt_toFloat (parts ! 2)\<rparr>;
          col = (if 6 \<le> length parts
                 then \<lparr>vx = qt_toFloat (parts ! 3) / 255, vy = qt_toFloat (parts ! 4) / 255,
                       vz = qt_toFloat (parts ! 5) / 255\<rparr>
                 else vec3_const 1)
      in \<lparr>position = pos, color = col\<rparr>)"

text \<open>The \<open>while (!in.atEnd())\<close> loop, over the lines, with the vertices and the box.\<close>

fun pts_loop :: "vertex list \<times> bbox \<Rightarrow> string list \<Rightarrow> vertex list \<times> bbox" where
  "pts_loop acc [] = acc"
| "pts_loop (vs, b) (raw # ls) =
     (let line = trimmed raw
      in if line = [] \<or> hd line = CHR ''#'' then pts_loop (vs, b) ls
         else
           (let parts = split_ws line
            in if 3 \<le> length parts
               then (let v = pts_record parts in pts_loop (vs @ [v], bbox_add b (position v)) ls)
               else pts_loop (vs, b) ls))"

text \<open>The loop from an empty vertex list and the sentinel box (lines 236--243).\<close>

definition pts_parse :: "string \<Rightarrow> vertex list \<times> bbox" where
  "pts_parse text = pts_loop ([], bbox_init) (qt_lines text)"

text \<open>
  The lines that give a record, as the specification describes them: neither
  blank nor a comment, and with at least three tokens.
\<close>

definition pts_accepts :: "string \<Rightarrow> bool" where
  "pts_accepts raw \<longleftrightarrow>
     (let line = trimmed raw in \<not> (line = [] \<or> hd line = CHR ''#'') \<and> 3 \<le> length (split_ws line))"

definition pts_records :: "string list \<Rightarrow> vertex list" where
  "pts_records ls = map (\<lambda>raw. pts_record (split_ws (trimmed raw))) (filter pts_accepts ls)"

text \<open>
  Printing a cloud of natural-number points in the format: one line per point,
  each number followed by a blank, three coordinates optionally followed by three
  colour channels; and the vertex the specification gives such a point.
\<close>

definition pts_print_line :: "nat list \<Rightarrow> string" where
  "pts_print_line ns = concat (map (\<lambda>n. nat_to_dec n @ '' '') ns)"

definition pts_print :: "nat list list \<Rightarrow> string" where
  "pts_print nss = concat (map (\<lambda>ns. pts_print_line ns @ [CHR 0x0A]) nss)"

definition pts_point :: "nat list \<Rightarrow> vertex" where
  "pts_point ns =
     \<lparr>position = \<lparr>vx = real (ns ! 0), vy = real (ns ! 1), vz = real (ns ! 2)\<rparr>,
      color = (if length ns = 6 then \<lparr>vx = real (ns ! 3) / 255, vy = real (ns ! 4) / 255, vz = real (ns ! 5) / 255\<rparr>
               else vec3_const 1)\<rparr>"

subsection \<open>Lemmas\<close>

text \<open>The loop is a filter and a map, with the box folded over the new vertices.\<close>

lemma pts_loop_eq:
  "pts_loop (vs, b) ls =
     (vs @ pts_records ls, foldl (\<lambda>b v. bbox_add b (position v)) b (pts_records ls))"
proof (induction ls arbitrary: vs b)
  case Nil
  then show ?case by (simp add: pts_records_def)
next
  case (Cons raw ls)
  show ?case
    using Cons.IH by (simp add: pts_records_def pts_accepts_def Let_def)
qed

lemma digit_not_space: "is_digit c \<Longrightarrow> \<not> is_space c \<and> c \<noteq> CHR ''#'' \<and> c \<noteq> CHR 0x0A"
  by (auto simp: is_digit_def is_space_def)

lemma nat_to_dec_tokens: "nat_to_dec n \<noteq> [] \<and> (\<forall>c \<in> set (nat_to_dec n). \<not> is_space c)"
  using nat_to_dec_nonempty nat_to_dec_digits digit_not_space by blast

lemma split_ws_print_line: "split_ws (trimmed (pts_print_line ns)) = map nat_to_dec ns"
  unfolding split_ws_trimmed pts_print_line_def
  using split_ws_join [of "map nat_to_dec ns"] nat_to_dec_tokens by (simp add: comp_def)

lemma pts_print_line_hd:
  "ns \<noteq> [] \<Longrightarrow> pts_print_line ns \<noteq> [] \<and> is_digit (hd (pts_print_line ns))"
  using nat_to_dec_nonempty [of "hd ns"] nat_to_dec_digits [of _ "hd ns"]
  by (cases ns) (auto simp: pts_print_line_def)

lemma pts_accepts_print_line:
  assumes "length ns = 3 \<or> length ns = 6"
  shows "pts_accepts (pts_print_line ns) \<and> pts_record (split_ws (trimmed (pts_print_line ns))) = pts_point ns"
proof -
  have ne: "ns \<noteq> []" using assms by auto
  note h = pts_print_line_hd [OF ne]
  have t: "trimmed (pts_print_line ns) \<noteq> []"
    using split_ws_print_line [of ns] assms by (auto simp: split_ws_def)
  have hd: "hd (trimmed (pts_print_line ns)) = hd (pts_print_line ns)"
    using trimmed_hd [OF conjunct1 [OF h]] h t digit_not_space by blast
  have "pts_accepts (pts_print_line ns)"
    using t hd h digit_not_space assms by (auto simp: pts_accepts_def split_ws_print_line Let_def)
  moreover have "pts_record (split_ws (trimmed (pts_print_line ns))) = pts_point ns"
  proof -
    consider (p3) a b c where "ns = [a, b, c]" | (p6) a b c d e f where "ns = [a, b, c, d, e, f]"
      using assms by (auto simp: length_Suc_conv numeral_eq_Suc)
    then show ?thesis
      by cases (simp_all add: split_ws_print_line pts_record_def pts_point_def qt_toFloat_nat_to_dec Let_def)
  qed
  ultimately show ?thesis by simp
qed

lemma pts_print_line_no_lf: "CHR 0x0A \<notin> set (pts_print_line ns)"
proof -
  have "CHR 0x0A \<notin> set (nat_to_dec n)" for n
    using nat_to_dec_digits digit_not_space by blast
  then show ?thesis by (auto simp: pts_print_line_def)
qed

lemma pts_records_print:
  "list_all (\<lambda>ns. length ns = 3 \<or> length ns = 6) nss \<Longrightarrow> pts_records (map pts_print_line nss) = map pts_point nss"
  by (induction nss) (auto simp: pts_records_def pts_accepts_print_line)

subsection \<open>Properties\<close>

text \<open>
  (C1) The number of vertices a \<open>.pts\<close> file yields is the number
  of its lines that are neither blank nor comments and have at least three tokens.
\<close>

theorem pts_record_count:
  "length (fst (pts_parse text)) = length (filter pts_accepts (qt_lines text))"
  by (simp add: pts_parse_def pts_loop_eq pts_records_def)

text \<open>
  (C2) The bounding box computed while loading a \<open>.pts\<close> file
  contains the position of every loaded vertex on every axis.
\<close>

theorem pts_bbox_bounds:
  "v \<in> set (fst (pts_parse text)) \<Longrightarrow> box_contains (snd (pts_parse text)) (position v)"
  by (simp add: pts_parse_def pts_loop_eq bbox_of_contains [unfolded bbox_of_def])

theorem pts_bbox_bounds_witness:
  "\<lparr>position = \<lparr>vx = 1, vy = 2, vz = 3\<rparr>, color = vec3_const 1\<rparr> \<in> set (fst (pts_parse ''1 2 3\<newline>'')) \<and>
   box_contains (snd (pts_parse ''1 2 3\<newline>'')) \<lparr>vx = 1, vy = 2, vz = 3\<rparr>"
proof -
  have h: "\<lparr>position = \<lparr>vx = 1, vy = 2, vz = 3\<rparr>, color = vec3_const 1\<rparr> \<in> set (fst (pts_parse ''1 2 3\<newline>''))"
    by (simp add: pts_parse_def qt_lines_def pts_record_def split_ws_def stream_defs geom_defs Let_def)
  show ?thesis using h pts_bbox_bounds [OF h] by simp
qed

text \<open>
  (C4) Print/parse round trip: a cloud printed one point per line, with three
  natural coordinates and optionally three colour channels, loads back as the
  same points in order, positions exact, channels divided by 255, and white
  where no colour is given.
\<close>

theorem pts_roundtrip:
  assumes "list_all (\<lambda>ns. length ns = 3 \<or> length ns = 6) nss"
  shows "fst (pts_parse (pts_print nss)) = map pts_point nss"
proof -
  have "qt_lines (pts_print nss) = map pts_print_line nss"
    using qt_lines_lines [of "map pts_print_line nss"] pts_print_line_no_lf
    by (simp add: pts_print_def comp_def)
  then show ?thesis
    using pts_records_print [OF assms] by (simp add: pts_parse_def pts_loop_eq)
qed

theorem pts_roundtrip_witness:
  "list_all (\<lambda>ns. length ns = 3 \<or> length ns = 6) [[1, 2, 3, 255, 0, 0], [4, 5, 6]] \<and>
   fst (pts_parse (pts_print [[1, 2, 3, 255, 0, 0], [4, 5, 6]])) =
     [\<lparr>position = \<lparr>vx = 1, vy = 2, vz = 3\<rparr>, color = \<lparr>vx = 1, vy = 0, vz = 0\<rparr>\<rparr>,
      \<lparr>position = \<lparr>vx = 4, vy = 5, vz = 6\<rparr>, color = vec3_const 1\<rparr>]"
  using pts_roundtrip [of "[[1, 2, 3, 255, 0, 0], [4, 5, 6]]"] by (simp add: pts_point_def)

text \<open>
  Colour channels are divided by 255 but not clamped: a
  channel value of 510 gives the colour component 2, outside \<open>[0, 1]\<close>.
\<close>

theorem pts_color_unbounded:
  "color (hd (fst (pts_parse ''0 0 0 510 0 0''))) = \<lparr>vx = 2, vy = 0, vz = 0\<rparr>"
  by (simp add: pts_parse_def qt_lines_def pts_record_def split_ws_def stream_defs geom_defs Let_def)

text \<open>
  (C3) The parsing loop of \<open>loadPtsFile\<close> is equivalent to the
  reference definition: keep the accepted lines, map each to its record, and fold
  the bounding box over the records from the sentinel box.
\<close>

theorem pts_parse_eq:
  "pts_parse text = (pts_records (qt_lines text), bbox_of (pts_records (qt_lines text)))"
  by (simp add: pts_parse_def pts_loop_eq bbox_of_def)

end
