(* ===== verification/PlyHeader.thy ===== *)
theory PlyHeader
  imports Geometry
begin

text \<open>
  The header loop of \<open>PointCloudRenderer::loadPlyFile\<close>
  (\<open>src/pointcloudrenderer.cpp\<close>, lines 317--392). The local variables of the
  loop form the record \<open>ply_header\<close>; \<open>ply_header_line\<close> is the body for one
  line, \<open>ply_add_property\<close> the \<open>property\<close> branch, and \<open>ply_header_loop\<close> the
  \<open>while (std::getline(file, line))\<close> loop that stops at \<open>end_header\<close> or at
  the end of the input. A property of a type other than float/uchar is not stored
  at all (\<open>PROP_NONE\<close> properties are never pushed), so it shifts the positions
  of the properties after it.
\<close>

datatype prop_type = PROP_NONE | PROP_FLOAT | PROP_UCHAR

record prop_info =
  prop_name :: string
  ptype :: prop_type

record ply_header =
  numVertices :: int
  isBinary :: bool
  isBigEndian :: bool
  hasColors :: bool
  properties :: "prop_info list"
  xIndex :: int
  yIndex :: int
  zIndex :: int
  redIndex :: int
  greenIndex :: int
  blueIndex :: int

text \<open>The initial values of the locals (lines 318--331).\<close>

definition header_init :: ply_header where
  "header_init =
     \<lparr>numVertices = 0, isBinary = False, isBigEndian = False, hasColors = False, properties = [],
      xIndex = -1, yIndex = -1, zIndex = -1, redIndex = -1, greenIndex = -1, blueIndex = -1\<rparr>"

text \<open>\<open>line.find(pat) != std::string::npos\<close>.\<close>

fun has_substr :: "string \<Rightarrow> string \<Rightarrow> bool" where
  "has_substr pat [] = (pat = [])"
| "has_substr pat (c # cs) = (take (length pat) (c # cs) = pat \<or> has_substr pat cs)"

text \<open>The word an \<open>std::string\<close> extraction leaves in a fresh variable.\<close>

definition word_or_empty :: "string option \<Rightarrow> string" where
  "word_or_empty w = (case w of None \<Rightarrow> [] | Some s \<Rightarrow> s)"

text \<open>\<open>type == "float" || type == "float32"\<close> and so on (lines 363--369).\<close>

definition prop_type_of :: "string \<Rightarrow> prop_type" where
  "prop_type_of t =
     (if t = ''float'' \<or> t = ''float32'' then PROP_FLOAT
      else if t = ''uchar'' \<or> t = ''uint8'' then PROP_UCHAR
      else PROP_NONE)"

text \<open>A recognised property is bound by name and appended (lines 371--384).\<close>

definition ply_add_property :: "ply_header \<Rightarrow> string \<Rightarrow> prop_type \<Rightarrow> ply_header" where
  "ply_add_property h name t =
     (let i = int (length (properties h));
          h' = (if name = ''x'' then h\<lparr>xIndex := i\<rparr>
                else if name = ''y'' then h\<lparr>yIndex := i\<rparr>
                else if name = ''z'' then h\<lparr>zIndex := i\<rparr>
                else if name = ''red'' then h\<lparr>redIndex := i, hasColors := True\<rparr>
                else if name = ''green'' then h\<lparr>greenIndex := i\<rparr>
                else if name = ''blue'' then h\<lparr>blueIndex := i\<rparr>
                else h)
      in h'\<lparr>properties := properties h @ [\<lparr>prop_name = name, ptype = t\<rparr>]\<rparr>)"

text \<open>One header line other than \<open>end_header\<close> (lines 341--385).\<close>

definition ply_header_line :: "ply_header \<Rightarrow> string \<Rightarrow> ply_header" where
  "ply_header_line h line =
     (let (kw, ls) = read_word (open_stream line); keyword = word_or_empty kw
      in if keyword = ''format'' then
           (let format = word_or_empty (fst (read_word ls))
            in if format = ''ascii'' then h\<lparr>isBinary := False\<rparr>
               else if format = ''binary_little_endian'' then h\<lparr>isBinary := True, isBigEndian := False\<rparr>
               else if format = ''binary_big_endian'' then h\<lparr>isBinary := True, isBigEndian := True\<rparr>
               else h)
         else if keyword = ''element'' \<and> has_substr ''vertex'' line then
           (let n = fst (read_int (snd (read_word ls)))
            in h\<lparr>numVertices := (case n of None \<Rightarrow> numVertices h | Some v \<Rightarrow> v)\<rparr>)
         else if keyword = ''property'' then
           (let (t, ls2) = read_word ls; name = word_or_empty (fst (read_word ls2));
                pt = prop_type_of (word_or_empty t)
            in if pt \<noteq> PROP_NONE then ply_add_property h name pt else h)
         else h)"

text \<open>\<open>keyword == "end_header"\<close> for a line.\<close>

definition is_end_header :: "string \<Rightarrow> bool" where
  "is_end_header line \<longleftrightarrow> word_or_empty (fst (read_word (open_stream line))) = ''end_header''"

text \<open>
  The loop: the result is \<open>headerEnd\<close>, the locals, the file stream positioned
  after the header, and the last value of the variable \<open>line\<close>.
\<close>

function ply_header_loop ::
    "ply_header \<Rightarrow> istream \<Rightarrow> string \<Rightarrow> bool \<times> ply_header \<times> istream \<times> string" where
  "ply_header_loop h st line =
     (if is_fail (snd (std_getline st line))
      then (False, h, snd (std_getline st line), fst (std_getline st line))
      else if is_end_header (fst (std_getline st line))
      then (True, h, snd (std_getline st line), fst (std_getline st line))
      else ply_header_loop (ply_header_line h (fst (std_getline st line)))
             (snd (std_getline st line)) (fst (std_getline st line)))"
  by pat_completeness auto
termination
proof (relation "measure (\<lambda>(h, st, line). length (is_rest st))")
  show "wf (measure (\<lambda>(h, st, line). length (is_rest st)))" by simp
next
  fix h st line
  assume nf: "\<not> is_fail (snd (std_getline st line))"
  have "std_getline st line = (fst (std_getline st line), snd (std_getline st line))" by simp
  from this nf have "length (is_rest (snd (std_getline st line))) < length (is_rest st)"
    by (rule std_getline_progress)
  then show "((ply_header_line h (fst (std_getline st line)), snd (std_getline st line),
                fst (std_getline st line)), h, st, line)
               \<in> measure (\<lambda>(h, st, line). length (is_rest st))" by simp
qed

text \<open>The check after the loop (line 388): the header is usable.\<close>

definition header_ok :: "bool \<Rightarrow> ply_header \<Rightarrow> bool" where
  "header_ok headerEnd h \<longleftrightarrow>
     headerEnd \<and> xIndex h \<noteq> -1 \<and> yIndex h \<noteq> -1 \<and> zIndex h \<noteq> -1"

text \<open>
  The invariant of the loop locals: only recognised properties are stored, and a
  bound index names a stored property with the expected name.
\<close>

definition index_ok :: "prop_info list \<Rightarrow> int \<Rightarrow> string \<Rightarrow> bool" where
  "index_ok ps i nm \<longleftrightarrow> i = -1 \<or> (0 \<le> i \<and> nat i < length ps \<and> prop_name (ps ! nat i) = nm)"

definition header_wf :: "ply_header \<Rightarrow> bool" where
  "header_wf h \<longleftrightarrow>
     (\<forall>p \<in> set (properties h). ptype p \<noteq> PROP_NONE) \<and>
     index_ok (properties h) (xIndex h) ''x'' \<and> index_ok (properties h) (yIndex h) ''y'' \<and>
     index_ok (properties h) (zIndex h) ''z'' \<and> index_ok (properties h) (redIndex h) ''red'' \<and>
     index_ok (properties h) (greenIndex h) ''green'' \<and> index_ok (properties h) (blueIndex h) ''blue'' \<and>
     (hasColors h \<longrightarrow> redIndex h \<noteq> -1)"

text \<open>
  Headers made of given lines: \<open>prop_decl (t, n)\<close> is the line \<open>property t n\<close>, and \<open>header_text ls rest\<close>
  the lines \<open>ls\<close> followed by \<open>end_header\<close> and the body \<open>rest\<close>.
\<close>

definition prop_decl :: "string \<times> string \<Rightarrow> string" where
  "prop_decl d = ''property '' @ fst d @ '' '' @ snd d"

definition header_text :: "string list \<Rightarrow> string \<Rightarrow> string" where
  "header_text ls rest = concat (map (\<lambda>l. l @ [CHR 0x0A]) ls) @ ''end_header'' @ CHR 0x0A # rest"

subsection \<open>Lemmas\<close>

declare ply_header_loop.simps [simp del]

lemma header_wf_fields [simp]:
  "header_wf (h\<lparr>isBinary := b\<rparr>) = header_wf h"
  "header_wf (h\<lparr>isBigEndian := b\<rparr>) = header_wf h"
  "header_wf (h\<lparr>numVertices := n\<rparr>) = header_wf h"
  by (simp_all add: header_wf_def)

lemma index_ok_append: "index_ok ps i nm \<Longrightarrow> index_ok (ps @ [p]) i nm"
  by (auto simp: index_ok_def nth_append)

lemma index_ok_new: "index_ok (ps @ [\<lparr>prop_name = nm, ptype = t\<rparr>]) (int (length ps)) nm"
  by (simp add: index_ok_def)

lemma header_wf_init: "header_wf header_init"
  by (simp add: header_wf_def header_init_def index_ok_def)

lemma header_wf_add_property:
  assumes "header_wf h" and "t \<noteq> PROP_NONE"
  shows "header_wf (ply_add_property h name t)"
  using assms index_ok_new [of "properties h"]
  by (auto simp: header_wf_def ply_add_property_def Let_def index_ok_append)

lemma header_wf_line: "header_wf h \<Longrightarrow> header_wf (ply_header_line h line)"
  unfolding ply_header_line_def Let_def
  by (simp add: header_wf_add_property split: prod.splits)

lemma header_wf_loop:
  "header_wf h \<Longrightarrow> header_wf (fst (snd (ply_header_loop h st line)))"
proof (induction h st line rule: ply_header_loop.induct)
  case (1 h st line)
  show ?case
  proof (cases "is_fail (snd (std_getline st line)) \<or> is_end_header (fst (std_getline st line))")
    case True
    with "1.prems" show ?thesis by (subst ply_header_loop.simps) auto
  next
    case False
    with "1.prems" have "header_wf (ply_header_line h (fst (std_getline st line)))"
      by (simp add: header_wf_line)
    with False "1.IH" show ?thesis by (subst ply_header_loop.simps) simp
  qed
qed

lemma header_text_cons: "header_text (l # ls) rest = l @ CHR 0x0A # header_text ls rest"
  by (simp add: header_text_def)

lemma ply_header_line_prop:
  assumes "is_token t" and "is_token n"
  shows "ply_header_line h (prop_decl (t, n)) =
           (if prop_type_of t \<noteq> PROP_NONE then ply_add_property h n (prop_type_of t) else h)"
proof -
  have k: "read_word (open_stream (prop_decl (t, n))) =
             (Some ''property'', \<lparr>is_rest = CHR '' '' # t @ CHR '' '' # n, is_eof = False, is_fail = False\<rparr>)"
    using read_word_token [of "''property''" "[]" "'' '' @ t @ '' '' @ n"]
    by (simp add: prop_decl_def open_stream_def is_token_def is_space_def)
  have t1: "read_word \<lparr>is_rest = CHR '' '' # t @ CHR '' '' # n, is_eof = False, is_fail = False\<rparr> =
             (Some t, \<lparr>is_rest = CHR '' '' # n, is_eof = False, is_fail = False\<rparr>)"
    using read_word_token [OF assms(1), of "'' ''" "'' '' @ n"] by simp
  have n1: "read_word \<lparr>is_rest = CHR '' '' # n, is_eof = False, is_fail = False\<rparr> =
             (Some n, \<lparr>is_rest = [], is_eof = True, is_fail = False\<rparr>)"
    using read_word_token [OF assms(2), of "'' ''" "[]"] by simp
  show ?thesis by (simp add: ply_header_line_def k t1 n1 word_or_empty_def)
qed

lemma is_end_header_prop: "is_token t \<Longrightarrow> is_token n \<Longrightarrow> \<not> is_end_header (prop_decl (t, n))"
  using read_word_token [of "''property''" "[]" "'' '' @ t @ '' '' @ n"]
  by (simp add: is_end_header_def prop_decl_def open_stream_def is_token_def is_space_def word_or_empty_def)

lemma prop_decl_no_lf: "is_token t \<Longrightarrow> is_token n \<Longrightarrow> CHR 0x0A \<notin> set (prop_decl (t, n))"
  by (auto simp: prop_decl_def is_token_def list_all_iff is_space_def)

lemma is_end_header_end: "is_end_header ''end_header''"
  by (simp add: is_end_header_def read_word_def open_stream_def good_def is_space_def word_or_empty_def)

text \<open>
  On a header whose lines (each ended by a line feed) contain no
  \<open>end_header\<close> before the final one, the loop runs the body on every line in
  order, stops at \<open>end_header\<close> and leaves the stream just after it.
\<close>

lemma ply_header_loop_complete:
  assumes "list_all (\<lambda>l. CHR 0x0A \<notin> set l \<and> \<not> is_end_header l) ls"
  shows "ply_header_loop h (open_stream (header_text ls rest)) line =
           (True, fold (\<lambda>l h. ply_header_line h l) ls h, open_stream rest, ''end_header'')"
  using assms
proof (induction ls arbitrary: h line)
  case Nil
  have "std_getline (open_stream (header_text [] rest)) line = (''end_header'', open_stream rest)"
    unfolding header_text_def by (simp only: concat.simps list.map append_Nil) (rule std_getline_line, simp)
  then show ?case
    by (subst ply_header_loop.simps) (simp add: is_end_header_end)
next
  case (Cons l ls)
  have g: "std_getline (open_stream (header_text (l # ls) rest)) line = (l, open_stream (header_text ls rest))"
    using Cons.prems unfolding header_text_cons by (simp add: std_getline_line)
  show ?case
    using Cons.prems Cons.IH [of "ply_header_line h l" l]
    by (subst ply_header_loop.simps) (simp add: g)
qed

lemma ply_header_line_ply: "ply_header_line h ''ply'' = h"
proof -
  have "read_word (open_stream ''ply'') = (Some ''ply'', \<lparr>is_rest = [], is_eof = True, is_fail = False\<rparr>)"
    using read_word_token [of "''ply''" "[]" "[]"] by (simp add: open_stream_def is_token_def is_space_def)
  then show ?thesis by (simp add: ply_header_line_def word_or_empty_def)
qed

lemma properties_add_property [simp]:
  "properties (ply_add_property h n t) = properties h @ [\<lparr>prop_name = n, ptype = t\<rparr>]"
  by (simp add: ply_add_property_def Let_def)

lemma properties_fold_decls:
  "list_all (\<lambda>d. is_token (fst d) \<and> is_token (snd d)) ds \<Longrightarrow>
   properties (fold (\<lambda>l h. ply_header_line h l) (map prop_decl ds) h) =
     properties h @ map (\<lambda>d. \<lparr>prop_name = snd d, ptype = prop_type_of (fst d)\<rparr>)
                      (filter (\<lambda>d. prop_type_of (fst d) \<noteq> PROP_NONE) ds)"
  by (induction ds arbitrary: h) (auto simp: ply_header_line_prop)

lemma header_lines_ok:
  "list_all (\<lambda>d. is_token (fst d) \<and> is_token (snd d)) ds \<Longrightarrow>
   list_all (\<lambda>l. CHR 0x0A \<notin> set l \<and> \<not> is_end_header l) (''ply'' # map prop_decl ds)"
proof -
  have "\<not> is_end_header ''ply''"
    using read_word_token [of "''ply''" "[]" "[]"]
    by (simp add: is_end_header_def open_stream_def is_token_def is_space_def word_or_empty_def)
  moreover assume "list_all (\<lambda>d. is_token (fst d) \<and> is_token (snd d)) ds"
  ultimately show ?thesis
    using prop_decl_no_lf is_end_header_prop
    by (auto simp: list_all_iff)
qed


subsection \<open>Properties\<close>

text \<open>
  (C14) On a header \<open>ply\<close>, property declarations \<open>property t n\<close> and
  \<open>end_header\<close>, the header loop stops exactly at \<open>end_header\<close>, leaves the
  stream at the body, and stores the declared properties of recognised type
  (float/float32/uchar/uint8) in order, dropping the others: a property of any
  other type is not stored, so the index of every later property is its position
  among the recognised ones, not its column in the file.
\<close>

theorem ply_header_properties:
  assumes "list_all (\<lambda>d. is_token (fst d) \<and> is_token (snd d)) ds"
  shows "\<exists>h'. ply_header_loop header_init (open_stream (header_text (''ply'' # map prop_decl ds) rest)) line =
               (True, h', open_stream rest, ''end_header'') \<and>
             properties h' = map (\<lambda>d. \<lparr>prop_name = snd d, ptype = prop_type_of (fst d)\<rparr>)
                                 (filter (\<lambda>d. prop_type_of (fst d) \<noteq> PROP_NONE) ds)"
  using ply_header_loop_complete [OF header_lines_ok [OF assms], of header_init rest line]
    properties_fold_decls [OF assms, of header_init]
  by (simp add: ply_header_line_ply header_init_def)

theorem ply_header_properties_witness:
  "list_all (\<lambda>d. is_token (fst d) \<and> is_token (snd d)) [(''double'', ''t''), (''float'', ''x'')] \<and>
   (\<exists>h'. ply_header_loop header_init
          (open_stream (header_text (''ply'' # map prop_decl [(''double'', ''t''), (''float'', ''x'')]) ''0 1''))
          [] = (True, h', open_stream ''0 1'', ''end_header'') \<and>
        properties h' = [\<lparr>prop_name = ''x'', ptype = PROP_FLOAT\<rparr>])"
proof -
  have t: "list_all (\<lambda>d. is_token (fst d) \<and> is_token (snd d)) [(''double'', ''t''), (''float'', ''x'')]"
    by (simp add: is_token_def is_space_def)
  show ?thesis
    using t ply_header_properties [OF t, of "''0 1''" "[]"] by (simp add: prop_type_of_def)
qed

end
