(* ===== verification/PlyBody.thy ===== *)
theory PlyBody
  imports PlyHeader
begin

text \<open>
  The body of \<open>PointCloudRenderer::loadPlyFile\<close> after the header
  (\<open>src/pointcloudrenderer.cpp\<close>, lines 394--504) and the parse as a whole.
  \<^item> ASCII (lines 396--446): one \<open>std::getline\<close> per vertex, whose result is not
    checked, then one extraction per stored property from an
    \<open>istringstream\<close> of the line. An extraction that leaves its variable
    unwritten (the line has too few tokens) reads an uninitialised \<open>float\<close>/\<open>int\<close>
    in the C++ code; the model gives it the value 0.
  \<^item> Binary (lines 447--504): \<open>file.read\<close> of 4 bytes per float and 1 per uchar,
    reinterpreted on a little-endian host, so \<open>binary_big_endian\<close> files are read
    the same way, without a byte swap. After each vertex \<open>file.fail()\<close> is tested;
    a failure returns \<open>false\<close> with the vertices read so far left in place.
  Each vertex is appended and the running box updated (lines 436--445 and
  493--502). A 32-bit float is decoded by the IEEE-754 formula; the encodings with
  exponent 255 (infinities and NaN) are outside the model and are given the value
  of the same formula.
\<close>

text \<open>A power of two with an integer exponent.\<close>

definition pow2 :: "int \<Rightarrow> real" where
  "pow2 e = (if 0 \<le> e then 2 ^ nat e else 1 / 2 ^ nat (- e))"

text \<open>The 32-bit word in four little-endian bytes, and its value as a binary32.\<close>

definition le_word :: "string \<Rightarrow> nat" where
  "le_word bs = foldr (\<lambda>c n. of_char c + 256 * n) bs 0"

definition f32_value :: "nat \<Rightarrow> real" where
  "f32_value w =
     (let s = w div 2 ^ 31; e = (w div 2 ^ 23) mod 256; f = w mod 2 ^ 23;
          mag = (if e = 0 then real f * pow2 (-149) else (2 ^ 23 + real f) * pow2 (int e - 150))
      in if s = 1 then - mag else mag)"

text \<open>One field of the ASCII body (lines 404--412).\<close>

definition read_value_ascii :: "prop_type \<Rightarrow> istream \<Rightarrow> real \<times> istream" where
  "read_value_ascii t st =
     (case t of
        PROP_FLOAT \<Rightarrow> (let (v, st') = read_float st in (case v of None \<Rightarrow> 0 | Some x \<Rightarrow> x, st'))
      | PROP_UCHAR \<Rightarrow> (let (v, st') = read_int st in (case v of None \<Rightarrow> 0 | Some n \<Rightarrow> of_int n, st'))
      | PROP_NONE \<Rightarrow> (0, st))"

fun read_values_ascii :: "prop_info list \<Rightarrow> istream \<Rightarrow> real list" where
  "read_values_ascii [] st = []"
| "read_values_ascii (p # ps) st =
     (let (v, st') = read_value_ascii (ptype p) st in v # read_values_ascii ps st')"

text \<open>One field of the binary body (lines 455--463).\<close>

definition read_value_bin :: "prop_type \<Rightarrow> istream \<Rightarrow> real \<times> istream" where
  "read_value_bin t st =
     (case t of
        PROP_FLOAT \<Rightarrow>
          (let (b, st') = read_bytes 4 st in (case b of None \<Rightarrow> 0 | Some bs \<Rightarrow> f32_value (le_word bs), st'))
      | PROP_UCHAR \<Rightarrow>
          (let (b, st') = read_bytes 1 st in (case b of None \<Rightarrow> 0 | Some bs \<Rightarrow> real (le_word bs), st'))
      | PROP_NONE \<Rightarrow> (0, st))"

fun read_values_bin :: "prop_info list \<Rightarrow> istream \<Rightarrow> real list \<times> istream" where
  "read_values_bin [] st = ([], st)"
| "read_values_bin (p # ps) st =
     (let (v, st1) = read_value_bin (ptype p) st; (vs, st2) = read_values_bin ps st1 in (v # vs, st2))"

text \<open>
  A vertex from the values of its fields (lines 415--434 and 472--491): colour
  only when red, green and blue are all bound, divided by 255 when red is a uchar.
\<close>

definition ply_vertex :: "ply_header \<Rightarrow> real list \<Rightarrow> vertex" where
  "ply_vertex h vals =
     (let pos = \<lparr>vx = vals ! nat (xIndex h), vy = vals ! nat (yIndex h), vz = vals ! nat (zIndex h)\<rparr>;
          col = (if hasColors h \<and> redIndex h \<noteq> -1 \<and> greenIndex h \<noteq> -1 \<and> blueIndex h \<noteq> -1 then
                   (let c = \<lparr>vx = vals ! nat (redIndex h), vy = vals ! nat (greenIndex h),
                             vz = vals ! nat (blueIndex h)\<rparr>
                    in if ptype (properties h ! nat (redIndex h)) = PROP_UCHAR then vec3_scale c (1 / 255)
                       else c)
                 else vec3_const 1)
      in \<lparr>position = pos, color = col\<rparr>)"

text \<open>The ASCII loop: \<open>n\<close> iterations, the variable \<open>line\<close> threaded through.\<close>

fun ply_ascii_body ::
    "nat \<Rightarrow> ply_header \<Rightarrow> istream \<Rightarrow> string \<Rightarrow> vertex list \<times> bbox \<Rightarrow> vertex list \<times> bbox" where
  "ply_ascii_body 0 h st line acc = acc"
| "ply_ascii_body (Suc n) h st line (vs, b) =
     (let (line', st') = std_getline st line;
          v = ply_vertex h (read_values_ascii (properties h) (open_stream line'))
      in ply_ascii_body n h st' line' (vs @ [v], bbox_add b (position v)))"

text \<open>The binary loop; \<open>False\<close> with the partial result when a read failed.\<close>

fun ply_binary_body ::
    "nat \<Rightarrow> ply_header \<Rightarrow> istream \<Rightarrow> vertex list \<times> bbox \<Rightarrow> bool \<times> vertex list \<times> bbox" where
  "ply_binary_body 0 h st acc = (True, acc)"
| "ply_binary_body (Suc n) h st (vs, b) =
     (let (vals, st') = read_values_bin (properties h) st
      in if is_fail st' then (False, vs, b)
         else (let v = ply_vertex h vals in ply_binary_body n h st' (vs @ [v], bbox_add b (position v))))"

text \<open>
  What a parse leaves: a complete result, a rejected header (nothing read), or a
  binary body cut short, with the vertices and box accumulated before the failure.
\<close>

datatype ply_outcome =
    PlyOk "vertex list" bbox
  | PlyBadHeader
  | PlyTruncated "vertex list" bbox

text \<open>Lines 333--504 on the contents of an opened file.\<close>

definition ply_parse :: "string \<Rightarrow> ply_outcome" where
  "ply_parse content =
     (let (headerEnd, h, st, line) = ply_header_loop header_init (open_stream content) []
      in if \<not> header_ok headerEnd h then PlyBadHeader
         else if \<not> isBinary h then
           (let (vs, b) = ply_ascii_body (nat (numVertices h)) h st line ([], bbox_init) in PlyOk vs b)
         else
           (case ply_binary_body (nat (numVertices h)) h st ([], bbox_init) of
              (True, vs, b) \<Rightarrow> PlyOk vs b
            | (False, vs, b) \<Rightarrow> PlyTruncated vs b))"

text \<open>Bytes per field, per record, and the header a parse reads.\<close>

definition prop_width :: "prop_type \<Rightarrow> nat" where
  "prop_width t = (case t of PROP_FLOAT \<Rightarrow> 4 | PROP_UCHAR \<Rightarrow> 1 | PROP_NONE \<Rightarrow> 0)"

definition record_width :: "prop_info list \<Rightarrow> nat" where
  "record_width ps = sum_list (map (\<lambda>p. prop_width (ptype p)) ps)"

definition ply_header_of :: "string \<Rightarrow> ply_header" where
  "ply_header_of content = fst (snd (ply_header_loop header_init (open_stream content) []))"

subsection \<open>Lemmas\<close>

lemma ply_ascii_body_eq:
  "\<exists>new. ply_ascii_body n h st line (vs, b) = (vs @ new, foldl (\<lambda>b v. bbox_add b (position v)) b new)
         \<and> length new = n"
proof (induction n arbitrary: st line vs b)
  case 0
  show ?case by simp
next
  case (Suc n)
  obtain line' st' where g: "std_getline st line = (line', st')" by (cases "std_getline st line")
  define v where "v = ply_vertex h (read_values_ascii (properties h) (open_stream line'))"
  from Suc.IH [of st' line' "vs @ [v]" "bbox_add b (position v)"] obtain new where
    "ply_ascii_body n h st' line' (vs @ [v], bbox_add b (position v)) =
       (vs @ [v] @ new, foldl (\<lambda>b v. bbox_add b (position v)) (bbox_add b (position v)) new)"
    and "length new = n" by auto
  moreover have "ply_ascii_body (Suc n) h st line (vs, b) =
      ply_ascii_body n h st' line' (vs @ [v], bbox_add b (position v))"
    by (simp add: g v_def Let_def)
  ultimately show ?case by (intro exI [of _ "v # new"]) simp
qed

lemma read_value_bin_ok:
  "good st \<Longrightarrow> prop_width t \<le> length (is_rest st) \<Longrightarrow>
   good (snd (read_value_bin t st)) \<and> is_rest (snd (read_value_bin t st)) = drop (prop_width t) (is_rest st)"
  by (cases t) (auto simp: read_value_bin_def read_bytes_def prop_width_def good_def split: prod.splits)

lemma read_value_bin_short:
  "good st \<Longrightarrow> length (is_rest st) < prop_width t \<Longrightarrow> is_fail (snd (read_value_bin t st))"
  by (cases t) (auto simp: read_value_bin_def read_bytes_def prop_width_def good_def split: prod.splits)

lemma read_values_bin_fail_sticky: "is_fail st \<Longrightarrow> is_fail (snd (read_values_bin ps st))"
proof (induction ps arbitrary: st)
  case Nil
  then show ?case by simp
next
  case (Cons p ps)
  have "is_fail (snd (read_value_bin (ptype p) st))"
    using Cons.prems by (cases "ptype p") (simp_all add: read_value_bin_def read_bytes_def good_def split: prod.splits)
  obtain v st1 where r: "read_value_bin (ptype p) st = (v, st1)" by (cases "read_value_bin (ptype p) st")
  obtain vs2 st2 where r2: "read_values_bin ps st1 = (vs2, st2)" by (cases "read_values_bin ps st1")
  from \<open>is_fail (snd (read_value_bin (ptype p) st))\<close> r have "is_fail st1" by simp
  then have "is_fail (snd (read_values_bin ps st1))" by (rule Cons.IH)
  with r r2 show ?case by simp
qed

text \<open>A record is read exactly when its bytes are there.\<close>

lemma read_values_bin_width:
  "good st \<Longrightarrow>
   (if record_width ps \<le> length (is_rest st)
    then good (snd (read_values_bin ps st)) \<and>
         is_rest (snd (read_values_bin ps st)) = drop (record_width ps) (is_rest st)
    else is_fail (snd (read_values_bin ps st)))"
proof (induction ps arbitrary: st)
  case Nil
  then show ?case by (simp add: record_width_def)
next
  case (Cons p ps)
  obtain v st1 where r: "read_value_bin (ptype p) st = (v, st1)" by (cases "read_value_bin (ptype p) st")
  have w: "record_width (p # ps) = prop_width (ptype p) + record_width ps"
    by (simp add: record_width_def)
  show ?case
  proof (cases "prop_width (ptype p) \<le> length (is_rest st)")
    case True
    with read_value_bin_ok [OF Cons.prems True] r
    have g1: "good st1" and r1: "is_rest st1 = drop (prop_width (ptype p)) (is_rest st)" by simp_all
    obtain vs2 st2 where r2: "read_values_bin ps st1 = (vs2, st2)" by (cases "read_values_bin ps st1")
    have eq: "read_values_bin (p # ps) st = (v # vs2, st2)" by (simp add: r r2)
    from Cons.IH [OF g1] have IH:
      "(if record_width ps \<le> length (is_rest st1) then good st2 \<and> is_rest st2 = drop (record_width ps) (is_rest st1)
        else is_fail st2)" unfolding r2 snd_conv .
    from IH r1 True have
      "(if record_width ps \<le> length (is_rest st) - prop_width (ptype p)
        then good st2 \<and> is_rest st2 = drop (record_width ps + prop_width (ptype p)) (is_rest st)
        else is_fail st2)" by simp
    with eq w True show ?thesis by (auto simp: add.commute split: if_splits)
  next
    case False
    then have "length (is_rest st) < prop_width (ptype p)" by simp
    from read_value_bin_short [OF Cons.prems this] r have "is_fail st1" by simp
    then have "is_fail (snd (read_values_bin ps st1))" by (rule read_values_bin_fail_sticky)
    moreover obtain vs2 st2 where r2: "read_values_bin ps st1 = (vs2, st2)" by (cases "read_values_bin ps st1")
    ultimately show ?thesis using r w False by simp
  qed
qed

lemma ply_binary_body_spec:
  "good st \<Longrightarrow> ply_binary_body n h st (vs, b) = (ok, vs', b') \<Longrightarrow>
   (ok \<longleftrightarrow> n * record_width (properties h) \<le> length (is_rest st)) \<and>
   (\<exists>new. vs' = vs @ new \<and> b' = foldl (\<lambda>b v. bbox_add b (position v)) b new \<and>
          (if ok then length new = n else length new < n))"
proof (induction n arbitrary: st vs b)
  case 0
  then show ?case by simp
next
  case (Suc n)
  let ?w = "record_width (properties h)"
  obtain vals st' where r: "read_values_bin (properties h) st = (vals, st')"
    by (cases "read_values_bin (properties h) st")
  show ?case
  proof (cases "?w \<le> length (is_rest st)")
    case True
    with read_values_bin_width [OF Suc.prems(1), of "properties h"] r
    have g: "good st'" and rest: "is_rest st' = drop ?w (is_rest st)" by simp_all
    then have nf: "\<not> is_fail st'" by (simp add: good_def)
    define v where "v = ply_vertex h vals"
    from Suc.prems(2) r nf have run: "ply_binary_body n h st' (vs @ [v], bbox_add b (position v)) = (ok, vs', b')"
      by (simp add: v_def Let_def)
    from Suc.IH [OF g run] obtain new where
      ok: "ok \<longleftrightarrow> n * ?w \<le> length (is_rest st')" and
      vs': "vs' = (vs @ [v]) @ new" and b': "b' = foldl (\<lambda>b v. bbox_add b (position v)) (bbox_add b (position v)) new" and
      len: "if ok then length new = n else length new < n" by blast
    have "ok \<longleftrightarrow> Suc n * ?w \<le> length (is_rest st)" using ok rest True by auto
    moreover have "vs' = vs @ (v # new) \<and> b' = foldl (\<lambda>b v. bbox_add b (position v)) b (v # new) \<and>
        (if ok then length (v # new) = Suc n else length (v # new) < Suc n)"
      using vs' b' len by simp
    ultimately show ?thesis by blast
  next
    case False
    with read_values_bin_width [OF Suc.prems(1), of "properties h"] r have "is_fail st'" by simp
    with Suc.prems(2) r have "ok = False" and "vs' = vs" and "b' = b" by simp_all
    moreover have "\<not> Suc n * ?w \<le> length (is_rest st)" using False by (auto intro: order_trans)
    ultimately show ?thesis by (intro conjI exI [of _ "[]"]) simp_all
  qed
qed

lemma ply_binary_body_acc:
  "ply_binary_body n h st (vs, b) = (ok, vs', b') \<Longrightarrow>
   \<exists>new. vs' = vs @ new \<and> b' = foldl (\<lambda>b v. bbox_add b (position v)) b new \<and>
          (if ok then length new = n else length new < n)"
proof (induction n arbitrary: st vs b)
  case 0
  then show ?case by simp
next
  case (Suc n)
  obtain vals st' where r: "read_values_bin (properties h) st = (vals, st')"
    by (cases "read_values_bin (properties h) st")
  show ?case
  proof (cases "is_fail st'")
    case True
    with Suc.prems r have "ok = False" and "vs' = vs" and "b' = b" by simp_all
    then show ?thesis by (intro exI [of _ "[]"]) simp
  next
    case False
    define v where "v = ply_vertex h vals"
    from Suc.prems r False have "ply_binary_body n h st' (vs @ [v], bbox_add b (position v)) = (ok, vs', b')"
      by (simp add: v_def Let_def)
    from Suc.IH [OF this] obtain new where
      "vs' = (vs @ [v]) @ new" and "b' = foldl (\<lambda>b v. bbox_add b (position v)) (bbox_add b (position v)) new"
      and "if ok then length new = n else length new < n" by blast
    then show ?thesis by (intro exI [of _ "v # new"]) simp
  qed
qed

text \<open>The three outcomes of a parse, with what each carries.\<close>

lemma ply_parse_cases:
  obtains (bad) "ply_parse c = PlyBadHeader"
  | (ascii) vs b where "ply_parse c = PlyOk vs b" and "\<not> isBinary (ply_header_of c)"
      and "b = bbox_of vs" and "length vs = nat (numVertices (ply_header_of c))"
  | (binary) ok vs b where "isBinary (ply_header_of c)"
      and "ply_parse c = (if ok then PlyOk vs b else PlyTruncated vs b)"
      and "b = bbox_of vs"
      and "if ok then length vs = nat (numVertices (ply_header_of c)) else length vs < nat (numVertices (ply_header_of c))"
proof -
  obtain he h st line where loop: "ply_header_loop header_init (open_stream c) [] = (he, h, st, line)"
    by (cases "ply_header_loop header_init (open_stream c) []") auto
  have hof: "ply_header_of c = h" by (simp add: ply_header_of_def loop)
  show ?thesis
  proof (cases "header_ok he h")
    case False
    then show ?thesis using bad by (simp add: ply_parse_def loop)
  next
    case ok: True
    show ?thesis
    proof (cases "isBinary h")
      case False
      obtain new where run: "ply_ascii_body (nat (numVertices h)) h st line ([], bbox_init) =
          ([] @ new, foldl (\<lambda>b v. bbox_add b (position v)) bbox_init new)" and len: "length new = nat (numVertices h)"
        using ply_ascii_body_eq by blast
      show ?thesis
        by (rule ascii [of new "bbox_of new"]) (simp_all add: ply_parse_def loop ok False run hof len bbox_of_def)
    next
      case True
      obtain okb vs b where run: "ply_binary_body (nat (numVertices h)) h st ([], bbox_init) = (okb, vs, b)"
        by (cases "ply_binary_body (nat (numVertices h)) h st ([], bbox_init)") auto
      from ply_binary_body_acc [OF run] obtain new where
        vs: "vs = [] @ new" and bb: "b = foldl (\<lambda>b v. bbox_add b (position v)) bbox_init new"
        and len: "if okb then length new = nat (numVertices h) else length new < nat (numVertices h)"
        by blast
      show ?thesis
      proof (rule binary [of okb vs b])
        show "isBinary (ply_header_of c)" using True hof by simp
        show "ply_parse c = (if okb then PlyOk vs b else PlyTruncated vs b)"
          using run ok True by (simp add: ply_parse_def loop)
        show "b = bbox_of vs" using vs bb by (simp add: bbox_of_def)
        show "if okb then length vs = nat (numVertices (ply_header_of c))
              else length vs < nat (numVertices (ply_header_of c))" using vs len hof by simp
      qed
    qed
  qed
qed

lemma f32_value_zero_bytes: "f32_value (le_word [CHR 0x00, CHR 0x00, CHR 0x00, CHR 0x00]) = 0"
  unfolding le_word_def f32_value_def Let_def by simp

lemma ply_parse_truncated_example:
  "ply_parse (''ply\<newline>format binary_little_endian 1.0\<newline>element vertex 2\<newline>property float x\<newline>property float y\<newline>property float z\<newline>end_header\<newline>'' @ replicate 12 (CHR 0x00))
     = PlyTruncated [\<lparr>position = vec3_zero, color = vec3_const 1\<rparr>] (vec3_zero, vec3_zero)"
proof -
  define H where "H = header_init\<lparr>numVertices := 2, isBinary := True,
    properties := [\<lparr>prop_name = ''x'', ptype = PROP_FLOAT\<rparr>, \<lparr>prop_name = ''y'', ptype = PROP_FLOAT\<rparr>,
                   \<lparr>prop_name = ''z'', ptype = PROP_FLOAT\<rparr>], xIndex := 0, yIndex := 1, zIndex := 2\<rparr>"
  have hl: "ply_header_loop header_init (open_stream (''ply\<newline>format binary_little_endian 1.0\<newline>element vertex 2\<newline>property float x\<newline>property float y\<newline>property float z\<newline>end_header\<newline>'' @ replicate 12 (CHR 0x00))) []
    = (True, H, \<lparr>is_rest = replicate 12 (CHR 0x00), is_eof = False, is_fail = False\<rparr>, ''end_header'')"
    unfolding H_def by code_simp
  have bb: "ply_binary_body 2 H \<lparr>is_rest = replicate 12 (CHR 0x00), is_eof = False, is_fail = False\<rparr> ([], bbox_init)
    = (False, [\<lparr>position = vec3_zero, color = vec3_const 1\<rparr>], (vec3_zero, vec3_zero))"
    unfolding H_def
    by (simp add: numeral_eq_Suc read_value_bin_def read_bytes_def good_def f32_value_zero_bytes
        ply_vertex_def header_init_def bbox_add_def bbox_init_def vec3_zero_def vec3_const_def flt_max_def Let_def)
  have p: ?thesis
  proof -
    have hk: "header_ok True H" and bin: "isBinary H" and nv: "nat (numVertices H) = 2"
      by (simp_all add: header_ok_def H_def header_init_def)
    show ?thesis unfolding ply_parse_def hl using hk bin by (simp add: nv bb)
  qed
  show ?thesis by (rule p)
qed

lemma ply_parse_missing_z_example:
  "ply_parse ''ply\<newline>format ascii 1.0\<newline>element vertex 1\<newline>property float x\<newline>property float y\<newline>end_header\<newline>0 0\<newline>'' = PlyBadHeader"
  by code_simp

text \<open>The box a parse carries is the box of its vertices.\<close>

lemma ply_parse_box:
  "ply_parse c = PlyOk vs b \<Longrightarrow> b = bbox_of vs"
  "ply_parse c = PlyTruncated vs b \<Longrightarrow> b = bbox_of vs"
  by (cases c rule: ply_parse_cases; auto split: if_splits)+

text \<open>On a stream that is no longer good, \<open>std::getline\<close> keeps \<open>line\<close> and sets \<open>failbit\<close>.\<close>

lemma std_getline_not_good: "\<not> good st \<Longrightarrow> std_getline st line = (line, st\<lparr>is_fail := True\<rparr>) \<and> \<not> good (st\<lparr>is_fail := True\<rparr>)"
  by (simp add: std_getline_def good_def)


subsection \<open>Properties\<close>

text \<open>
  (C17) From a good stream, the binary body reads all
  \<open>n\<close> vertices exactly when \<open>n\<close> records of the declared width are left.
\<close>

theorem ply_binary_complete_iff:
  "good st \<Longrightarrow>
   fst (ply_binary_body n h st acc) \<longleftrightarrow> n * record_width (properties h) \<le> length (is_rest st)"
proof -
  assume g: "good st"
  obtain vs b where acc: "acc = (vs, b)" by (cases acc)
  obtain ok vs' b' where run: "ply_binary_body n h st (vs, b) = (ok, vs', b')"
    by (cases "ply_binary_body n h st (vs, b)") auto
  from ply_binary_body_spec [OF g run] run acc show ?thesis by simp
qed

theorem ply_binary_complete_iff_witness:
  "good (open_stream (replicate 12 (CHR 0x00))) \<and>
   (fst (ply_binary_body 2 (header_init\<lparr>properties := [\<lparr>prop_name = ''x'', ptype = PROP_FLOAT\<rparr>,
        \<lparr>prop_name = ''y'', ptype = PROP_FLOAT\<rparr>, \<lparr>prop_name = ''z'', ptype = PROP_FLOAT\<rparr>]\<rparr>)
        (open_stream (replicate 12 (CHR 0x00))) ([], bbox_init)) \<longleftrightarrow> False)"
proof -
  have g: "good (open_stream (replicate 12 (CHR 0x00)))" by (simp add: good_def open_stream_def)
  have w: "\<not> 2 * record_width [\<lparr>prop_name = ''x'', ptype = PROP_FLOAT\<rparr>,
        \<lparr>prop_name = ''y'', ptype = PROP_FLOAT\<rparr>, \<lparr>prop_name = ''z'', ptype = PROP_FLOAT\<rparr>]
      \<le> length (is_rest (open_stream (replicate 12 (CHR 0x00))))"
    by (simp add: record_width_def prop_width_def open_stream_def)
  show ?thesis using g w ply_binary_complete_iff [OF g] by simp
qed

text \<open>
  (C11) A successful parse yields exactly the declared number of
  vertices, and its box is the box of those vertices.
\<close>

theorem ply_ok_count_box:
  "ply_parse c = PlyOk vs b \<Longrightarrow> b = bbox_of vs \<and> length vs = nat (numVertices (ply_header_of c))"
  by (cases c rule: ply_parse_cases) (auto split: if_splits)

theorem ply_ok_count_box_witness:
  "ply_parse ''ply\<newline>format ascii 1.0\<newline>element vertex 1\<newline>property float x\<newline>property float y\<newline>property float z\<newline>end_header\<newline>1 2 3\<newline>''
     = PlyOk [\<lparr>position = \<lparr>vx = 1, vy = 2, vz = 3\<rparr>, color = vec3_const 1\<rparr>]
         (\<lparr>vx = 1, vy = 2, vz = 3\<rparr>, \<lparr>vx = 1, vy = 2, vz = 3\<rparr>) \<and>
   (\<lparr>vx = 1, vy = 2, vz = 3\<rparr>, \<lparr>vx = 1, vy = 2, vz = 3\<rparr>) =
     bbox_of [\<lparr>position = \<lparr>vx = 1, vy = 2, vz = 3\<rparr>, color = vec3_const 1\<rparr>] \<and>
   length [\<lparr>position = \<lparr>vx = 1, vy = 2, vz = 3\<rparr>, color = vec3_const 1\<rparr>] =
     nat (numVertices (ply_header_of ''ply\<newline>format ascii 1.0\<newline>element vertex 1\<newline>property float x\<newline>property float y\<newline>property float z\<newline>end_header\<newline>1 2 3\<newline>''))"
proof -
  have h: "ply_parse ''ply\<newline>format ascii 1.0\<newline>element vertex 1\<newline>property float x\<newline>property float y\<newline>property float z\<newline>end_header\<newline>1 2 3\<newline>''
     = PlyOk [\<lparr>position = \<lparr>vx = 1, vy = 2, vz = 3\<rparr>, color = vec3_const 1\<rparr>]
         (\<lparr>vx = 1, vy = 2, vz = 3\<rparr>, \<lparr>vx = 1, vy = 2, vz = 3\<rparr>)"
    by code_simp
  show ?thesis using h ply_ok_count_box [OF h] by simp
qed

text \<open>
  (C18) A binary body that ends early is reported as a
  failure that nevertheless carries the vertices read before the end, fewer than
  declared, with their box.
\<close>

theorem ply_truncated_partial:
  "ply_parse c = PlyTruncated vs b \<Longrightarrow> b = bbox_of vs \<and> length vs < nat (numVertices (ply_header_of c))"
  by (cases c rule: ply_parse_cases) (auto split: if_splits)

theorem ply_truncated_partial_witness:
  "ply_parse (''ply\<newline>format binary_little_endian 1.0\<newline>element vertex 2\<newline>property float x\<newline>property float y\<newline>property float z\<newline>end_header\<newline>'' @ replicate 12 (CHR 0x00))
     = PlyTruncated [\<lparr>position = vec3_zero, color = vec3_const 1\<rparr>] (vec3_zero, vec3_zero) \<and>
   (vec3_zero, vec3_zero) = bbox_of [\<lparr>position = vec3_zero, color = vec3_const 1\<rparr>] \<and>
   length [\<lparr>position = vec3_zero, color = vec3_const 1\<rparr>] <
     nat (numVertices (ply_header_of (''ply\<newline>format binary_little_endian 1.0\<newline>element vertex 2\<newline>property float x\<newline>property float y\<newline>property float z\<newline>end_header\<newline>'' @ replicate 12 (CHR 0x00))))"
  using ply_parse_truncated_example ply_truncated_partial [OF ply_parse_truncated_example] by simp

text \<open>
  (C33) The ASCII body does not check \<open>std::getline\<close>: once the input is
  exhausted (after a last line without line feed \<open>eofbit\<close> is set), every
  remaining declared record is parsed again from the last line read, so the
  cloud ends in copies of that line's vertex, all added to the box.
\<close>

theorem ply_ascii_repeats_last_line:
  assumes "\<not> good st"
  shows "ply_ascii_body n h st line (vs, b) =
           (vs @ replicate n (ply_vertex h (read_values_ascii (properties h) (open_stream line))),
            foldl (\<lambda>b v. bbox_add b (position v)) b
              (replicate n (ply_vertex h (read_values_ascii (properties h) (open_stream line)))))"
  using assms
proof (induction n arbitrary: st vs b)
  case 0
  then show ?case by simp
next
  case (Suc n)
  let ?v = "ply_vertex h (read_values_ascii (properties h) (open_stream line))"
  have g: "std_getline st line = (line, st\<lparr>is_fail := True\<rparr>)" and ng: "\<not> good (st\<lparr>is_fail := True\<rparr>)"
    using std_getline_not_good [OF Suc.prems] by simp_all
  have "ply_ascii_body (Suc n) h st line (vs, b) =
          ply_ascii_body n h (st\<lparr>is_fail := True\<rparr>) line (vs @ [?v], bbox_add b (position ?v))"
    by (simp add: g Let_def)
  also have "\<dots> = ((vs @ [?v]) @ replicate n ?v,
                     foldl (\<lambda>b v. bbox_add b (position v)) (bbox_add b (position ?v)) (replicate n ?v))"
    by (rule Suc.IH [OF ng])
  finally show ?case by simp
qed

theorem ply_ascii_repeats_last_line_witness:
  "\<not> good \<lparr>is_rest = [], is_eof = True, is_fail = False\<rparr> \<and>
   fst (ply_ascii_body 2 header_init \<lparr>is_rest = [], is_eof = True, is_fail = False\<rparr> ''1 2 3'' ([], bbox_init)) =
     replicate 2 (ply_vertex header_init (read_values_ascii [] (open_stream ''1 2 3'')))"
  using ply_ascii_repeats_last_line [of "\<lparr>is_rest = [], is_eof = True, is_fail = False\<rparr>" 2 header_init "''1 2 3''" "[]" bbox_init]
  by (simp add: good_def header_init_def)

end
