(* ===== verification/Renderer.thy ===== *)
theory Renderer
  imports PtsFormat PlyBody
begin

text \<open>
  The state and handlers of \<open>PointCloudRenderer\<close> (\<open>src/pointcloudrenderer.h\<close>,
  \<open>src/pointcloudrenderer.cpp\<close>) that the code implements: construction,
  \<open>initializeGL\<close>, \<open>resizeGL\<close>, \<open>paintGL\<close>, the two loaders, \<open>resetView\<close>,
  \<open>updateModelViewMatrix\<close>, \<open>setViewport\<close>/\<open>getViewportParameters\<close> and the
  mouse and wheel handlers. The record \<open>renderer\<close> holds the members these use;
  the contents of the OpenGL vertex buffer are the field \<open>m_vbo\<close>, and a pending
  \<open>QWidget::update()\<close> is the flag \<open>m_updatePending\<close>. Files are read from a
  \<open>filesystem\<close>, a map from path to contents (\<open>None\<close>: the open fails).
  The painter overlay is in theory \<open>Overlay\<close>, the shaders in
  \<open>GLPipeline\<close> and the OpenGL calls in \<open>GLState\<close>. The members declared
  without an implementation (colour modes, filters, measuring tools) are not
  modelled.
\<close>

type_synonym filesystem = "string \<Rightarrow> string option"

text \<open>\<open>ViewportObject::ViewportParameters\<close> (\<open>src/viewportobject.h\<close>).\<close>

record viewport_params =
  vp_modelViewMatrix :: mat4
  vp_projectionMatrix :: mat4
  vp_cameraDistance :: real
  vp_rotation :: vec3
  vp_modelCenter :: vec3
  vp_pointSize :: real
  vp_boundingBoxMin :: vec3
  vp_boundingBoxMax :: vec3

record renderer =
  m_vertices :: "vertex list"
  m_vbo :: "vertex list"
  m_projection :: mat4
  m_modelView :: mat4
  m_distance :: real
  m_rotation :: vec3
  m_lastMousePos :: "int \<times> int"
  m_pointSize :: real
  m_boundingBoxMin :: vec3
  m_boundingBoxMax :: vec3
  m_modelCenter :: vec3
  m_updatePending :: bool

text \<open>The constructor; \<open>QMatrix4x4\<close>, \<open>QVector3D\<close> and \<open>QPoint\<close> default to identity and zero.\<close>

definition renderer_new :: renderer where
  "renderer_new =
     \<lparr>m_vertices = [], m_vbo = [], m_projection = mat_ident, m_modelView = mat_ident,
      m_distance = 5, m_rotation = vec3_zero, m_lastMousePos = (0, 0), m_pointSize = 2,
      m_boundingBoxMin = vec3_zero, m_boundingBoxMax = vec3_zero, m_modelCenter = vec3_zero,
      m_updatePending = False\<rparr>"

definition request_update :: "renderer \<Rightarrow> renderer" where
  "request_update s = s\<lparr>m_updatePending := True\<rparr>"

definition updateModelViewMatrix :: "renderer \<Rightarrow> renderer" where
  "updateModelViewMatrix s = s\<lparr>m_modelView := mv_matrix (m_distance s) (m_rotation s) (m_modelCenter s)\<rparr>"

definition resetView :: "renderer \<Rightarrow> renderer" where
  "resetView s = request_update (updateModelViewMatrix (s\<lparr>m_rotation := vec3_zero\<rparr>))"

text \<open>\<open>setupVertexBuffers\<close>: the buffer is filled only from a non-empty vertex list.\<close>

definition setupVertexBuffers :: "renderer \<Rightarrow> renderer" where
  "setupVertexBuffers s = (if m_vertices s = [] then s else s\<lparr>m_vbo := m_vertices s\<rparr>)"

definition initializeGL :: "renderer \<Rightarrow> renderer" where
  "initializeGL s = resetView (setupVertexBuffers s)"

definition resizeGL :: "int \<Rightarrow> int \<Rightarrow> renderer \<Rightarrow> renderer" where
  "resizeGL w h s =
     s\<lparr>m_projection := perspective mat_ident 45 (real_of_int w / real_of_int h) (1 / 100) 1000\<rparr>"

definition paintGL :: "renderer \<Rightarrow> renderer" where
  "paintGL s = (if m_vertices s = [] then s else updateModelViewMatrix s)"

text \<open>
  What \<open>glDrawArrays(GL_POINTS, 0, m_vertices.size())\<close> in \<open>paintGL\<close> reads:
  the first \<open>m_vertices.size()\<close> entries of the buffer.
\<close>

definition drawn_points :: "renderer \<Rightarrow> vertex list" where
  "drawn_points s = (if m_vertices s = [] then [] else take (length (m_vertices s)) (m_vbo s))"

definition setViewport :: "viewport_params \<Rightarrow> renderer \<Rightarrow> renderer" where
  "setViewport p s =
     updateModelViewMatrix
       (s\<lparr>m_modelView := vp_modelViewMatrix p, m_projection := vp_projectionMatrix p,
          m_distance := vp_cameraDistance p, m_rotation := vp_rotation p,
          m_modelCenter := vp_modelCenter p, m_pointSize := vp_pointSize p,
          m_boundingBoxMin := vp_boundingBoxMin p, m_boundingBoxMax := vp_boundingBoxMax p\<rparr>)"

definition getViewportParameters :: "renderer \<Rightarrow> viewport_params" where
  "getViewportParameters s =
     \<lparr>vp_modelViewMatrix = m_modelView s, vp_projectionMatrix = m_projection s,
      vp_cameraDistance = m_distance s, vp_rotation = m_rotation s,
      vp_modelCenter = m_modelCenter s, vp_pointSize = m_pointSize s,
      vp_boundingBoxMin = m_boundingBoxMin s, vp_boundingBoxMax = m_boundingBoxMax s\<rparr>"

definition mousePressEvent :: "int \<times> int \<Rightarrow> renderer \<Rightarrow> renderer" where
  "mousePressEvent pos s = s\<lparr>m_lastMousePos := pos\<rparr>"

text \<open>A drag with the left button orbits: half a degree per pixel.\<close>

definition mouseMoveEvent :: "int \<times> int \<Rightarrow> bool \<Rightarrow> renderer \<Rightarrow> renderer" where
  "mouseMoveEvent pos leftButton s =
     (let s' = (if leftButton then
                  (let dx = fst pos - fst (m_lastMousePos s); dy = snd pos - snd (m_lastMousePos s);
                       r = m_rotation s
                   in request_update (updateModelViewMatrix
                        (s\<lparr>m_rotation := r\<lparr>vy := vy r + real_of_int dx * (1 / 2),
                                             vx := vx r + real_of_int dy * (1 / 2)\<rparr>\<rparr>)))
                else s)
      in s'\<lparr>m_lastMousePos := pos\<rparr>)"

text \<open>\<open>std::max(0.1f, std::min(d, 1000.0f))\<close>.\<close>

definition clamp_distance :: "real \<Rightarrow> real" where
  "clamp_distance d = max (1 / 10) (min d 1000)"

text \<open>A wheel event with vertical angle delta \<open>a\<close> (120 per notch) zooms by \<open>0.9\<close> per notch.\<close>

definition wheelEvent :: "int \<Rightarrow> renderer \<Rightarrow> renderer" where
  "wheelEvent a s =
     (let delta = real_of_int a / 120; d = m_distance s * (9 / 10) powr delta
      in request_update (updateModelViewMatrix (s\<lparr>m_distance := clamp_distance d\<rparr>)))"

definition getPointCount :: "renderer \<Rightarrow> nat" where
  "getPointCount s = length (m_vertices s)"

definition getBoundingBoxSize :: "renderer \<Rightarrow> vec3" where
  "getBoundingBoxSize s = vec3_sub (m_boundingBoxMax s) (m_boundingBoxMin s)"

text \<open>
  The common end of both loaders (lines 285--294 and 508--517): centre and
  distance from the box, buffer upload, \<open>resetView()\<close>, \<open>update()\<close>.
\<close>

definition finish_load :: "renderer \<Rightarrow> renderer" where
  "finish_load s =
     (let b = (m_boundingBoxMin s, m_boundingBoxMax s)
      in request_update (resetView (setupVertexBuffers
           (s\<lparr>m_modelCenter := box_center b, m_distance := box_distance b\<rparr>))))"

text \<open>Vertices and box as the parsing loop leaves them.\<close>

definition set_cloud :: "vertex list \<Rightarrow> bbox \<Rightarrow> renderer \<Rightarrow> renderer" where
  "set_cloud vs b s = s\<lparr>m_vertices := vs, m_boundingBoxMin := fst b, m_boundingBoxMax := snd b\<rparr>"

definition loadPtsFile :: "filesystem \<Rightarrow> string \<Rightarrow> renderer \<Rightarrow> bool \<times> renderer" where
  "loadPtsFile fs fname s =
     (case fs fname of
        None \<Rightarrow> (False, s)
      | Some text \<Rightarrow> (let (vs, b) = pts_parse text in (True, finish_load (set_cloud vs b s))))"

text \<open>
  \<open>loadPlyFile\<close>: the vertices are cleared and the box reset before the header is
  read (lines 308--315), so a rejected or truncated file leaves that state behind.
\<close>

definition loadPlyFile :: "filesystem \<Rightarrow> string \<Rightarrow> renderer \<Rightarrow> bool \<times> renderer" where
  "loadPlyFile fs fname s =
     (case fs fname of
        None \<Rightarrow> (False, s)
      | Some content \<Rightarrow>
          (let s0 = set_cloud [] bbox_init s
           in case ply_parse content of
                PlyBadHeader \<Rightarrow> (False, s0)
              | PlyTruncated vs b \<Rightarrow> (False, set_cloud vs b s0)
              | PlyOk vs b \<Rightarrow> (True, finish_load (set_cloud vs b s0))))"

text \<open>The events the widget receives, and one step of the renderer for each.\<close>

datatype event =
    InitializeGL
  | ResizeGL int int
  | PaintGL
  | MousePress "int \<times> int"
  | MouseMove "int \<times> int" bool
  | MouseRelease
  | Wheel int
  | ResetView
  | SetViewport viewport_params
  | LoadPts string
  | LoadPly string

fun renderer_step :: "filesystem \<Rightarrow> renderer \<Rightarrow> event \<Rightarrow> renderer" where
  "renderer_step fs s InitializeGL = initializeGL s"
| "renderer_step fs s (ResizeGL w h) = resizeGL w h s"
| "renderer_step fs s PaintGL = paintGL s"
| "renderer_step fs s (MousePress p) = mousePressEvent p s"
| "renderer_step fs s (MouseMove p b) = mouseMoveEvent p b s"
| "renderer_step fs s MouseRelease = s"
| "renderer_step fs s (Wheel a) = wheelEvent a s"
| "renderer_step fs s ResetView = resetView s"
| "renderer_step fs s (SetViewport p) = setViewport p s"
| "renderer_step fs s (LoadPts f) = snd (loadPtsFile fs f s)"
| "renderer_step fs s (LoadPly f) = snd (loadPlyFile fs f s)"

fun renderer_run :: "filesystem \<Rightarrow> renderer \<Rightarrow> event list \<Rightarrow> renderer" where
  "renderer_run fs s [] = s"
| "renderer_run fs s (e # es) = renderer_run fs (renderer_step fs s e) es"

text \<open>The view matrix agrees with distance, rotation and centre.\<close>

definition mv_ok :: "renderer \<Rightarrow> bool" where
  "mv_ok s \<longleftrightarrow> m_modelView s = mv_matrix (m_distance s) (m_rotation s) (m_modelCenter s)"

text \<open>The buffer holds the vertices whenever there are vertices to draw.\<close>

definition gpu_consistent :: "renderer \<Rightarrow> bool" where
  "gpu_consistent s \<longleftrightarrow> m_vertices s = [] \<or> m_vbo s = m_vertices s"

subsection \<open>Lemmas\<close>

lemma mv_ok_updateModelViewMatrix [simp]: "mv_ok (updateModelViewMatrix s)"
  by (simp add: mv_ok_def updateModelViewMatrix_def)

lemma mv_ok_request_update [simp]: "mv_ok (request_update s) = mv_ok s"
  by (simp add: mv_ok_def request_update_def)

lemma mv_ok_frame [simp]:
  "mv_ok (s\<lparr>m_projection := m\<rparr>) = mv_ok s" "mv_ok (s\<lparr>m_lastMousePos := p\<rparr>) = mv_ok s"
  by (simp_all add: mv_ok_def)

lemma mv_ok_resetView [simp]: "mv_ok (resetView s)"
  by (simp add: resetView_def)

lemma mv_ok_set_cloud [simp]: "mv_ok (set_cloud vs b s) = mv_ok s"
  by (simp add: mv_ok_def set_cloud_def)

lemma mv_ok_finish_load [simp]: "mv_ok (finish_load s)"
  by (simp add: finish_load_def Let_def)

lemma mv_ok_loadPly: "mv_ok s \<Longrightarrow> mv_ok (snd (loadPlyFile fs f s))"
  by (simp add: loadPlyFile_def Let_def split: option.splits ply_outcome.splits)

lemma mv_ok_step: "mv_ok s \<Longrightarrow> mv_ok (renderer_step fs s e)"
proof (cases e)
  case (LoadPly f)
  assume "mv_ok s"
  with LoadPly show ?thesis by (simp add: mv_ok_loadPly)
qed (auto simp: initializeGL_def resizeGL_def paintGL_def mousePressEvent_def mouseMoveEvent_def
   wheelEvent_def setViewport_def loadPtsFile_def Let_def split: option.splits prod.splits)

lemma mv_ok_run: "mv_ok s \<Longrightarrow> mv_ok (renderer_run fs s es)"
  by (induction es arbitrary: s) (simp_all add: mv_ok_step)

lemma finish_load_fields [simp]:
  "m_vertices (finish_load s) = m_vertices s"
  "m_boundingBoxMin (finish_load s) = m_boundingBoxMin s"
  "m_boundingBoxMax (finish_load s) = m_boundingBoxMax s"
  "m_rotation (finish_load s) = vec3_zero"
  "m_distance (finish_load s) = box_distance (m_boundingBoxMin s, m_boundingBoxMax s)"
  "m_modelCenter (finish_load s) = box_center (m_boundingBoxMin s, m_boundingBoxMax s)"
  "m_vbo (finish_load s) = (if m_vertices s = [] then m_vbo s else m_vertices s)"
  "m_updatePending (finish_load s)"
  by (simp_all add: finish_load_def resetView_def request_update_def updateModelViewMatrix_def
      setupVertexBuffers_def Let_def)

lemma set_cloud_fields [simp]:
  "m_vertices (set_cloud vs b s) = vs"
  "m_boundingBoxMin (set_cloud vs b s) = fst b"
  "m_boundingBoxMax (set_cloud vs b s) = snd b"
  "m_vbo (set_cloud vs b s) = m_vbo s"
  "m_distance (set_cloud vs b s) = m_distance s"
  "m_modelCenter (set_cloud vs b s) = m_modelCenter s"
  "m_rotation (set_cloud vs b s) = m_rotation s"
  by (simp_all add: set_cloud_def)

lemma set_cloud_twice [simp]: "set_cloud vs b (set_cloud vs' b' s) = set_cloud vs b s"
  by (simp add: set_cloud_def)

lemma loadPtsFile_some:
  "fs f = Some text \<Longrightarrow>
   loadPtsFile fs f s =
     (True, finish_load (set_cloud (pts_records (qt_lines text)) (bbox_of (pts_records (qt_lines text))) s))"
  by (simp add: loadPtsFile_def pts_parse_def pts_loop_eq bbox_of_def)

lemma loadPlyFile_open_fail: "fs f = None \<Longrightarrow> loadPlyFile fs f s = (False, s)"
  by (simp add: loadPlyFile_def)

lemma loadPlyFile_outcomes:
  assumes "fs f = Some c"
  shows "ply_parse c = PlyBadHeader \<Longrightarrow> loadPlyFile fs f s = (False, set_cloud [] bbox_init s)"
    and "ply_parse c = PlyTruncated vs b \<Longrightarrow> loadPlyFile fs f s = (False, set_cloud vs b s)"
    and "ply_parse c = PlyOk vs b \<Longrightarrow> loadPlyFile fs f s = (True, finish_load (set_cloud vs b s))"
  using assms by (simp_all add: loadPlyFile_def)

lemma gpu_consistent_finish_load [simp]: "gpu_consistent (finish_load s)"
  by (simp add: gpu_consistent_def)

lemma gpu_consistent_frame [simp]:
  "gpu_consistent (updateModelViewMatrix s) = gpu_consistent s"
  "gpu_consistent (request_update s) = gpu_consistent s"
  "gpu_consistent (s\<lparr>m_projection := m\<rparr>) = gpu_consistent s"
  "gpu_consistent (s\<lparr>m_lastMousePos := p\<rparr>) = gpu_consistent s"
  "gpu_consistent (s\<lparr>m_distance := d\<rparr>) = gpu_consistent s"
  "gpu_consistent (s\<lparr>m_rotation := r\<rparr>) = gpu_consistent s"
  by (simp_all add: gpu_consistent_def updateModelViewMatrix_def request_update_def)

lemma bbox_of_empty [simp]: "bbox_of [] = bbox_init"
  by (simp add: bbox_of_def)

text \<open>The box of points that all lie at one place within the float range is that point.\<close>

lemma bbox_of_same:
  assumes "vs \<noteq> []" and "list_all (\<lambda>v. position v = p) vs"
    and "\<bar>vx p\<bar> \<le> flt_max" "\<bar>vy p\<bar> \<le> flt_max" "\<bar>vz p\<bar> \<le> flt_max"
  shows "bbox_of vs = (p, p)"
proof -
  have sp: "\<lparr>vx = vx p, vy = vy p, vz = vz p\<rparr> = p" by (cases p) simp
  have step: "foldl (\<lambda>b v. bbox_add b (position v)) (p, p) ws = (p, p)" if "list_all (\<lambda>v. position v = p) ws" for ws
    using that by (induction ws) (simp_all add: bbox_add_def sp)
  obtain v ws where vs: "vs = v # ws" using assms(1) by (cases vs) auto
  have "bbox_add bbox_init p = (p, p)"
    using assms(3-5) sp by (simp add: bbox_add_def bbox_init_def vec3_const_def abs_le_iff min_def max_def)
  then show ?thesis
    using step [of ws] assms(2) vs by (simp add: bbox_of_def)
qed

subsection \<open>Properties\<close>

text \<open>
  (C5) Whatever the wheel delta and the state, the camera
  distance after a wheel event lies in \<open>[0.1, 1000]\<close>.
\<close>

theorem wheel_distance_bounds:
  "1 / 10 \<le> m_distance (wheelEvent a s) \<and> m_distance (wheelEvent a s) \<le> 1000"
  by (simp add: wheelEvent_def clamp_distance_def request_update_def updateModelViewMatrix_def Let_def)

text \<open>
  (C7) Once \<open>initializeGL\<close> has run, the model-view
  matrix agrees with distance, rotation and centre after every sequence of events.
\<close>

theorem mv_ok_after_initialize:
  "mv_ok (renderer_run fs renderer_new (InitializeGL # es))"
  by (simp add: mv_ok_run initializeGL_def)

text \<open>
  Resetting the view twice is the same as resetting it once.
\<close>

theorem resetView_idem: "resetView (resetView s) = resetView s"
  by (simp add: resetView_def request_update_def updateModelViewMatrix_def)

text \<open>
  (C12) Whenever a PLY file can be opened, whatever it holds, the renderer's box
  afterwards is the box of its vertices: the sentinel box with no vertices after a
  rejected header, the box of the partial cloud after a truncated body, the box of
  the cloud after a success. No outcome leaves the box of an earlier cloud.
\<close>

theorem ply_load_box_consistent:
  assumes "fs f = Some c"
  shows "(m_boundingBoxMin (snd (loadPlyFile fs f s)), m_boundingBoxMax (snd (loadPlyFile fs f s))) =
           bbox_of (m_vertices (snd (loadPlyFile fs f s)))"
proof (cases "ply_parse c")
  case PlyBadHeader
  with assms show ?thesis by (simp add: loadPlyFile_def)
next
  case (PlyTruncated vs b)
  with assms ply_parse_box(2) [OF PlyTruncated] show ?thesis by (simp add: loadPlyFile_def)
next
  case (PlyOk vs b)
  with assms ply_parse_box(1) [OF PlyOk] show ?thesis by (simp add: loadPlyFile_def)
qed

theorem ply_load_box_consistent_witness:
  "(\<lambda>_. Some ''ply\<newline>format ascii 1.0\<newline>element vertex 1\<newline>property float x\<newline>property float y\<newline>end_header\<newline>0 0\<newline>'') ''c.ply'' =
     Some ''ply\<newline>format ascii 1.0\<newline>element vertex 1\<newline>property float x\<newline>property float y\<newline>end_header\<newline>0 0\<newline>'' \<and>
   (m_boundingBoxMin (snd (loadPlyFile (\<lambda>_. Some ''ply\<newline>format ascii 1.0\<newline>element vertex 1\<newline>property float x\<newline>property float y\<newline>end_header\<newline>0 0\<newline>'')
      ''c.ply'' (finish_load (set_cloud [\<lparr>position = vec3_zero, color = vec3_const 1\<rparr>] (vec3_zero, vec3_zero) renderer_new)))),
    m_boundingBoxMax (snd (loadPlyFile (\<lambda>_. Some ''ply\<newline>format ascii 1.0\<newline>element vertex 1\<newline>property float x\<newline>property float y\<newline>end_header\<newline>0 0\<newline>'')
      ''c.ply'' (finish_load (set_cloud [\<lparr>position = vec3_zero, color = vec3_const 1\<rparr>] (vec3_zero, vec3_zero) renderer_new))))) =
   bbox_init"
  using ply_load_box_consistent [of "\<lambda>_. Some ''ply\<newline>format ascii 1.0\<newline>element vertex 1\<newline>property float x\<newline>property float y\<newline>end_header\<newline>0 0\<newline>''"
      "''c.ply''" "''ply\<newline>format ascii 1.0\<newline>element vertex 1\<newline>property float x\<newline>property float y\<newline>end_header\<newline>0 0\<newline>''"
      "finish_load (set_cloud [\<lparr>position = vec3_zero, color = vec3_const 1\<rparr>] (vec3_zero, vec3_zero) renderer_new)"]
  by (simp add: loadPlyFile_def ply_parse_missing_z_example)

text \<open>
  When the file cannot be opened, both loaders
  report failure and leave the renderer unchanged.
\<close>

theorem load_open_fail_unchanged:
  "fs f = None \<Longrightarrow> loadPlyFile fs f s = (False, s) \<and> loadPtsFile fs f s = (False, s)"
  by (simp add: loadPlyFile_open_fail loadPtsFile_def)

text \<open>
  (C13) After a binary PLY load that ends early the buffer is not re-uploaded:
  \<open>paintGL\<close> draws the first \<open>m_vertices.size()\<close> entries of the
  buffer of the previous cloud, not the partial vertices, and the draw count
  exceeds what the buffer holds exactly when the previous cloud was smaller.
\<close>

theorem ply_truncated_stale_draw:
  assumes "fs f = Some c" and "ply_parse c = PlyTruncated vs b"
  shows "m_vertices (paintGL (snd (loadPlyFile fs f s))) = vs \<and>
         drawn_points (paintGL (snd (loadPlyFile fs f s))) = take (length vs) (m_vbo s) \<and>
         (length (drawn_points (paintGL (snd (loadPlyFile fs f s)))) < getPointCount (paintGL (snd (loadPlyFile fs f s)))
            \<longleftrightarrow> length (m_vbo s) < length vs)"
  using assms
  by (auto simp: loadPlyFile_def paintGL_def updateModelViewMatrix_def drawn_points_def getPointCount_def)

theorem ply_truncated_stale_draw_witness:
  "(\<lambda>_. Some (''ply\<newline>format binary_little_endian 1.0\<newline>element vertex 2\<newline>property float x\<newline>property float y\<newline>property float z\<newline>end_header\<newline>'' @ replicate 12 (CHR 0x00))) ''t.ply'' =
     Some (''ply\<newline>format binary_little_endian 1.0\<newline>element vertex 2\<newline>property float x\<newline>property float y\<newline>property float z\<newline>end_header\<newline>'' @ replicate 12 (CHR 0x00)) \<and>
   drawn_points (paintGL (snd (loadPlyFile (\<lambda>_. Some (''ply\<newline>format binary_little_endian 1.0\<newline>element vertex 2\<newline>property float x\<newline>property float y\<newline>property float z\<newline>end_header\<newline>'' @ replicate 12 (CHR 0x00))) ''t.ply'' renderer_new))) = [] \<and>
   getPointCount (paintGL (snd (loadPlyFile (\<lambda>_. Some (''ply\<newline>format binary_little_endian 1.0\<newline>element vertex 2\<newline>property float x\<newline>property float y\<newline>property float z\<newline>end_header\<newline>'' @ replicate 12 (CHR 0x00))) ''t.ply'' renderer_new))) = 1"
  using ply_truncated_stale_draw [OF _ ply_parse_truncated_example,
      of "\<lambda>_. Some (''ply\<newline>format binary_little_endian 1.0\<newline>element vertex 2\<newline>property float x\<newline>property float y\<newline>property float z\<newline>end_header\<newline>'' @ replicate 12 (CHR 0x00))"
         "''t.ply''" renderer_new]
  by (simp add: renderer_new_def getPointCount_def)

text \<open>
  (C27) Parameters set and read back are the
  ones set, except the model-view matrix, which is recomputed from distance,
  rotation and centre.
\<close>

theorem getViewportParameters_setViewport:
  "getViewportParameters (setViewport p s) =
     p\<lparr>vp_modelViewMatrix := mv_matrix (vp_cameraDistance p) (vp_rotation p) (vp_modelCenter p)\<rparr>"
  by (simp add: setViewport_def getViewportParameters_def updateModelViewMatrix_def)

text \<open>
  (C29) Loading a \<open>.pts\<close> file whose points all lie at one place (a single
  point, or repeated copies) succeeds with camera distance 0, below the 0.1 the
  wheel handler enforces: the loader does not clamp.
\<close>

theorem load_pts_identical_points_distance:
  assumes "fs f = Some t" and "pts_records (qt_lines t) \<noteq> []"
    and "list_all (\<lambda>v. position v = p) (pts_records (qt_lines t))"
    and "\<bar>vx p\<bar> \<le> flt_max" "\<bar>vy p\<bar> \<le> flt_max" "\<bar>vz p\<bar> \<le> flt_max"
  shows "fst (loadPtsFile fs f s) \<and> m_distance (snd (loadPtsFile fs f s)) = 0"
  using loadPtsFile_some [where fs = fs and f = f, OF assms(1)] bbox_of_same [OF assms(2-6)]
  by (simp add: box_distance_def vec3_sub_def vec3_length_def)

theorem load_pts_identical_points_distance_witness:
  "(\<lambda>_. Some ''1 2 3\<newline>1 2 3'') ''p.pts'' = Some ''1 2 3\<newline>1 2 3'' \<and>
   pts_records (qt_lines ''1 2 3\<newline>1 2 3'') \<noteq> [] \<and>
   list_all (\<lambda>v. position v = \<lparr>vx = 1, vy = 2, vz = 3\<rparr>) (pts_records (qt_lines ''1 2 3\<newline>1 2 3'')) \<and>
   \<bar>vx \<lparr>vx = 1, vy = 2, vz = 3\<rparr>\<bar> \<le> flt_max \<and> \<bar>vy \<lparr>vx = 1, vy = 2, vz = (3::real)\<rparr>\<bar> \<le> flt_max \<and>
   \<bar>vz \<lparr>vx = 1, vy = 2, vz = (3::real)\<rparr>\<bar> \<le> flt_max \<and>
   fst (loadPtsFile (\<lambda>_. Some ''1 2 3\<newline>1 2 3'') ''p.pts'' renderer_new) \<and>
   m_distance (snd (loadPtsFile (\<lambda>_. Some ''1 2 3\<newline>1 2 3'') ''p.pts'' renderer_new)) = 0"
proof -
  have r: "pts_records (qt_lines ''1 2 3\<newline>1 2 3'') =
      [\<lparr>position = \<lparr>vx = 1, vy = 2, vz = 3\<rparr>, color = vec3_const 1\<rparr>, \<lparr>position = \<lparr>vx = 1, vy = 2, vz = 3\<rparr>, color = vec3_const 1\<rparr>]"
    by (simp add: pts_records_def pts_accepts_def qt_lines_def pts_record_def split_ws_def stream_defs Let_def)
  have f: "\<bar>1::real\<bar> \<le> flt_max \<and> \<bar>2::real\<bar> \<le> flt_max \<and> \<bar>3::real\<bar> \<le> flt_max"
    by (simp add: flt_max_def)
  show ?thesis
    using load_pts_identical_points_distance [of "\<lambda>_. Some ''1 2 3\<newline>1 2 3''" "''p.pts''" "''1 2 3\<newline>1 2 3''"
        "\<lparr>vx = 1, vy = 2, vz = 3\<rparr>" renderer_new] r f
    by simp
qed

text \<open>
  (C32) Every event keeps the vertex buffer equal to the
  vertices (when there are any), except a PLY load that ends truncated.
\<close>

theorem gpu_consistent_step:
  assumes "gpu_consistent s"
    and "\<And>f c vs b. e = LoadPly f \<Longrightarrow> fs f = Some c \<Longrightarrow> ply_parse c \<noteq> PlyTruncated vs b"
  shows "gpu_consistent (renderer_step fs s e)"
proof (cases e)
  case (LoadPly f)
  show ?thesis
  proof (cases "fs f")
    case None
    with LoadPly assms(1) show ?thesis by (simp add: loadPlyFile_open_fail)
  next
    case (Some c)
    with LoadPly assms(2) have nt: "\<And>vs b. ply_parse c \<noteq> PlyTruncated vs b" by blast
    show ?thesis
    proof (cases "ply_parse c")
      case PlyBadHeader
      with Some LoadPly show ?thesis by (simp add: loadPlyFile_outcomes gpu_consistent_def)
    next
      case (PlyOk vs b)
      with Some LoadPly show ?thesis by (simp add: loadPlyFile_outcomes)
    next
      case (PlyTruncated vs b)
      with nt show ?thesis by blast
    qed
  qed
next
  case (SetViewport p)
  with assms(1) show ?thesis by (simp add: setViewport_def gpu_consistent_def updateModelViewMatrix_def)
qed (use assms(1) in \<open>auto simp: initializeGL_def resizeGL_def paintGL_def mousePressEvent_def
   mouseMoveEvent_def wheelEvent_def resetView_def setupVertexBuffers_def loadPtsFile_def Let_def
   gpu_consistent_def request_update_def updateModelViewMatrix_def split: option.splits prod.splits\<close>)

theorem gpu_consistent_step_witness:
  "gpu_consistent (renderer_step (\<lambda>_. Some ''1 2 3'') renderer_new (LoadPts ''a.pts''))"
  using gpu_consistent_step [of renderer_new "LoadPts ''a.pts''" "\<lambda>_. Some ''1 2 3''"]
  by (simp add: gpu_consistent_def renderer_new_def)

text \<open>
  (C26) Loading a readable \<open>.pts\<close> file succeeds, stores the
  records of its accepted lines and their bounding box, centres the view on the
  box at 1.5 times its diagonal with the rotation reset, uploads the vertices to
  the buffer and leaves a consistent view matrix.
\<close>

theorem load_pts_frames:
  assumes "fs f = Some text"
  shows "fst (loadPtsFile fs f s) \<and>
    m_vertices (snd (loadPtsFile fs f s)) = pts_records (qt_lines text) \<and>
    (m_boundingBoxMin (snd (loadPtsFile fs f s)), m_boundingBoxMax (snd (loadPtsFile fs f s)))
      = bbox_of (pts_records (qt_lines text)) \<and>
    m_modelCenter (snd (loadPtsFile fs f s)) = box_center (bbox_of (pts_records (qt_lines text))) \<and>
    m_distance (snd (loadPtsFile fs f s)) = box_distance (bbox_of (pts_records (qt_lines text))) \<and>
    m_rotation (snd (loadPtsFile fs f s)) = vec3_zero \<and>
    gpu_consistent (snd (loadPtsFile fs f s)) \<and> mv_ok (snd (loadPtsFile fs f s))"
  by (simp add: loadPtsFile_some [where fs = fs and f = f, OF assms])

theorem load_pts_frames_witness:
  "fst (loadPtsFile (\<lambda>_. Some ''1 2 3'') ''a.pts'' renderer_new) \<and>
   m_vertices (snd (loadPtsFile (\<lambda>_. Some ''1 2 3'') ''a.pts'' renderer_new))
     = [\<lparr>position = \<lparr>vx = 1, vy = 2, vz = 3\<rparr>, color = vec3_const 1\<rparr>] \<and>
   m_modelCenter (snd (loadPtsFile (\<lambda>_. Some ''1 2 3'') ''a.pts'' renderer_new)) = \<lparr>vx = 1, vy = 2, vz = 3\<rparr>"
proof -
  have r: "pts_records (qt_lines ''1 2 3'') = [\<lparr>position = \<lparr>vx = 1, vy = 2, vz = 3\<rparr>, color = vec3_const 1\<rparr>]"
    by (simp add: pts_records_def pts_accepts_def qt_lines_def pts_record_def split_ws_def stream_defs Let_def)
  have c: "box_center (bbox_of [\<lparr>position = \<lparr>vx = 1, vy = 2, vz = 3\<rparr>, color = vec3_const 1\<rparr>]) = \<lparr>vx = 1, vy = 2, vz = 3\<rparr>"
    by (simp add: bbox_of_def geom_defs flt_max_def)
  show ?thesis using load_pts_frames [of "\<lambda>_. Some ''1 2 3''" "''a.pts''" "''1 2 3''" renderer_new] r c by simp
qed

end
