(* ===== verification/Viewports.thy ===== *)
theory Viewports
  imports Renderer
begin

text \<open>
  Saved viewports: \<open>ViewportObject\<close> (\<open>src/viewportobject.h\<close>,
  \<open>src/viewportobject.cpp\<close>) and the slots of \<open>MainWindow\<close>
  (\<open>src/mainwindow.cpp\<close>) that open files, reset the view, capture the
  renderer's parameters into a new named object, list it in the tree and replay it
  on a double click. The window state is the renderer, the list
  \<open>m_viewportList\<close>, the texts of the tree items (item \<open>k\<close> refers to object
  \<open>k\<close>), the file-static counter \<open>s_viewportIndex\<close> as an unsigned 32-bit word,
  and the message boxes shown so far. A dialog answer is an option (\<open>None\<close>:
  cancelled); \<open>QInputDialog::getDouble\<close> keeps its answer in
  \<open>[-10000, 10000]\<close>; its rounding to two decimals is not modelled. The renderer
  pointer a viewport stores is a handle (\<open>None\<close> for \<open>nullptr\<close>).
\<close>

record viewport_object =
  vo_params :: viewport_params
  vo_display :: "nat option"
  vo_name :: string

text \<open>The parameters a new \<open>ViewportObject\<close> starts with (constructor).\<close>

definition default_params :: viewport_params where
  "default_params =
     \<lparr>vp_modelViewMatrix = mat_ident, vp_projectionMatrix = perspective mat_ident 45 1 (1 / 100) 1000,
      vp_cameraDistance = 5, vp_rotation = vec3_zero, vp_modelCenter = vec3_zero, vp_pointSize = 2,
      vp_boundingBoxMin = vec3_zero, vp_boundingBoxMax = vec3_zero\<rparr>"

definition viewportObject_new :: "string \<Rightarrow> viewport_object" where
  "viewportObject_new name = \<lparr>vo_params = default_params, vo_display = None, vo_name = name\<rparr>"

definition vo_setParameters :: "viewport_params \<Rightarrow> viewport_object \<Rightarrow> viewport_object" where
  "vo_setParameters p vo = vo\<lparr>vo_params := p\<rparr>"

definition vo_setDisplay :: "nat \<Rightarrow> viewport_object \<Rightarrow> viewport_object" where
  "vo_setDisplay d vo = vo\<lparr>vo_display := Some d\<rparr>"

text \<open>\<open>applyViewport(renderer)\<close>: nothing for a null renderer.\<close>

definition applyViewport :: "viewport_object \<Rightarrow> renderer option \<Rightarrow> renderer option" where
  "applyViewport vo r =
     (case r of None \<Rightarrow> None | Some s \<Rightarrow> Some (request_update (setViewport (vo_params vo) s)))"

datatype notice =
    UnsupportedFormat
  | LoadError
  | NoPointCloud
  | NoValidBoundingBox
  | CameraPosition vec3

record main_window =
  w_renderer :: renderer
  w_viewportList :: "viewport_object list"
  w_treeItems :: "string list"
  s_viewportIndex :: "32 word"
  w_notices :: "notice list"

text \<open>The handle of the window's one renderer, \<open>m_renderer\<close>.\<close>

definition renderer_handle :: nat where
  "renderer_handle = 0"

definition mainWindow_new :: main_window where
  "mainWindow_new =
     \<lparr>w_renderer = renderer_new, w_viewportList = [], w_treeItems = [], s_viewportIndex = 0,
      w_notices = []\<rparr>"

text \<open>\<open>QString("Viewport #%1").arg(n)\<close> for the unsigned counter.\<close>

definition viewport_name :: "32 word \<Rightarrow> string" where
  "viewport_name n = ''Viewport #'' @ nat_to_dec (unat n)"

text \<open>\<open>addToDB\<close> and \<open>updateTreeWidget\<close>.\<close>

definition addToDB :: "viewport_object \<Rightarrow> main_window \<Rightarrow> main_window" where
  "addToDB vo w =
     w\<lparr>w_viewportList := w_viewportList w @ [vo], w_treeItems := w_treeItems w @ [vo_name vo]\<rparr>"

definition notify :: "notice \<Rightarrow> main_window \<Rightarrow> main_window" where
  "notify n w = w\<lparr>w_notices := w_notices w @ [n]\<rparr>"

definition doActionSaveViewportAsObject :: "main_window \<Rightarrow> main_window" where
  "doActionSaveViewportAsObject w =
     (if getPointCount (w_renderer w) = 0 then w
      else
        (let idx = s_viewportIndex w + 1;
             vo = vo_setDisplay renderer_handle
                    (vo_setParameters (getViewportParameters (w_renderer w)) (viewportObject_new (viewport_name idx)))
         in addToDB vo (w\<lparr>s_viewportIndex := idx\<rparr>)))"

definition dialog_double :: "real \<Rightarrow> real" where
  "dialog_double v = max (-10000) (min 10000 v)"

definition doActionSaveViewportWithUserCoords ::
    "real option \<Rightarrow> real option \<Rightarrow> real option \<Rightarrow> main_window \<Rightarrow> main_window" where
  "doActionSaveViewportWithUserCoords ox oy oz w =
     (let r = w_renderer w
      in if getPointCount r = 0 then notify NoPointCloud w
         else
           (let params = getViewportParameters r; sceneSize = vec3_length (getBoundingBoxSize r)
            in if sceneSize \<le> 0 then notify NoValidBoundingBox w
               else
                 (let w1 = notify (CameraPosition (vp_modelCenter params)) w
                  in case (ox, oy, oz) of
                       (Some x, Some y, Some z) \<Rightarrow>
                         (let params' = params\<lparr>vp_modelCenter := \<lparr>vx = dialog_double x, vy = dialog_double y,
                                                                   vz = dialog_double z\<rparr>,
                                               vp_cameraDistance := sceneSize * (3 / 2)\<rparr>;
                              idx = s_viewportIndex w1 + 1;
                              vo = vo_setDisplay renderer_handle
                                     (vo_setParameters params' (viewportObject_new (viewport_name idx)))
                          in addToDB vo (w1\<lparr>w_renderer := request_update (setViewport params' r),
                                            s_viewportIndex := idx\<rparr>))
                     | _ \<Rightarrow> w1)))"

text \<open>A double click on tree item \<open>k\<close>; an index without an item does nothing.\<close>

definition onTreeWidgetItemDoubleClicked :: "nat \<Rightarrow> main_window \<Rightarrow> main_window" where
  "onTreeWidgetItemDoubleClicked k w =
     (if k < length (w_viewportList w) then
        (case applyViewport (w_viewportList w ! k) (Some (w_renderer w)) of
           None \<Rightarrow> w
         | Some r \<Rightarrow> w\<lparr>w_renderer := r\<rparr>)
      else w)"

definition mw_resetView :: "main_window \<Rightarrow> main_window" where
  "mw_resetView w = w\<lparr>w_renderer := request_update (resetView (w_renderer w))\<rparr>"

text \<open>\<open>filename.endsWith(suffix, Qt::CaseInsensitive)\<close> for an ASCII suffix.\<close>

definition ascii_lower :: "char \<Rightarrow> char" where
  "ascii_lower c = (if 65 \<le> (of_char c :: nat) \<and> (of_char c :: nat) \<le> 90 then char_of (of_char c + (32::nat)) else c)"

definition ends_with_ci :: "string \<Rightarrow> string \<Rightarrow> bool" where
  "ends_with_ci suffix s \<longleftrightarrow>
     length suffix \<le> length s \<and>
     map ascii_lower (drop (length s - length suffix) s) = map ascii_lower suffix"

definition openPointCloudFile :: "filesystem \<Rightarrow> string \<Rightarrow> main_window \<Rightarrow> main_window" where
  "openPointCloudFile fs fname w =
     (if fname = [] then w
      else
        (let load = (if ends_with_ci ''.pts'' fname then Some (loadPtsFile fs fname (w_renderer w))
                     else if ends_with_ci ''.ply'' fname then Some (loadPlyFile fs fname (w_renderer w))
                     else None)
         in case load of
              None \<Rightarrow> notify UnsupportedFormat w
            | Some (ok, r) \<Rightarrow>
                (if ok then w\<lparr>w_renderer := request_update r\<rparr>
                 else notify LoadError (w\<lparr>w_renderer := r\<rparr>))))"

datatype ui_event =
    OpenFile string
  | ResetViewAction
  | SaveViewport
  | SaveViewportWithCoords "real option" "real option" "real option"
  | ItemDoubleClicked nat
  | RendererEvent event

fun window_step :: "filesystem \<Rightarrow> main_window \<Rightarrow> ui_event \<Rightarrow> main_window" where
  "window_step fs w (OpenFile f) = openPointCloudFile fs f w"
| "window_step fs w ResetViewAction = mw_resetView w"
| "window_step fs w SaveViewport = doActionSaveViewportAsObject w"
| "window_step fs w (SaveViewportWithCoords x y z) = doActionSaveViewportWithUserCoords x y z w"
| "window_step fs w (ItemDoubleClicked k) = onTreeWidgetItemDoubleClicked k w"
| "window_step fs w (RendererEvent e) = w\<lparr>w_renderer := renderer_step fs (w_renderer w) e\<rparr>"

fun window_run :: "filesystem \<Rightarrow> main_window \<Rightarrow> ui_event list \<Rightarrow> main_window" where
  "window_run fs w [] = w"
| "window_run fs w (e # es) = window_run fs (window_step fs w e) es"

subsection \<open>Lemmas\<close>

lemma nat_to_dec_inj: "nat_to_dec a = nat_to_dec b \<Longrightarrow> a = b"
  by (metis digits_val_nat_to_dec)

lemma save_with_points:
  assumes "0 < getPointCount (w_renderer w)"
  shows "doActionSaveViewportAsObject w =
     addToDB \<lparr>vo_params = getViewportParameters (w_renderer w), vo_display = Some renderer_handle,
              vo_name = viewport_name (s_viewportIndex w + 1)\<rparr>
       (w\<lparr>s_viewportIndex := s_viewportIndex w + 1\<rparr>)"
  using assms
  by (simp add: doActionSaveViewportAsObject_def vo_setDisplay_def vo_setParameters_def viewportObject_new_def Let_def)

lemma getViewportParameters_request_update:
  "getViewportParameters (request_update s) = getViewportParameters s"
  by (simp add: getViewportParameters_def request_update_def)

lemma replay_params:
  assumes "k < length (w_viewportList w)"
  shows "getViewportParameters (w_renderer (onTreeWidgetItemDoubleClicked k w)) =
     (let p = vo_params (w_viewportList w ! k)
      in p\<lparr>vp_modelViewMatrix := mv_matrix (vp_cameraDistance p) (vp_rotation p) (vp_modelCenter p)\<rparr>)"
  using assms
  by (simp add: onTreeWidgetItemDoubleClicked_def applyViewport_def setViewport_def getViewportParameters_def
      updateModelViewMatrix_def request_update_def Let_def)

subsection \<open>Properties\<close>

text \<open>
  (C8) Saving the viewport of a renderer with points and a
  consistent view, then changing the renderer in any way, then double-clicking
  the new tree item restores exactly the parameters that were saved.
\<close>

theorem capture_replay:
  assumes "0 < getPointCount (w_renderer w)" and "mv_ok (w_renderer w)"
  shows "getViewportParameters (w_renderer (onTreeWidgetItemDoubleClicked (length (w_viewportList w))
           ((doActionSaveViewportAsObject w)\<lparr>w_renderer := r\<rparr>))) = getViewportParameters (w_renderer w)"
proof -
  let ?w' = "(doActionSaveViewportAsObject w)\<lparr>w_renderer := r\<rparr>"
  have k: "length (w_viewportList w) < length (w_viewportList ?w')"
    by (simp add: save_with_points [OF assms(1)] addToDB_def)
  have vo: "vo_params (w_viewportList ?w' ! length (w_viewportList w)) = getViewportParameters (w_renderer w)"
    by (simp add: save_with_points [OF assms(1)] addToDB_def)
  show ?thesis using replay_params [OF k] vo assms(2) by (simp add: getViewportParameters_def mv_ok_def)
qed

theorem capture_replay_witness:
  "0 < getPointCount (finish_load (set_cloud [\<lparr>position = vec3_zero, color = vec3_const 1\<rparr>] (vec3_zero, vec3_zero) renderer_new)) \<and>
   mv_ok (finish_load (set_cloud [\<lparr>position = vec3_zero, color = vec3_const 1\<rparr>] (vec3_zero, vec3_zero) renderer_new)) \<and>
   getViewportParameters (w_renderer (onTreeWidgetItemDoubleClicked 0
      ((doActionSaveViewportAsObject (mainWindow_new\<lparr>w_renderer :=
          finish_load (set_cloud [\<lparr>position = vec3_zero, color = vec3_const 1\<rparr>] (vec3_zero, vec3_zero) renderer_new)\<rparr>))
        \<lparr>w_renderer := renderer_new\<rparr>)))
   = getViewportParameters (finish_load (set_cloud [\<lparr>position = vec3_zero, color = vec3_const 1\<rparr>] (vec3_zero, vec3_zero) renderer_new))"
  using capture_replay [of "mainWindow_new\<lparr>w_renderer :=
          finish_load (set_cloud [\<lparr>position = vec3_zero, color = vec3_const 1\<rparr>] (vec3_zero, vec3_zero) renderer_new)\<rparr>"
      renderer_new]
  by (simp add: getPointCount_def mainWindow_new_def)

text \<open>
  Two saves from a fresh window whose renderer holds points
  list the items \<open>Viewport #1\<close> and \<open>Viewport #2\<close>, in that order.
\<close>

theorem scenario_D_names:
  "w_treeItems (doActionSaveViewportAsObject (doActionSaveViewportAsObject (mainWindow_new\<lparr>w_renderer :=
      finish_load (set_cloud [\<lparr>position = vec3_zero, color = vec3_const 1\<rparr>] (vec3_zero, vec3_zero) renderer_new)\<rparr>)))
   = [''Viewport #1'', ''Viewport #2'']"
  by (simp add: save_with_points getPointCount_def mainWindow_new_def addToDB_def viewport_name_def nat_to_dec.simps)
    code_simp

text \<open>
  Distinct counter values give distinct viewport names.
\<close>

theorem viewport_name_inj: "viewport_name a = viewport_name b \<Longrightarrow> a = b"
  by (auto simp: viewport_name_def word_unat_eq_iff dest: nat_to_dec_inj)

text \<open>
  (C25) The snapshot counter is an unsigned 32-bit integer: a
  save after \<open>4294967295\<close> snapshots sets it to 0 and names the item
  \<open>Viewport #0\<close>.
\<close>

theorem save_counter_wraps:
  assumes "0 < getPointCount (w_renderer w)" and "s_viewportIndex w = 0xFFFFFFFF"
  shows "s_viewportIndex (doActionSaveViewportAsObject w) = 0 \<and>
    last (w_treeItems (doActionSaveViewportAsObject w)) = ''Viewport #0''"
  using assms by (simp add: save_with_points addToDB_def viewport_name_def nat_to_dec.simps) code_simp

theorem save_counter_wraps_witness:
  "s_viewportIndex (doActionSaveViewportAsObject (mainWindow_new\<lparr>w_renderer :=
      finish_load (set_cloud [\<lparr>position = vec3_zero, color = vec3_const 1\<rparr>] (vec3_zero, vec3_zero) renderer_new),
      s_viewportIndex := 0xFFFFFFFF\<rparr>)) = 0"
  using save_counter_wraps [of "mainWindow_new\<lparr>w_renderer :=
      finish_load (set_cloud [\<lparr>position = vec3_zero, color = vec3_const 1\<rparr>] (vec3_zero, vec3_zero) renderer_new),
      s_viewportIndex := 0xFFFFFFFF\<rparr>"]
  by (simp add: getPointCount_def mainWindow_new_def)

text \<open>
  Saving the viewport when no points are loaded does
  nothing at all: no object, no item, no counter increment, no message.
\<close>

theorem save_without_points: "getPointCount (w_renderer w) = 0 \<Longrightarrow> doActionSaveViewportAsObject w = w"
  by (simp add: doActionSaveViewportAsObject_def)

theorem save_without_points_example:
  "getPointCount (w_renderer mainWindow_new) = 0 \<and> doActionSaveViewportAsObject mainWindow_new = mainWindow_new"
  using save_without_points [of mainWindow_new]
  by (simp add: getPointCount_def mainWindow_new_def renderer_new_def)

text \<open>
  With points loaded, saving increments the counter, appends
  one object holding the renderer's current parameters, the renderer handle and
  the name for the new counter value, and appends its name to the tree.
\<close>

theorem save_appends:
  assumes "0 < getPointCount (w_renderer w)"
  shows "w_viewportList (doActionSaveViewportAsObject w) = w_viewportList w @
       [\<lparr>vo_params = getViewportParameters (w_renderer w), vo_display = Some renderer_handle,
         vo_name = viewport_name (s_viewportIndex w + 1)\<rparr>] \<and>
     w_treeItems (doActionSaveViewportAsObject w) = w_treeItems w @ [viewport_name (s_viewportIndex w + 1)] \<and>
     s_viewportIndex (doActionSaveViewportAsObject w) = s_viewportIndex w + 1 \<and>
     w_renderer (doActionSaveViewportAsObject w) = w_renderer w"
  by (simp add: save_with_points [OF assms] addToDB_def)

theorem save_appends_example:
  "length (w_viewportList (doActionSaveViewportAsObject (mainWindow_new\<lparr>w_renderer :=
      finish_load (set_cloud [\<lparr>position = vec3_zero, color = vec3_const 1\<rparr>] (vec3_zero, vec3_zero) renderer_new)\<rparr>))) = 1"
  using save_appends [of "mainWindow_new\<lparr>w_renderer :=
      finish_load (set_cloud [\<lparr>position = vec3_zero, color = vec3_const 1\<rparr>] (vec3_zero, vec3_zero) renderer_new)\<rparr>"]
  by (simp add: getPointCount_def mainWindow_new_def)

text \<open>
  A double click changes only the renderer: the saved
  objects, the tree, the counter and the messages are left as they were.
\<close>

theorem replay_only_renderer:
  "w_viewportList (onTreeWidgetItemDoubleClicked k w) = w_viewportList w \<and>
   w_treeItems (onTreeWidgetItemDoubleClicked k w) = w_treeItems w \<and>
   s_viewportIndex (onTreeWidgetItemDoubleClicked k w) = s_viewportIndex w \<and>
   w_notices (onTreeWidgetItemDoubleClicked k w) = w_notices w"
  by (simp add: onTreeWidgetItemDoubleClicked_def applyViewport_def split: option.splits)

text \<open>
  (C31) Replaying a saved viewport installs its stored box and
  centre but keeps the current vertices: after a different cloud has been
  loaded, the box no longer contains the points.
\<close>

theorem replay_box_mismatch:
  assumes "k < length (w_viewportList w)"
  shows "m_vertices (w_renderer (onTreeWidgetItemDoubleClicked k w)) = m_vertices (w_renderer w) \<and>
    m_boundingBoxMin (w_renderer (onTreeWidgetItemDoubleClicked k w)) = vp_boundingBoxMin (vo_params (w_viewportList w ! k)) \<and>
    m_boundingBoxMax (w_renderer (onTreeWidgetItemDoubleClicked k w)) = vp_boundingBoxMax (vo_params (w_viewportList w ! k))"
  using assms
  by (simp add: onTreeWidgetItemDoubleClicked_def applyViewport_def setViewport_def
      updateModelViewMatrix_def request_update_def)

theorem replay_box_mismatch_witness:
  "\<not> box_contains
      (m_boundingBoxMin (w_renderer (onTreeWidgetItemDoubleClicked 0 (mainWindow_new\<lparr>w_renderer :=
          finish_load (set_cloud [\<lparr>position = \<lparr>vx = 1, vy = 2, vz = 3\<rparr>, color = vec3_const 1\<rparr>]
            (\<lparr>vx = 1, vy = 2, vz = 3\<rparr>, \<lparr>vx = 1, vy = 2, vz = 3\<rparr>) renderer_new),
          w_viewportList := [viewportObject_new ''v'']\<rparr>))),
       m_boundingBoxMax (w_renderer (onTreeWidgetItemDoubleClicked 0 (mainWindow_new\<lparr>w_renderer :=
          finish_load (set_cloud [\<lparr>position = \<lparr>vx = 1, vy = 2, vz = 3\<rparr>, color = vec3_const 1\<rparr>]
            (\<lparr>vx = 1, vy = 2, vz = 3\<rparr>, \<lparr>vx = 1, vy = 2, vz = 3\<rparr>) renderer_new),
          w_viewportList := [viewportObject_new ''v'']\<rparr>))))
      (position (hd (m_vertices (w_renderer (onTreeWidgetItemDoubleClicked 0 (mainWindow_new\<lparr>w_renderer :=
          finish_load (set_cloud [\<lparr>position = \<lparr>vx = 1, vy = 2, vz = 3\<rparr>, color = vec3_const 1\<rparr>]
            (\<lparr>vx = 1, vy = 2, vz = 3\<rparr>, \<lparr>vx = 1, vy = 2, vz = 3\<rparr>) renderer_new),
          w_viewportList := [viewportObject_new ''v'']\<rparr>))))))"
  using replay_box_mismatch [of 0 "mainWindow_new\<lparr>w_renderer :=
          finish_load (set_cloud [\<lparr>position = \<lparr>vx = 1, vy = 2, vz = 3\<rparr>, color = vec3_const 1\<rparr>]
            (\<lparr>vx = 1, vy = 2, vz = 3\<rparr>, \<lparr>vx = 1, vy = 2, vz = 3\<rparr>) renderer_new),
          w_viewportList := [viewportObject_new ''v'']\<rparr>"]
  by (simp add: viewportObject_new_def default_params_def box_contains_def geom_defs)

text \<open>
  (C30) Saving with user coordinates stores the current
  parameters with the entered centre (clamped by the dialog) and the distance 1.5
  times the box diagonal, but keeps the model-view matrix of the old view; the
  renderer itself is moved to the new parameters.
\<close>

theorem user_coords_saved_params:
  assumes "0 < getPointCount (w_renderer w)" and "0 < vec3_length (getBoundingBoxSize (w_renderer w))"
  shows "vo_params (last (w_viewportList (doActionSaveViewportWithUserCoords (Some x) (Some y) (Some z) w))) =
      (getViewportParameters (w_renderer w))\<lparr>
         vp_modelCenter := \<lparr>vx = dialog_double x, vy = dialog_double y, vz = dialog_double z\<rparr>,
         vp_cameraDistance := vec3_length (getBoundingBoxSize (w_renderer w)) * (3 / 2)\<rparr> \<and>
    vp_modelViewMatrix (vo_params (last (w_viewportList (doActionSaveViewportWithUserCoords (Some x) (Some y) (Some z) w))))
      = m_modelView (w_renderer w)"
  using assms
  by (simp add: doActionSaveViewportWithUserCoords_def addToDB_def notify_def vo_setDisplay_def
      vo_setParameters_def viewportObject_new_def getViewportParameters_def Let_def)

theorem user_coords_saved_params_witness:
  "vp_modelViewMatrix (vo_params (last (w_viewportList (doActionSaveViewportWithUserCoords (Some 0) (Some 0) (Some 0)
      (mainWindow_new\<lparr>w_renderer := set_cloud [\<lparr>position = vec3_zero, color = vec3_const 1\<rparr>]
         (vec3_zero, \<lparr>vx = 1, vy = 0, vz = 0\<rparr>) renderer_new\<rparr>))))) = mat_ident"
proof -
  have a: "0 < getPointCount (w_renderer (mainWindow_new\<lparr>w_renderer := set_cloud [\<lparr>position = vec3_zero, color = vec3_const 1\<rparr>] (vec3_zero, \<lparr>vx = 1, vy = 0, vz = 0\<rparr>) renderer_new\<rparr>))"
    by (simp add: getPointCount_def)
  have b: "0 < vec3_length (getBoundingBoxSize (w_renderer (mainWindow_new\<lparr>w_renderer := set_cloud [\<lparr>position = vec3_zero, color = vec3_const 1\<rparr>] (vec3_zero, \<lparr>vx = 1, vy = 0, vz = 0\<rparr>) renderer_new\<rparr>)))"
    by (simp add: getBoundingBoxSize_def vec3_length_def geom_defs)
  have m: "m_modelView (w_renderer (mainWindow_new\<lparr>w_renderer := set_cloud [\<lparr>position = vec3_zero, color = vec3_const 1\<rparr>] (vec3_zero, \<lparr>vx = 1, vy = 0, vz = 0\<rparr>) renderer_new\<rparr>)) = mat_ident"
    by (simp add: set_cloud_def renderer_new_def)
  show ?thesis by (rule trans [OF conjunct2 [OF user_coords_saved_params [OF a b]] m])
qed

text \<open>
  A file whose name ends in \<open>.pts\<close> in any letter
  case is loaded with the \<open>.pts\<close> loader and, when it can be read, the renderer
  is replaced by the loaded one and repainted, with no message.
\<close>

theorem open_pts_case_insensitive:
  assumes "fs f = Some t" and "ends_with_ci ''.pts'' f"
  shows "openPointCloudFile fs f w = w\<lparr>w_renderer := request_update (snd (loadPtsFile fs f (w_renderer w)))\<rparr>"
proof -
  have "f \<noteq> []" using assms(2) by (auto simp: ends_with_ci_def)
  then show ?thesis using assms by (simp add: openPointCloudFile_def loadPtsFile_def split: prod.splits)
qed

theorem open_pts_case_insensitive_example:
  "ends_with_ci ''.pts'' ''SCAN.PTS'' \<and>
   openPointCloudFile (\<lambda>_. Some ''1 2 3'') ''SCAN.PTS'' mainWindow_new =
     mainWindow_new\<lparr>w_renderer := request_update (snd (loadPtsFile (\<lambda>_. Some ''1 2 3'') ''SCAN.PTS'' renderer_new))\<rparr>"
proof -
  have e: "ends_with_ci ''.pts'' ''SCAN.PTS''" by code_simp
  show ?thesis using e open_pts_case_insensitive [of "\<lambda>_. Some ''1 2 3''" "''SCAN.PTS''" "''1 2 3''" mainWindow_new]
    by (simp add: mainWindow_new_def)
qed

text \<open>
  A non-empty file name ending neither in \<open>.pts\<close> nor in
  \<open>.ply\<close> (in any case) loads nothing and shows the unsupported-format message.
\<close>

theorem open_unsupported:
  assumes "f \<noteq> []" and "\<not> ends_with_ci ''.pts'' f" and "\<not> ends_with_ci ''.ply'' f"
  shows "openPointCloudFile fs f w = notify UnsupportedFormat w"
  using assms by (simp add: openPointCloudFile_def)

theorem open_unsupported_example:
  "openPointCloudFile (\<lambda>_. None) ''a.xyz'' mainWindow_new = notify UnsupportedFormat mainWindow_new"
proof -
  have p: "\<not> ends_with_ci ''.pts'' ''a.xyz''" and l: "\<not> ends_with_ci ''.ply'' ''a.xyz''" by code_simp+
  show ?thesis using open_unsupported [OF _ p l] by simp
qed

end
