(* ===== verification/Overlay.thy ===== *)
theory Overlay
  imports Renderer
begin

text \<open>
  The coordinate-system overlay of \<open>PointCloudRenderer::paintEvent\<close> and
  \<open>drawCoordinateSystem\<close> (\<open>src/pointcloudrenderer.cpp\<close>, lines 151--226):
  after \<open>paintGL\<close>, when \<open>m_showCoordinateSystem\<close> is set, a
  \<open>QPainter\<close> draws the three rotated axes of length 26 from the centre of an
  80 by 80 square in the lower right corner, their labels and a scale bar. The
  drawing is modelled as the list of \<open>drawLine\<close>/\<open>drawText\<close> calls with
  their pen colours; pen width and font are not modelled. \<open>QPainter::drawLine\<close>
  and \<open>drawText\<close> take \<open>int\<close> coordinates, so the \<open>float\<close> sums are
  truncated toward zero. \<open>m_showCoordinateSystem\<close> is never initialised by the
  constructor; the model takes its value as an argument.
\<close>

text \<open>C++ conversion of a \<open>float\<close> to \<open>int\<close>: truncation toward zero.\<close>

definition trunc_int :: "real \<Rightarrow> int" where
  "trunc_int x = (if 0 \<le> x then \<lfloor>x\<rfloor> else \<lceil>x\<rceil>)"

text \<open>\<open>QMatrix4x4::map(QVector3D)\<close>: the point in homogeneous coordinates, divided by \<open>w\<close> unless it is 1.\<close>

definition mat_map :: "mat4 \<Rightarrow> vec3 \<Rightarrow> vec3" where
  "mat_map m p =
     (let r = mat_apply m p
      in if r ! 3 = 1 then \<lparr>vx = r ! 0, vy = r ! 1, vz = r ! 2\<rparr>
         else \<lparr>vx = r ! 0 / r ! 3, vy = r ! 1 / r ! 3, vz = r ! 2 / r ! 3\<rparr>)"

text \<open>The calls of \<open>drawCoordinateSystem\<close>, with the pen colour of each.\<close>

type_synonym rgb = "nat \<times> nat \<times> nat"

datatype draw_cmd =
    DrawLine rgb "int \<times> int" "int \<times> int"
  | DrawText rgb "int \<times> int" string

definition drawCoordinateSystem :: "int \<Rightarrow> int \<Rightarrow> vec3 \<Rightarrow> draw_cmd list" where
  "drawCoordinateSystem width height rot =
     (let csysSize = 80; margin = 10;
          xPos = width - csysSize - margin; yPos = height - csysSize - margin;
          centerX = xPos + csysSize div 2; centerY = yPos + csysSize div 2;
          axisLength = csysSize div 3;
          rotMatrix = mat_rotate_y (mat_rotate_x mat_ident (vx rot)) (vy rot);
          xAxis = mat_map rotMatrix \<lparr>vx = of_int axisLength, vy = 0, vz = 0\<rparr>;
          yAxis = mat_map rotMatrix \<lparr>vx = 0, vy = of_int axisLength, vz = 0\<rparr>;
          zAxis = mat_map rotMatrix \<lparr>vx = 0, vy = 0, vz = of_int axisLength\<rparr>;
          tip = (\<lambda>a. (trunc_int (of_int centerX + vx a), trunc_int (of_int centerY - vy a)));
          label = (\<lambda>a. (trunc_int (of_int centerX + vx a + 5), trunc_int (of_int centerY - vy a + 5)));
          scaleLength = 60; scaleY = yPos + csysSize - 5
      in [DrawLine (255, 0, 0) (centerX, centerY) (tip xAxis),
          DrawLine (0, 255, 0) (centerX, centerY) (tip yAxis),
          DrawLine (0, 0, 255) (centerX, centerY) (tip zAxis),
          DrawText (255, 0, 0) (label xAxis) ''X'',
          DrawText (0, 255, 0) (label yAxis) ''Y'',
          DrawText (0, 0, 255) (label zAxis) ''Z'',
          DrawLine (255, 255, 255) (xPos + 10, scaleY) (xPos + 10 + scaleLength, scaleY),
          DrawLine (255, 255, 255) (xPos + 10, scaleY - 2) (xPos + 10, scaleY + 2),
          DrawLine (255, 255, 255) (xPos + 10 + scaleLength, scaleY - 2) (xPos + 10 + scaleLength, scaleY + 2),
          DrawText (255, 255, 255) (xPos + 10 + scaleLength div 2 - 10, scaleY - 5) ''0.2''])"

definition paintEvent :: "bool \<Rightarrow> int \<Rightarrow> int \<Rightarrow> renderer \<Rightarrow> renderer \<times> draw_cmd list" where
  "paintEvent showCoordinateSystem width height s =
     (let s' = paintGL s
      in (s', if showCoordinateSystem then drawCoordinateSystem width height (m_rotation s') else []))"

fun cmd_points :: "draw_cmd \<Rightarrow> (int \<times> int) list" where
  "cmd_points (DrawLine c p q) = [p, q]"
| "cmd_points (DrawText c p t) = [p]"

definition in_csys_box :: "int \<Rightarrow> int \<Rightarrow> int \<times> int \<Rightarrow> bool" where
  "in_csys_box width height p \<longleftrightarrow>
     width - 90 \<le> fst p \<and> fst p \<le> width - 10 \<and> height - 90 \<le> snd p \<and> snd p \<le> height - 10"

subsection \<open>Lemmas\<close>

lemma rot_apply:
  "mat_apply (mat_rotate_y (mat_rotate_x mat_ident a) b) p =
     [cos (deg_rad b) * vx p + sin (deg_rad b) * vz p,
      cos (deg_rad a) * vy p - sin (deg_rad a) * (cos (deg_rad b) * vz p - sin (deg_rad b) * vx p),
      sin (deg_rad a) * vy p + cos (deg_rad a) * (cos (deg_rad b) * vz p - sin (deg_rad b) * vx p), 1]"
  by (simp add: mat_rotate_y_def mat_rotate_x_def mat_mul_def mat_of_def mat_ident_def rotation_x_def
      rotation_y_def mat_apply_def Let_def upt_rec algebra_simps)

lemma rot_map_norm:
  "(vx (mat_map (mat_rotate_y (mat_rotate_x mat_ident a) b) p))\<^sup>2 +
   (vy (mat_map (mat_rotate_y (mat_rotate_x mat_ident a) b) p))\<^sup>2 +
   (vz (mat_map (mat_rotate_y (mat_rotate_x mat_ident a) b) p))\<^sup>2 = (vx p)\<^sup>2 + (vy p)\<^sup>2 + (vz p)\<^sup>2"
proof -
  let ?ca = "cos (deg_rad a)" and ?sa = "sin (deg_rad a)" and ?cb = "cos (deg_rad b)" and ?sb = "sin (deg_rad b)"
  have a: "?sa\<^sup>2 + ?ca\<^sup>2 = 1" and b: "?sb\<^sup>2 + ?cb\<^sup>2 = 1" by simp_all
  let ?w = "?cb * vz p - ?sb * vx p"
  have xz: "(?cb * vx p + ?sb * vz p)\<^sup>2 + ?w\<^sup>2 = (vx p)\<^sup>2 + (vz p)\<^sup>2"
  proof -
    have "(?cb * vx p + ?sb * vz p)\<^sup>2 + ?w\<^sup>2 = (?sb\<^sup>2 + ?cb\<^sup>2) * ((vx p)\<^sup>2 + (vz p)\<^sup>2)"
      by (simp add: power2_eq_square algebra_simps del: sin_cos_squared_add sin_cos_squared_add2 sin_cos_squared_add3)
    then show ?thesis by (simp only: b mult_1_left)
  qed
  have yw: "(?ca * vy p - ?sa * ?w)\<^sup>2 + (?sa * vy p + ?ca * ?w)\<^sup>2 = (vy p)\<^sup>2 + ?w\<^sup>2"
  proof -
    have "(?ca * vy p - ?sa * ?w)\<^sup>2 + (?sa * vy p + ?ca * ?w)\<^sup>2 = (?sa\<^sup>2 + ?ca\<^sup>2) * ((vy p)\<^sup>2 + ?w\<^sup>2)"
      by (simp add: power2_eq_square algebra_simps del: sin_cos_squared_add sin_cos_squared_add2 sin_cos_squared_add3)
    then show ?thesis by (simp only: a mult_1_left)
  qed
  show ?thesis using xz yw by (simp add: mat_map_def rot_apply)
qed

lemma floor_le_trunc_int: "\<lfloor>x\<rfloor> \<le> trunc_int x" and trunc_int_le_ceiling: "trunc_int x \<le> \<lceil>x\<rceil>"
  by (cases "0 \<le> x"; simp add: trunc_int_def floor_le_ceiling)+

lemma le_trunc_int: "of_int lo \<le> x \<Longrightarrow> lo \<le> trunc_int x"
proof -
  assume "of_int lo \<le> x"
  then have "lo \<le> \<lfloor>x\<rfloor>" by (simp add: le_floor_iff)
  then show ?thesis using floor_le_trunc_int [of x] by linarith
qed

lemma trunc_int_le: "x \<le> of_int hi \<Longrightarrow> trunc_int x \<le> hi"
proof -
  assume "x \<le> of_int hi"
  then have "\<lceil>x\<rceil> \<le> hi" by (simp add: ceiling_le_iff)
  then show ?thesis using trunc_int_le_ceiling [of x] by linarith
qed

lemma rot_map_axis_bounds:
  assumes "(vx p)\<^sup>2 + (vy p)\<^sup>2 + (vz p)\<^sup>2 = 26\<^sup>2"
  shows "\<bar>vx (mat_map (mat_rotate_y (mat_rotate_x mat_ident a) b) p)\<bar> \<le> 26 \<and>
         \<bar>vy (mat_map (mat_rotate_y (mat_rotate_x mat_ident a) b) p)\<bar> \<le> 26"
proof -
  let ?q = "mat_map (mat_rotate_y (mat_rotate_x mat_ident a) b) p"
  have n: "(vx ?q)\<^sup>2 + (vy ?q)\<^sup>2 + (vz ?q)\<^sup>2 = 26\<^sup>2" using rot_map_norm [of a b p] assms by simp
  have "0 \<le> (vx ?q)\<^sup>2" and "0 \<le> (vy ?q)\<^sup>2" and "0 \<le> (vz ?q)\<^sup>2" by simp_all
  with n have "(vx ?q)\<^sup>2 \<le> 26\<^sup>2" and "(vy ?q)\<^sup>2 \<le> 26\<^sup>2" by linarith+
  then show ?thesis
    using power2_le_iff_abs_le [where y = 26 and x = "vx ?q"] power2_le_iff_abs_le [where y = 26 and x = "vy ?q"]
    by simp
qed

subsection \<open>Properties\<close>

text \<open>
  (C22) Whatever the widget size and the rotation, every line end and
  text anchor the overlay draws lies inside its 80 by 80 square in the lower
  right corner (\<open>xPos\<close>..\<open>xPos + 80\<close>, \<open>yPos\<close>..\<open>yPos + 80\<close>): the
  rotated axes keep their length 26.
\<close>

theorem csys_in_box:
  "list_all (\<lambda>cmd. list_all (in_csys_box width height) (cmd_points cmd)) (drawCoordinateSystem width height rot)"
proof -
  let ?R = "mat_rotate_y (mat_rotate_x mat_ident (vx rot)) (vy rot)"
  have bx: "\<bar>vx (mat_map ?R \<lparr>vx = 26, vy = 0, vz = 0\<rparr>)\<bar> \<le> 26 \<and> \<bar>vy (mat_map ?R \<lparr>vx = 26, vy = 0, vz = 0\<rparr>)\<bar> \<le> 26"
    by (rule rot_map_axis_bounds) simp
  have by': "\<bar>vx (mat_map ?R \<lparr>vx = 0, vy = 26, vz = 0\<rparr>)\<bar> \<le> 26 \<and> \<bar>vy (mat_map ?R \<lparr>vx = 0, vy = 26, vz = 0\<rparr>)\<bar> \<le> 26"
    by (rule rot_map_axis_bounds) simp
  have bz: "\<bar>vx (mat_map ?R \<lparr>vx = 0, vy = 0, vz = 26\<rparr>)\<bar> \<le> 26 \<and> \<bar>vy (mat_map ?R \<lparr>vx = 0, vy = 0, vz = 26\<rparr>)\<bar> \<le> 26"
    by (rule rot_map_axis_bounds) simp
  show ?thesis
    using bx by' bz
    by (auto simp: drawCoordinateSystem_def Let_def in_csys_box_def abs_le_iff intro!: le_trunc_int trunc_int_le)
qed

end
