(* ===== verification/ViewModel.thy ===== *)
theory ViewModel
  imports Renderer
begin

text \<open>
  What the renderer promises about its view, stated over an abstract camera.
  \<^item> The camera is distance, rotation and model centre (\<open>m_distance\<close>,
    \<open>m_rotation\<close>, \<open>m_modelCenter\<close>); \<open>cam_apply\<close> gives the abstract effect
    of each kind of request (zoom by 0.9 per wheel notch within [0.1, 1000],
    orbit by half a degree per pixel, reset, set from saved parameters, frame a
    box), and \<open>cam_event\<close> says which request each event of
    \<open>renderer_step\<close> is. The relation \<open>cam_rel\<close> ties a renderer to a camera:
    same camera, and the model-view matrix is the one the camera determines.
\<close>

text \<open>The abstract camera and the abstraction of a renderer.\<close>

record camera =
  cam_distance :: real
  cam_rotation :: vec3
  cam_center :: vec3

definition cam_of :: "renderer \<Rightarrow> camera" where
  "cam_of s = \<lparr>cam_distance = m_distance s, cam_rotation = m_rotation s, cam_center = m_modelCenter s\<rparr>"

datatype cam_op =
    CamKeep
  | CamReset
  | CamZoom int
  | CamOrbit int int
  | CamSet viewport_params
  | CamFrame bbox

fun cam_apply :: "cam_op \<Rightarrow> camera \<Rightarrow> camera" where
  "cam_apply CamKeep c = c"
| "cam_apply CamReset c = c\<lparr>cam_rotation := vec3_zero\<rparr>"
| "cam_apply (CamZoom a) c =
     c\<lparr>cam_distance := max (1 / 10) (min (cam_distance c * (9 / 10) powr (real_of_int a / 120)) 1000)\<rparr>"
| "cam_apply (CamOrbit dx dy) c =
     c\<lparr>cam_rotation := \<lparr>vx = vx (cam_rotation c) + real_of_int dy / 2,
                        vy = vy (cam_rotation c) + real_of_int dx / 2, vz = vz (cam_rotation c)\<rparr>\<rparr>"
| "cam_apply (CamSet p) c =
     \<lparr>cam_distance = vp_cameraDistance p, cam_rotation = vp_rotation p, cam_center = vp_modelCenter p\<rparr>"
| "cam_apply (CamFrame b) c = \<lparr>cam_distance = box_distance b, cam_rotation = vec3_zero, cam_center = box_center b\<rparr>"

definition cam_event :: "filesystem \<Rightarrow> renderer \<Rightarrow> event \<Rightarrow> cam_op" where
  "cam_event fs s e =
     (case e of
        InitializeGL \<Rightarrow> CamReset
      | MouseMove p b \<Rightarrow>
          (if b then CamOrbit (fst p - fst (m_lastMousePos s)) (snd p - snd (m_lastMousePos s)) else CamKeep)
      | Wheel a \<Rightarrow> CamZoom a
      | ResetView \<Rightarrow> CamReset
      | SetViewport p \<Rightarrow> CamSet p
      | LoadPts f \<Rightarrow>
          (case fs f of None \<Rightarrow> CamKeep | Some t \<Rightarrow> CamFrame (bbox_of (pts_records (qt_lines t))))
      | LoadPly f \<Rightarrow>
          (case fs f of None \<Rightarrow> CamKeep
           | Some c \<Rightarrow> (case ply_parse c of PlyOk vs b \<Rightarrow> CamFrame b | _ \<Rightarrow> CamKeep))
      | _ \<Rightarrow> CamKeep)"

definition cam_view :: "camera \<Rightarrow> mat4" where
  "cam_view c = mv_matrix (cam_distance c) (cam_rotation c) (cam_center c)"

definition cam_rel :: "renderer \<Rightarrow> camera \<Rightarrow> bool" where
  "cam_rel s c \<longleftrightarrow> cam_of s = c \<and> m_modelView s = cam_view c"

subsection \<open>Lemmas\<close>

lemma cam_rel_mv_ok: "cam_rel s (cam_of s) \<longleftrightarrow> mv_ok s"
  by (simp add: cam_rel_def mv_ok_def cam_view_def cam_of_def)

lemma cam_of_step:
  "cam_of (renderer_step fs s e) = cam_apply (cam_event fs s e) (cam_of s)"
proof (cases e)
  case (LoadPly f)
  then show ?thesis
    by (cases "fs f") (auto simp: cam_event_def cam_of_def loadPlyFile_def Let_def set_cloud_def
        split: ply_outcome.splits)
qed (auto simp: cam_event_def cam_of_def initializeGL_def resizeGL_def paintGL_def mousePressEvent_def
       mouseMoveEvent_def wheelEvent_def clamp_distance_def resetView_def setViewport_def setupVertexBuffers_def
       request_update_def updateModelViewMatrix_def loadPtsFile_def pts_parse_def pts_loop_eq bbox_of_def Let_def
       split: option.splits prod.splits)

lemma wheel_notch_in: "m_distance (wheelEvent 120 s) = max (1 / 10) (min (m_distance s * (9 / 10)) 1000)"
  by (simp add: wheelEvent_def clamp_distance_def request_update_def updateModelViewMatrix_def Let_def)

lemma zoom_in_decay:
  "m_distance ((wheelEvent 120 ^^ Suc k) s) \<le> max (1 / 10) (1000 * (9 / 10) ^ k) \<and>
   1 / 10 \<le> m_distance ((wheelEvent 120 ^^ Suc k) s)"
proof (induction k)
  case 0
  show ?case by (simp add: wheel_notch_in)
next
  case (Suc k)
  let ?d = "m_distance ((wheelEvent 120 ^^ Suc k) s)"
  have "?d * (9 / 10) \<le> max (1 / 10) (1000 * (9 / 10) ^ Suc k)"
  proof (cases "?d \<le> 1 / 10")
    case True
    then show ?thesis by simp
  next
    case False
    with Suc.IH have "?d \<le> 1000 * (9 / 10) ^ k" by simp
    then show ?thesis by simp
  qed
  then show ?case by (simp add: wheel_notch_in)
qed

subsection \<open>Properties\<close>

text \<open>
  (C6) The renderer refines the abstract camera: from a state
  related to a camera, every event leads to a state related to the camera after
  the abstract request that event stands for.
\<close>

theorem camera_refinement:
  "cam_rel s c \<Longrightarrow> cam_rel (renderer_step fs s e) (cam_apply (cam_event fs s e) c)"
proof -
  assume r: "cam_rel s c"
  then have c: "c = cam_of s" and m: "mv_ok s" by (auto simp: cam_rel_def mv_ok_def cam_view_def cam_of_def)
  have "mv_ok (renderer_step fs s e)" using mv_ok_step [OF m] .
  then show ?thesis using c cam_of_step [of fs s e] cam_rel_mv_ok [of "renderer_step fs s e"] by simp
qed

theorem camera_refinement_witness:
  "cam_rel (initializeGL renderer_new) (cam_of (initializeGL renderer_new)) \<and>
   cam_rel (renderer_step (\<lambda>_. None) (initializeGL renderer_new) (Wheel 120))
     (cam_apply (CamZoom 120) (cam_of (initializeGL renderer_new)))"
proof -
  have r: "cam_rel (initializeGL renderer_new) (cam_of (initializeGL renderer_new))"
    by (simp add: cam_rel_mv_ok initializeGL_def)
  show ?thesis
    using r camera_refinement [OF r, of "\<lambda>_. None" "Wheel 120"] by (simp add: cam_event_def)
qed

text \<open>
  (C21) Zooming in always gets to the closest view: from
  any state, after 101 wheel notches towards the model and at every notch after
  that, the camera distance is exactly the minimum 0.1.
\<close>

theorem zoom_in_reaches_minimum:
  "m_distance ((wheelEvent 120 ^^ (101 + k)) s) = 1 / 10"
proof -
  have "(1000::real) * (9 / 10) ^ (100 + k) \<le> 1000 * (9 / 10) ^ 100"
    by (simp add: power_add mult_left_le_one_le power_le_one)
  also have "\<dots> < 1 / 10" by (simp add: power_divide)
  finally have "max (1 / 10) (1000 * (9 / 10) ^ (100 + k)) = (1 / 10 :: real)" by simp
  then show ?thesis using zoom_in_decay [of "100 + k" s] by simp
qed

end
