(* ===== verification/GLPipeline.thy ===== *)
theory GLPipeline
  imports Renderer
begin

text \<open>
  The OpenGL side of \<open>PointCloudRenderer\<close> (\<open>src/pointcloudrenderer.cpp\<close>,
  \<open>setupShaders\<close>, \<open>setupVertexBuffers\<close> and \<open>paintGL\<close>, lines 50--149):
  the two GLSL sources as strings, the declarations a GLSL front end reads from
  them, the attribute layout the program is fed with, the image of
  \<open>m_vertices\<close> in the vertex buffer, and the two shader \<open>main\<close>s as
  functions. The OpenGL calls that only change driver state
  (\<open>glEnable\<close>, \<open>create\<close>, \<open>bind\<close>, \<open>release\<close>) are modelled in theory
  \<open>GLState\<close>.
\<close>

text \<open>The two shader sources of \<open>setupShaders\<close>, line by line (indentation dropped).\<close>

definition vertexShaderSource :: string where
  "vertexShaderSource = concat (map (\<lambda>l. l @ ''\<newline>'')
     [''#version 330 core'',
      ''layout (location = 0) in vec3 position;'',
      ''layout (location = 1) in vec3 color;'',
      '''',
      ''uniform mat4 projection;'',
      ''uniform mat4 modelView;'',
      ''uniform float pointSize;'',
      '''',
      ''out vec3 vertexColor;'',
      '''',
      ''void main()'',
      ''{'',
      ''gl_Position = projection * modelView * vec4(position, 1.0);'',
      ''gl_PointSize = pointSize;'',
      ''vertexColor = color;'',
      ''}''])"

definition fragmentShaderSource :: string where
  "fragmentShaderSource = concat (map (\<lambda>l. l @ ''\<newline>'')
     [''#version 330 core'',
      ''in vec3 vertexColor;'',
      ''out vec4 fragColor;'',
      '''',
      ''void main()'',
      ''{'',
      ''vec2 circCoord = 2.0 * gl_PointCoord - 1.0;'',
      ''if (dot(circCoord, circCoord) > 1.0) {'',
      ''discard;'',
      ''}'',
      ''fragColor = vec4(vertexColor, 1.0);'',
      ''}''])"

text \<open>
  The declarations a GLSL front end finds in a source: one per line, read from its
  white-space separated tokens (the subset the two sources use).
\<close>

datatype glsl_decl =
    GVersion string string
  | GAttrib string string string
  | GUniform string string
  | GIn string string
  | GOut string string

definition strip_last :: "char \<Rightarrow> string \<Rightarrow> string" where
  "strip_last c s = (if s \<noteq> [] \<and> last s = c then butlast s else s)"

definition glsl_decl_of :: "string list \<Rightarrow> glsl_decl option" where
  "glsl_decl_of toks =
     (case toks of
        [a, b, c] \<Rightarrow>
          (if a = ''#version'' then Some (GVersion b c)
           else if a = ''uniform'' then Some (GUniform b (strip_last CHR '';'' c))
           else if a = ''in'' then Some (GIn b (strip_last CHR '';'' c))
           else if a = ''out'' then Some (GOut b (strip_last CHR '';'' c))
           else None)
      | [a, b, c, d, e, f, g] \<Rightarrow>
          (if a = ''layout'' \<and> b = ''(location'' \<and> c = ''='' \<and> e = ''in''
           then Some (GAttrib (strip_last CHR '')'' d) f (strip_last CHR '';'' g)) else None)
      | _ \<Rightarrow> None)"

definition glsl_decls :: "string \<Rightarrow> glsl_decl list" where
  "glsl_decls src = List.map_filter (\<lambda>l. glsl_decl_of (split_ws l)) (qt_lines src)"

text \<open>\<open>setupShaders\<close>: both sources are added to \<open>m_program\<close>, which is then linked.\<close>

record gl_program =
  prog_vertex :: string
  prog_fragment :: string

definition setupShaders :: gl_program where
  "setupShaders = \<lparr>prog_vertex = vertexShaderSource, prog_fragment = fragmentShaderSource\<rparr>"

text \<open>The vertex shader's \<open>main\<close>: \<open>gl_Position = projection * modelView * vec4(position, 1.0)\<close>.\<close>

definition vertex_main :: "mat4 \<Rightarrow> mat4 \<Rightarrow> vec3 \<Rightarrow> real list" where
  "vertex_main projection modelView pos = mat_apply (mat_mul projection modelView) pos"

text \<open>The fragment shader's \<open>main\<close>: \<open>None\<close> for a discarded fragment of the point sprite.\<close>

definition fragment_main :: "vec3 \<Rightarrow> real \<times> real \<Rightarrow> (vec3 \<times> real) option" where
  "fragment_main vertexColor pointCoord =
     (let cx = 2 * fst pointCoord - 1; cy = 2 * snd pointCoord - 1
      in if cx * cx + cy * cy > 1 then None else Some (vertexColor, 1))"

text \<open>The uniforms \<open>paintGL\<close> sets, with the GLSL type of the \<open>setUniformValue\<close> overload used.\<close>

definition paintGL_uniforms :: "(string \<times> string) list" where
  "paintGL_uniforms = [(''projection'', ''mat4''), (''modelView'', ''mat4''), (''pointSize'', ''float'')]"

text \<open>\<open>sizeof(Vertex)\<close>: two \<open>QVector3D\<close>s of three \<open>float\<close>s, no padding.\<close>

definition sizeof_vertex :: nat where
  "sizeof_vertex = 2 * (3 * 4)"

text \<open>The attribute buffers of \<open>setupVertexBuffers\<close>: location, byte offset, components, byte stride.\<close>

record attrib_buffer =
  ab_location :: nat
  ab_offset :: nat
  ab_tuple :: nat
  ab_stride :: nat

definition vertex_attrib_buffers :: "attrib_buffer list" where
  "vertex_attrib_buffers =
     [\<lparr>ab_location = 0, ab_offset = 0, ab_tuple = 3, ab_stride = sizeof_vertex\<rparr>,
      \<lparr>ab_location = 1, ab_offset = 3 * 4, ab_tuple = 3, ab_stride = sizeof_vertex\<rparr>]"

text \<open>\<open>m_vbo.allocate(m_vertices.constData(), ...)\<close>: the buffer as the floats of the vertex array.\<close>

definition vertex_floats :: "vertex \<Rightarrow> real list" where
  "vertex_floats v =
     [vx (position v), vy (position v), vz (position v), vx (color v), vy (color v), vz (color v)]"

definition vbo_image :: "vertex list \<Rightarrow> real list" where
  "vbo_image vs = concat (map vertex_floats vs)"

text \<open>What the GL vertex fetch reads for vertex \<open>i\<close> through an attribute buffer.\<close>

definition attrib_fetch :: "real list \<Rightarrow> attrib_buffer \<Rightarrow> nat \<Rightarrow> real list" where
  "attrib_fetch img ab i = take (ab_tuple ab) (drop ((i * ab_stride ab + ab_offset ab) div 4) img)"

definition vec3_list :: "vec3 \<Rightarrow> real list" where
  "vec3_list p = [vx p, vy p, vz p]"

text \<open>A \<open>QMatrix4x4\<close> applied to a homogeneous 4-vector.\<close>

definition mat_vec :: "mat4 \<Rightarrow> real list \<Rightarrow> real list" where
  "mat_vec m v = map (\<lambda>i. \<Sum>k\<leftarrow>[0..<4]. m ! i ! k * v ! k) [0..<4]"

definition vec3_of_list :: "real list \<Rightarrow> vec3" where
  "vec3_of_list xs = \<lparr>vx = xs ! 0, vy = xs ! 1, vz = xs ! 2\<rparr>"

text \<open>
  The clip-space positions \<open>glDrawArrays(GL_POINTS, 0, m_vertices.size())\<close> in
  \<open>paintGL\<close> computes: the vertex shader run on the position attribute fetched
  from the buffer for each index below the vertex count.
\<close>

definition paintGL_positions :: "renderer \<Rightarrow> real list list" where
  "paintGL_positions s =
     (if m_vertices s = [] then []
      else map (\<lambda>i. vertex_main (m_projection s) (m_modelView s)
                     (vec3_of_list (attrib_fetch (vbo_image (m_vbo s)) (vertex_attrib_buffers ! 0) i)))
             [0..<length (m_vertices s)])"

lemma vertex_floats_length [simp]: "length (vertex_floats v) = 6"
  by (simp add: vertex_floats_def)

lemma drop_vbo_image:
  "i < length vs \<Longrightarrow> drop (6 * i) (vbo_image vs) = vertex_floats (vs ! i) @ vbo_image (drop (Suc i) vs)"
proof (induction vs arbitrary: i)
  case Nil
  then show ?case by simp
next
  case (Cons v vs)
  show ?case
  proof (cases i)
    case 0
    then show ?thesis by (simp add: vbo_image_def)
  next
    case (Suc j)
    with Cons.prems have "j < length vs" by simp
    with Cons.IH [of j] Suc show ?thesis by (simp add: vbo_image_def)
  qed
qed

lemma vbo_attrib_fetch:
  assumes "i < length vs"
  shows "attrib_fetch (vbo_image vs) (vertex_attrib_buffers ! 0) i = vec3_list (position (vs ! i)) \<and>
         attrib_fetch (vbo_image vs) (vertex_attrib_buffers ! 1) i = vec3_list (color (vs ! i))"
proof -
  have d0: "drop (6 * i) (vbo_image vs) = vertex_floats (vs ! i) @ vbo_image (drop (Suc i) vs)"
    using assms by (rule drop_vbo_image)
  have "drop (6 * i + 3) (vbo_image vs) = drop 3 (drop (6 * i) (vbo_image vs))"
    by (simp add: add.commute)
  then have d1: "drop (6 * i + 3) (vbo_image vs) = drop 3 (vertex_floats (vs ! i)) @ vbo_image (drop (Suc i) vs)"
    using d0 by simp
  show ?thesis
    using d0 d1
    by (simp add: attrib_fetch_def vertex_attrib_buffers_def sizeof_vertex_def vertex_floats_def vec3_list_def
        mult.commute)
qed
lemma mat_apply_mat_vec: "mat_apply m p = mat_vec m [vx p, vy p, vz p, 1]"
  by (simp add: mat_apply_def mat_vec_def Let_def)

lemma mat_vec_mul: "mat_vec (mat_mul a b) v = mat_vec a (mat_vec b v)"
  by (simp add: mat_vec_def mat_mul_def mat_of_def upt_rec algebra_simps)

lemma perspective_centre_ray:
  "take 2 (mat_vec (perspective mat_ident a asp n f) [0, 0, z, 1]) = [0, 0]"
  by (simp add: perspective_def mat_vec_def mat_mul_def mat_of_def mat_ident_def Let_def upt_rec)

lemma vec3_of_list_vec3_list [simp]: "vec3_of_list (vec3_list p) = p"
  by (simp add: vec3_of_list_def vec3_list_def)

text \<open>
  (C16) When the vertex buffer holds the loaded cloud, the
  points \<open>paintGL\<close> draws are the vertex shader applied to the positions of
  \<open>m_vertices\<close>, in order: the byte offsets and stride of the attribute
  buffers read back exactly the positions written by \<open>allocate\<close>.
\<close>

theorem paintGL_draws_vertices:
  assumes "gpu_consistent s"
  shows "paintGL_positions s = map (vertex_main (m_projection s) (m_modelView s) \<circ> position) (m_vertices s)"
proof (cases "m_vertices s = []")
  case True
  then show ?thesis by (simp add: paintGL_positions_def)
next
  case False
  with assms have vbo: "m_vbo s = m_vertices s" by (simp add: gpu_consistent_def)
  show ?thesis
    by (rule nth_equalityI) (simp_all add: paintGL_positions_def False vbo vbo_attrib_fetch)
qed

lemma paintGL_draws_vertices_witness:
  "gpu_consistent (renderer_new\<lparr>m_vertices := [\<lparr>position = \<lparr>vx = 1, vy = 2, vz = 3\<rparr>, color = \<lparr>vx = 0, vy = 0, vz = 1\<rparr>\<rparr>],
                                 m_vbo := [\<lparr>position = \<lparr>vx = 1, vy = 2, vz = 3\<rparr>, color = \<lparr>vx = 0, vy = 0, vz = 1\<rparr>\<rparr>]\<rparr>) \<and>
   paintGL_positions (renderer_new\<lparr>m_vertices := [\<lparr>position = \<lparr>vx = 1, vy = 2, vz = 3\<rparr>, color = \<lparr>vx = 0, vy = 0, vz = 1\<rparr>\<rparr>],
                                 m_vbo := [\<lparr>position = \<lparr>vx = 1, vy = 2, vz = 3\<rparr>, color = \<lparr>vx = 0, vy = 0, vz = 1\<rparr>\<rparr>]\<rparr>) =
   [vertex_main (m_projection renderer_new) (m_modelView renderer_new) \<lparr>vx = 1, vy = 2, vz = 3\<rparr>]"
  using paintGL_draws_vertices [of "renderer_new\<lparr>m_vertices := [\<lparr>position = \<lparr>vx = 1, vy = 2, vz = 3\<rparr>, color = \<lparr>vx = 0, vy = 0, vz = 1\<rparr>\<rparr>],
                                 m_vbo := [\<lparr>position = \<lparr>vx = 1, vy = 2, vz = 3\<rparr>, color = \<lparr>vx = 0, vy = 0, vz = 1\<rparr>\<rparr>]\<rparr>"]
  by (simp add: gpu_consistent_def)

text \<open>
  (C23) The centre the camera orbits is drawn at the centre of
  the viewport: after the perspective projection of \<open>resizeGL\<close> and the view
  matrix of \<open>updateModelViewMatrix\<close>, its clip-space \<open>x\<close> and \<open>y\<close> are
  zero, whatever the rotation, distance, aspect ratio and clipping planes.
\<close>

theorem centre_at_screen_centre:
  "take 2 (vertex_main (perspective mat_ident a asp n f) (mv_matrix d rot c) c) = [0, 0]"
proof -
  have "mat_vec (mv_matrix d rot c) [vx c, vy c, vz c, 1] = [0, 0, - d, 1]"
    using mv_matrix_center [of d rot c] by (simp add: mat_apply_mat_vec)
  then show ?thesis
    by (simp add: vertex_main_def mat_apply_mat_vec mat_vec_mul perspective_centre_ray)
qed

text \<open>
  (C28) The fragment shader draws round points: a fragment of the
  point sprite is kept exactly when \<open>gl_PointCoord\<close> lies in the disc of
  radius one half around the sprite's centre.
\<close>

theorem fragment_round_sprite:
  "fragment_main c p \<noteq> None \<longleftrightarrow> (fst p - 1 / 2)\<^sup>2 + (snd p - 1 / 2)\<^sup>2 \<le> 1 / 4"
  by (simp add: fragment_main_def Let_def power2_eq_square algebra_simps)

end
