(* ===== verification/AppMain.thy ===== *)
theory AppMain
  imports GLPipeline Viewports
begin

text \<open>
  The application entry point (\<open>src/main.cpp\<close>): \<open>main\<close> builds a
  \<open>QSurfaceFormat\<close> asking for an OpenGL 3.3 core context with four samples
  and a 24-bit depth buffer, makes it the process-wide default format, creates
  the \<open>MainWindow\<close>, shows it and hands control to the event loop. The model
  runs the statements of \<open>main\<close> in order over a state holding the default
  format, the formats the \<open>QApplication\<close> and the OpenGL widget were built
  with, and the window; the event loop is \<open>window_run\<close> over the list of
  events the user produces.
\<close>

datatype gl_profile = NoProfile | CoreProfile | CompatibilityProfile

record surface_format =
  sf_major :: nat
  sf_minor :: nat
  sf_profile :: gl_profile
  sf_samples :: int
  sf_depth :: int

text \<open>A default-constructed \<open>QSurfaceFormat\<close>: version 2.0, no profile, sizes unset.\<close>

definition qsurfaceformat_default :: surface_format where
  "qsurfaceformat_default =
     \<lparr>sf_major = 2, sf_minor = 0, sf_profile = NoProfile, sf_samples = -1, sf_depth = -1\<rparr>"

text \<open>The format \<open>main\<close> builds with its four setters.\<close>

definition main_format :: surface_format where
  "main_format =
     qsurfaceformat_default\<lparr>sf_major := 3, sf_minor := 3\<rparr>
       \<lparr>sf_profile := CoreProfile\<rparr>\<lparr>sf_samples := 4\<rparr>\<lparr>sf_depth := 24\<rparr>"

text \<open>
  The statements of \<open>main\<close>, in order. \<open>QApplication\<close> and the
  \<open>QOpenGLWidget\<close> inside \<open>MainWindow\<close> read the process-wide default
  format when they are constructed; \<open>exec\<close> runs the event loop.
\<close>

datatype main_action =
    NewQApplication
  | SetDefaultFormat surface_format
  | NewMainWindow
  | ShowWindow
  | Exec

record app_state =
  app_default_format :: surface_format
  app_qapp_format :: "surface_format option"
  app_widget_format :: "surface_format option"
  app_window :: "main_window option"
  app_shown :: bool

definition app_init :: app_state where
  "app_init =
     \<lparr>app_default_format = qsurfaceformat_default, app_qapp_format = None,
      app_widget_format = None, app_window = None, app_shown = False\<rparr>"

fun main_step :: "filesystem \<Rightarrow> ui_event list \<Rightarrow> app_state \<Rightarrow> main_action \<Rightarrow> app_state" where
  "main_step fs es s NewQApplication = s\<lparr>app_qapp_format := Some (app_default_format s)\<rparr>"
| "main_step fs es s (SetDefaultFormat f) = s\<lparr>app_default_format := f\<rparr>"
| "main_step fs es s NewMainWindow =
     s\<lparr>app_widget_format := Some (app_default_format s), app_window := Some mainWindow_new\<rparr>"
| "main_step fs es s ShowWindow = s\<lparr>app_shown := True\<rparr>"
| "main_step fs es s Exec = s\<lparr>app_window := map_option (\<lambda>w. window_run fs w es) (app_window s)\<rparr>"

definition main_actions :: "main_action list" where
  "main_actions = [NewQApplication, SetDefaultFormat main_format, NewMainWindow, ShowWindow, Exec]"

definition app_main :: "filesystem \<Rightarrow> ui_event list \<Rightarrow> app_state" where
  "app_main fs es = fold (\<lambda>a s. main_step fs es s a) main_actions app_init"

text \<open>
  The newest GLSL version an OpenGL context of a given version compiles (the
  table of the GLSL specifications: 1.10 for OpenGL 2.0 up to 1.50 for 3.2, and
  the same number as the context from 3.3 on).
\<close>

definition glsl_max :: "surface_format \<Rightarrow> nat" where
  "glsl_max f =
     (let v = 10 * sf_major f + sf_minor f
      in if 33 \<le> v then 10 * v
         else if v = 32 then 150 else if v = 31 then 140 else if v = 30 then 130
         else if v = 21 then 120 else if v = 20 then 110 else 0)"

definition glsl_versions :: "string \<Rightarrow> (string \<times> string) list" where
  "glsl_versions src =
     List.map_filter (\<lambda>d. case d of GVersion v p \<Rightarrow> Some (v, p) | _ \<Rightarrow> None) (glsl_decls src)"

lemma app_main_fields:
  "app_default_format (app_main fs es) = main_format \<and>
   app_qapp_format (app_main fs es) = Some qsurfaceformat_default \<and>
   app_widget_format (app_main fs es) = Some main_format \<and>
   app_window (app_main fs es) = Some (window_run fs mainWindow_new es) \<and> app_shown (app_main fs es)"
  by (simp add: app_main_def main_actions_def app_init_def)

lemma shader_glsl_versions:
  "glsl_versions (prog_vertex setupShaders) = [(''330'', ''core'')] \<and>
   glsl_versions (prog_fragment setupShaders) = [(''330'', ''core'')]"
  by code_simp

text \<open>
  \<open>QApplication\<close> is constructed before \<open>setDefaultFormat\<close> is called, so
  it sees the default format of Qt, not the core-profile request (Qt requires the
  opposite order on some platforms).
\<close>

lemma qapp_before_default_format:
  "app_qapp_format (app_main fs es) = Some qsurfaceformat_default \<and>
   sf_profile qsurfaceformat_default \<noteq> sf_profile main_format"
  by (simp add: app_main_fields qsurfaceformat_default_def main_format_def)

end
