(* ===== verification/Ownership.thy ===== *)
theory Ownership
  imports Viewports
begin

text \<open>
  Object lifetime in \<open>MainWindow\<close> (\<open>src/mainwindow.cpp\<close>): the save slots
  allocate each \<open>ViewportObject\<close> with \<open>new\<close> and keep the pointer twice,
  in \<open>m_viewportList\<close> and in the \<open>QVariant\<close> of its tree item; a double
  click reaches the object through the item; \<open>~MainWindow\<close> deletes the list
  with \<open>qDeleteAll\<close>. The theory models the pointers over an explicit store,
  with dereferences of dangling pointers and double deletes as error values, and
  shows that this pointer-level window implements the value-level one of theory
  \<open>Viewports\<close> and that its destructor frees every object exactly once.
\<close>

text \<open>
  Addresses of heap objects; \<open>0\<close> is \<open>nullptr\<close>. The store holds the
  \<open>ViewportObject\<close>s allocated with \<open>new\<close>: \<open>Some\<close> is a live object,
  \<open>None\<close> a free address.
\<close>

type_synonym addr = nat

type_synonym vo_heap = "addr \<rightharpoonup> viewport_object"

text \<open>What a dereference or a \<open>delete\<close> through a bad pointer does: undefined in C++, an error here.\<close>

datatype ptr_error = NullDeref | UseAfterFree addr | DoubleFree addr

text \<open>A \<open>QTreeWidgetItem\<close>: its text and its \<open>Qt::UserRole\<close> data, a \<open>QVariant\<close> holding a \<open>ViewportObject*\<close> (\<open>None\<close>: invalid).\<close>

record tree_item =
  ti_text :: string
  ti_data :: "addr option"

text \<open>
  \<open>MainWindow\<close> with its pointers: \<open>m_viewportList\<close> is a list of addresses,
  the tree items carry addresses too, and \<open>pw_next\<close> is the next address
  \<open>new\<close> returns.
\<close>

record pwindow =
  pw_renderer :: renderer
  pw_list :: "addr list"
  pw_items :: "tree_item list"
  pw_index :: "32 word"
  pw_notices :: "notice list"
  pw_heap :: vo_heap
  pw_next :: addr

text \<open>Sequencing of operations that may fail.\<close>

definition bind_res :: "'e + 'a \<Rightarrow> ('a \<Rightarrow> 'e + 'b) \<Rightarrow> 'e + 'b" where
  "bind_res m f = (case m of Inl e \<Rightarrow> Inl e | Inr a \<Rightarrow> f a)"

text \<open>\<open>new ViewportObject(...)\<close>: a fresh address.\<close>

definition p_new :: "viewport_object \<Rightarrow> pwindow \<Rightarrow> addr \<times> pwindow" where
  "p_new vo pw = (pw_next pw, pw\<lparr>pw_heap := (pw_heap pw)(pw_next pw \<mapsto> vo), pw_next := pw_next pw + 1\<rparr>)"

text \<open>\<open>p->...\<close>: the object at a live address.\<close>

definition p_deref :: "pwindow \<Rightarrow> addr \<Rightarrow> ptr_error + viewport_object" where
  "p_deref pw a =
     (if a = 0 then Inl NullDeref
      else case pw_heap pw a of None \<Rightarrow> Inl (UseAfterFree a) | Some vo \<Rightarrow> Inr vo)"

text \<open>A call of a mutating member function through a pointer.\<close>

definition p_modify :: "addr \<Rightarrow> (viewport_object \<Rightarrow> viewport_object) \<Rightarrow> pwindow \<Rightarrow> ptr_error + pwindow" where
  "p_modify a f pw = bind_res (p_deref pw a) (\<lambda>vo. Inr (pw\<lparr>pw_heap := (pw_heap pw)(a \<mapsto> f vo)\<rparr>))"

text \<open>\<open>updateTreeWidget\<close>: a new item with the object's name and its address.\<close>

definition p_updateTreeWidget :: "addr \<Rightarrow> pwindow \<Rightarrow> ptr_error + pwindow" where
  "p_updateTreeWidget a pw =
     bind_res (p_deref pw a)
       (\<lambda>vo. Inr (pw\<lparr>pw_items := pw_items pw @ [\<lparr>ti_text = vo_name vo, ti_data = Some a\<rparr>]\<rparr>))"

definition p_addToDB :: "addr \<Rightarrow> pwindow \<Rightarrow> ptr_error + pwindow" where
  "p_addToDB a pw = p_updateTreeWidget a (pw\<lparr>pw_list := pw_list pw @ [a]\<rparr>)"

text \<open>The common tail of both save slots: allocate, name, set parameters and display, \<open>addToDB\<close>.\<close>

definition p_saveObject :: "viewport_params \<Rightarrow> pwindow \<Rightarrow> ptr_error + pwindow" where
  "p_saveObject params pw =
     (let idx = pw_index pw + 1;
          (a, pw1) = p_new (viewportObject_new (viewport_name idx)) (pw\<lparr>pw_index := idx\<rparr>)
      in bind_res (p_modify a (vo_setParameters params) pw1)
           (\<lambda>pw2. bind_res (p_modify a (vo_setDisplay renderer_handle) pw2) (p_addToDB a)))"

definition p_notify :: "notice \<Rightarrow> pwindow \<Rightarrow> pwindow" where
  "p_notify n pw = pw\<lparr>pw_notices := pw_notices pw @ [n]\<rparr>"

definition p_doActionSaveViewportAsObject :: "pwindow \<Rightarrow> ptr_error + pwindow" where
  "p_doActionSaveViewportAsObject pw =
     (if getPointCount (pw_renderer pw) = 0 then Inr pw
      else p_saveObject (getViewportParameters (pw_renderer pw)) pw)"

definition p_doActionSaveViewportWithUserCoords ::
    "real option \<Rightarrow> real option \<Rightarrow> real option \<Rightarrow> pwindow \<Rightarrow> ptr_error + pwindow" where
  "p_doActionSaveViewportWithUserCoords ox oy oz pw =
     (let r = pw_renderer pw
      in if getPointCount r = 0 then Inr (p_notify NoPointCloud pw)
         else
           (let params = getViewportParameters r; sceneSize = vec3_length (getBoundingBoxSize r)
            in if sceneSize \<le> 0 then Inr (p_notify NoValidBoundingBox pw)
               else
                 (let pw1 = p_notify (CameraPosition (vp_modelCenter params)) pw
                  in case (ox, oy, oz) of
                       (Some x, Some y, Some z) \<Rightarrow>
                         (let params' = params\<lparr>vp_modelCenter := \<lparr>vx = dialog_double x, vy = dialog_double y,
                                                                   vz = dialog_double z\<rparr>,
                                               vp_cameraDistance := sceneSize * (3 / 2)\<rparr>
                          in p_saveObject params' (pw1\<lparr>pw_renderer := request_update (setViewport params' r)\<rparr>))
                     | _ \<Rightarrow> Inr pw1)))"

text \<open>\<open>onTreeWidgetItemDoubleClicked\<close>: the object is reached through the item's \<open>QVariant\<close>.\<close>

definition p_onTreeWidgetItemDoubleClicked :: "nat \<Rightarrow> pwindow \<Rightarrow> ptr_error + pwindow" where
  "p_onTreeWidgetItemDoubleClicked k pw =
     (if k < length (pw_items pw) then
        (case ti_data (pw_items pw ! k) of
           None \<Rightarrow> Inr pw
         | Some a \<Rightarrow>
             (if a = 0 then Inr pw
              else bind_res (p_deref pw a)
                     (\<lambda>vo. case applyViewport vo (Some (pw_renderer pw)) of
                             None \<Rightarrow> Inr pw
                           | Some r \<Rightarrow> Inr (pw\<lparr>pw_renderer := r\<rparr>))))
      else Inr pw)"

text \<open>
  The slots that never touch the object list or the tree (opening a file,
  resetting the view) act on the other fields as in theory \<open>Viewports\<close>.
\<close>

definition p_base :: "pwindow \<Rightarrow> main_window" where
  "p_base pw =
     \<lparr>w_renderer = pw_renderer pw, w_viewportList = [], w_treeItems = [], s_viewportIndex = pw_index pw,
      w_notices = pw_notices pw\<rparr>"

definition p_lift :: "(main_window \<Rightarrow> main_window) \<Rightarrow> pwindow \<Rightarrow> pwindow" where
  "p_lift f pw =
     (let w = f (p_base pw)
      in pw\<lparr>pw_renderer := w_renderer w, pw_index := s_viewportIndex w, pw_notices := w_notices w\<rparr>)"

fun p_window_step :: "filesystem \<Rightarrow> pwindow \<Rightarrow> ui_event \<Rightarrow> ptr_error + pwindow" where
  "p_window_step fs pw (OpenFile f) = Inr (p_lift (openPointCloudFile fs f) pw)"
| "p_window_step fs pw ResetViewAction = Inr (p_lift mw_resetView pw)"
| "p_window_step fs pw SaveViewport = p_doActionSaveViewportAsObject pw"
| "p_window_step fs pw (SaveViewportWithCoords x y z) = p_doActionSaveViewportWithUserCoords x y z pw"
| "p_window_step fs pw (ItemDoubleClicked k) = p_onTreeWidgetItemDoubleClicked k pw"
| "p_window_step fs pw (RendererEvent e) = Inr (pw\<lparr>pw_renderer := renderer_step fs (pw_renderer pw) e\<rparr>)"

fun p_window_run :: "filesystem \<Rightarrow> pwindow \<Rightarrow> ui_event list \<Rightarrow> ptr_error + pwindow" where
  "p_window_run fs pw [] = Inr pw"
| "p_window_run fs pw (e # es) = bind_res (p_window_step fs pw e) (\<lambda>pw'. p_window_run fs pw' es)"

definition p_mainWindow_new :: pwindow where
  "p_mainWindow_new =
     \<lparr>pw_renderer = w_renderer mainWindow_new, pw_list = [], pw_items = [],
      pw_index = s_viewportIndex mainWindow_new, pw_notices = w_notices mainWindow_new,
      pw_heap = Map.empty, pw_next = 1\<rparr>"

text \<open>\<open>qDeleteAll(m_viewportList)\<close>: \<open>delete\<close> on each element in order (\<open>delete nullptr\<close> does nothing).\<close>

fun qDeleteAll :: "addr list \<Rightarrow> vo_heap \<Rightarrow> ptr_error + vo_heap" where
  "qDeleteAll [] h = Inr h"
| "qDeleteAll (a # as) h =
     (if a = 0 then qDeleteAll as h
      else case h a of None \<Rightarrow> Inl (DoubleFree a) | Some _ \<Rightarrow> qDeleteAll as (h(a := None)))"

text \<open>
  \<open>~MainWindow\<close>: \<open>qDeleteAll(m_viewportList)\<close>, then \<open>delete ui\<close>, which
  destroys the widgets and tree items (they own no \<open>ViewportObject\<close>); the
  result is the store left behind.
\<close>

definition mainWindow_destroy :: "pwindow \<Rightarrow> ptr_error + vo_heap" where
  "mainWindow_destroy pw = qDeleteAll (pw_list pw) (pw_heap pw)"

text \<open>The value-level window of theory \<open>Viewports\<close> that a pointer-level window represents.\<close>

definition abs_window :: "pwindow \<Rightarrow> main_window" where
  "abs_window pw =
     \<lparr>w_renderer = pw_renderer pw, w_viewportList = map (\<lambda>a. the (pw_heap pw a)) (pw_list pw),
      w_treeItems = map ti_text (pw_items pw), s_viewportIndex = pw_index pw, w_notices = pw_notices pw\<rparr>"

text \<open>
  The ownership invariant: the list holds distinct non-null addresses below the
  allocation point, exactly the live objects are in the list (nothing leaks),
  and tree item \<open>k\<close> points to object \<open>k\<close> and shows its name.
\<close>

definition pw_ok :: "pwindow \<Rightarrow> bool" where
  "pw_ok pw \<longleftrightarrow>
     0 < pw_next pw \<and> distinct (pw_list pw) \<and> list_all (\<lambda>a. 0 < a \<and> a < pw_next pw) (pw_list pw) \<and>
     dom (pw_heap pw) = set (pw_list pw) \<and>
     map ti_data (pw_items pw) = map Some (pw_list pw) \<and>
     map ti_text (pw_items pw) = map (\<lambda>a. vo_name (the (pw_heap pw a))) (pw_list pw)"

text \<open>A slot that never touches the object list or the tree commutes with them.\<close>

definition list_frame :: "(main_window \<Rightarrow> main_window) \<Rightarrow> bool" where
  "list_frame f \<longleftrightarrow>
     (\<forall>w L T. f (w\<lparr>w_viewportList := L, w_treeItems := T\<rparr>) = (f w)\<lparr>w_viewportList := L, w_treeItems := T\<rparr>)"


subsection \<open>Lemmas\<close>

lemma bind_res_simps [simp]:
  "bind_res (Inl e) f = Inl e"
  "bind_res (Inr a) f = f a"
  by (simp_all add: bind_res_def)

lemma pw_ok_fresh:
  assumes "pw_ok pw"
  shows "pw_next pw \<notin> set (pw_list pw)" "pw_heap pw (pw_next pw) = None"
proof -
  show n: "pw_next pw \<notin> set (pw_list pw)"
    using assms by (auto simp: pw_ok_def list_all_iff)
  with assms show "pw_heap pw (pw_next pw) = None"
    by (auto simp: pw_ok_def)
qed

lemma map_fresh_upd:
  "n \<notin> set xs \<Longrightarrow> map (\<lambda>a. f ((h(n \<mapsto> v)) a)) xs = map (\<lambda>a. f (h a)) xs"
  by (induction xs) auto

lemma p_saveObject_eq:
  assumes "pw_ok pw"
  shows "p_saveObject params pw =
     Inr (pw\<lparr>pw_index := pw_index pw + 1, pw_next := Suc (pw_next pw),
             pw_heap := (pw_heap pw)(pw_next pw \<mapsto> vo_setDisplay renderer_handle
                          (vo_setParameters params (viewportObject_new (viewport_name (pw_index pw + 1))))),
             pw_list := pw_list pw @ [pw_next pw],
             pw_items := pw_items pw @ [\<lparr>ti_text = viewport_name (pw_index pw + 1), ti_data = Some (pw_next pw)\<rparr>]\<rparr>)"
  using assms
  by (simp add: pw_ok_def p_saveObject_def p_new_def p_modify_def p_deref_def p_addToDB_def p_updateTreeWidget_def Let_def
      vo_setDisplay_def vo_setParameters_def viewportObject_new_def)

lemma p_saveObject_ok:
  assumes ok: "pw_ok pw"
  shows "\<exists>pw'. p_saveObject params pw = Inr pw' \<and> pw_ok pw' \<and>
     abs_window pw' =
       addToDB (vo_setDisplay renderer_handle
                  (vo_setParameters params (viewportObject_new (viewport_name (pw_index pw + 1)))))
         ((abs_window pw)\<lparr>s_viewportIndex := pw_index pw + 1\<rparr>)"
proof -
  have fr: "pw_next pw \<notin> set (pw_list pw)" "pw_heap pw (pw_next pw) = None"
    using pw_ok_fresh [OF ok] by simp_all
  show ?thesis
    using ok fr map_fresh_upd [OF fr(1), of the] map_fresh_upd [OF fr(1), of "\<lambda>x. vo_name (the x)"]
    by (auto simp: p_saveObject_eq pw_ok_def abs_window_def addToDB_def list_all_iff vo_setDisplay_def
        vo_setParameters_def viewportObject_new_def)
qed

lemma abs_window_base:
  "abs_window pw = (p_base pw)\<lparr>w_viewportList := map (\<lambda>a. the (pw_heap pw a)) (pw_list pw),
                                w_treeItems := map ti_text (pw_items pw)\<rparr>"
  by (simp add: abs_window_def p_base_def)

lemma list_frame_open: "list_frame (openPointCloudFile fs f)"
  by (simp add: list_frame_def openPointCloudFile_def notify_def Let_def split: option.splits prod.splits)

lemma list_frame_reset: "list_frame mw_resetView"
  by (simp add: list_frame_def mw_resetView_def)

lemma p_lift_ok:
  assumes "pw_ok pw" and "list_frame f"
  shows "pw_ok (p_lift f pw) \<and> abs_window (p_lift f pw) = f (abs_window pw)"
proof -
  have "f (abs_window pw) = (f (p_base pw))\<lparr>w_viewportList := map (\<lambda>a. the (pw_heap pw a)) (pw_list pw),
                                w_treeItems := map ti_text (pw_items pw)\<rparr>"
    using assms(2) unfolding list_frame_def abs_window_base by blast
  then show ?thesis
    using assms(1) by (simp add: p_lift_def Let_def pw_ok_def abs_window_def)
qed

lemma pw_ok_item:
  assumes "pw_ok pw" and "k < length (pw_items pw)"
  shows "ti_data (pw_items pw ! k) = Some (pw_list pw ! k) \<and> pw_list pw ! k \<noteq> 0 \<and>
         pw_heap pw (pw_list pw ! k) \<noteq> None \<and>
         length (pw_list pw) = length (pw_items pw)"
proof -
  have d: "map ti_data (pw_items pw) = map Some (pw_list pw)" and
    l: "list_all (\<lambda>a. 0 < a \<and> a < pw_next pw) (pw_list pw)" and
    h: "dom (pw_heap pw) = set (pw_list pw)"
    using assms(1) by (simp_all add: pw_ok_def)
  have len: "length (pw_list pw) = length (pw_items pw)"
    using arg_cong [OF d, of length] by simp
  have "ti_data (pw_items pw ! k) = Some (pw_list pw ! k)"
    using arg_cong [OF d, of "\<lambda>xs. xs ! k"] assms(2) len by simp
  moreover have "pw_list pw ! k \<in> set (pw_list pw)"
    using assms(2) len by simp
  moreover have "pw_list pw ! k \<in> dom (pw_heap pw)"
    using h calculation(2) by simp
  ultimately show ?thesis
    using l len by (auto simp: list_all_iff)
qed

lemma p_doubleClick_ok:
  assumes "pw_ok pw"
  shows "\<exists>pw'. p_onTreeWidgetItemDoubleClicked k pw = Inr pw' \<and> pw_ok pw' \<and>
     abs_window pw' = onTreeWidgetItemDoubleClicked k (abs_window pw)"
proof (cases "k < length (pw_items pw)")
  case True
  note it = pw_ok_item [OF assms True]
  then obtain vo where hv: "pw_heap pw (pw_list pw ! k) = Some vo" by auto
  have "w_viewportList (abs_window pw) ! k = vo"
    using hv it True by (simp add: abs_window_def)
  then show ?thesis
    using it hv True assms
    by (simp add: p_onTreeWidgetItemDoubleClicked_def onTreeWidgetItemDoubleClicked_def p_deref_def
        abs_window_def pw_ok_def applyViewport_def)
next
  case False
  have "length (pw_list pw) = length (pw_items pw)"
    using assms arg_cong [of _ _ length] by (simp add: pw_ok_def) (metis length_map)
  with False assms show ?thesis
    by (simp add: p_onTreeWidgetItemDoubleClicked_def onTreeWidgetItemDoubleClicked_def abs_window_def)
qed

lemma p_saveAsObject_ok:
  assumes "pw_ok pw"
  shows "\<exists>pw'. p_doActionSaveViewportAsObject pw = Inr pw' \<and> pw_ok pw' \<and>
     abs_window pw' = doActionSaveViewportAsObject (abs_window pw)"
  using assms p_saveObject_ok [OF assms]
  by (auto simp: p_doActionSaveViewportAsObject_def doActionSaveViewportAsObject_def Let_def)
     (auto simp: abs_window_def)

lemma pw_ok_notify [simp]: "pw_ok (p_notify n pw) = pw_ok pw"
  by (simp add: pw_ok_def p_notify_def)

lemma abs_window_notify [simp]: "abs_window (p_notify n pw) = notify n (abs_window pw)"
  by (simp add: abs_window_def p_notify_def notify_def)

lemma pw_ok_renderer [simp]: "pw_ok (pw\<lparr>pw_renderer := r\<rparr>) = pw_ok pw"
  by (simp add: pw_ok_def)

lemma abs_window_renderer [simp]: "abs_window (pw\<lparr>pw_renderer := r\<rparr>) = (abs_window pw)\<lparr>w_renderer := r\<rparr>"
  by (simp add: abs_window_def)

lemma p_saveUserCoords_ok:
  assumes "pw_ok pw"
  shows "\<exists>pw'. p_doActionSaveViewportWithUserCoords ox oy oz pw = Inr pw' \<and> pw_ok pw' \<and>
     abs_window pw' = doActionSaveViewportWithUserCoords ox oy oz (abs_window pw)"
proof -
  have r: "w_renderer (abs_window pw) = pw_renderer pw"
    by (simp add: abs_window_def)
  consider (s) x y z where "ox = Some x" "oy = Some y" "oz = Some z" | (c) "ox = None \<or> oy = None \<or> oz = None"
    by (cases ox; cases oy; cases oz) auto
  then show ?thesis
  proof cases
    case s
    let ?pw1 = "(p_notify (CameraPosition (vp_modelCenter (getViewportParameters (pw_renderer pw)))) pw)
                  \<lparr>pw_renderer := request_update (setViewport (getViewportParameters (pw_renderer pw)
                     \<lparr>vp_modelCenter := \<lparr>vx = dialog_double x, vy = dialog_double y, vz = dialog_double z\<rparr>,
                      vp_cameraDistance := vec3_length (getBoundingBoxSize (pw_renderer pw)) * (3 / 2)\<rparr>)
                     (pw_renderer pw))\<rparr>"
    have "pw_ok ?pw1" using assms by simp
    from p_saveObject_ok [OF this] s assms r show ?thesis
      by (auto simp: p_doActionSaveViewportWithUserCoords_def doActionSaveViewportWithUserCoords_def Let_def)
         (simp_all add: abs_window_def p_notify_def notify_def)
  next
    case c
    with assms r show ?thesis
      by (auto simp: p_doActionSaveViewportWithUserCoords_def doActionSaveViewportWithUserCoords_def Let_def
          split: option.splits)
  qed
qed

lemma p_window_step_ok:
  assumes "pw_ok pw"
  shows "\<exists>pw'. p_window_step fs pw e = Inr pw' \<and> pw_ok pw' \<and> abs_window pw' = window_step fs (abs_window pw) e"
proof (cases e)
  case (OpenFile f)
  with p_lift_ok [OF assms list_frame_open] show ?thesis by simp
next
  case ResetViewAction
  with p_lift_ok [OF assms list_frame_reset] show ?thesis by simp
next
  case SaveViewport
  with p_saveAsObject_ok [OF assms] show ?thesis by simp
next
  case (SaveViewportWithCoords x y z)
  with p_saveUserCoords_ok [OF assms] show ?thesis by simp
next
  case (ItemDoubleClicked k)
  with p_doubleClick_ok [OF assms] show ?thesis by simp
next
  case (RendererEvent ev)
  with assms show ?thesis by (simp add: abs_window_def)
qed

lemma p_window_run_ok:
  "pw_ok pw \<Longrightarrow>
   \<exists>pw'. p_window_run fs pw es = Inr pw' \<and> pw_ok pw' \<and> abs_window pw' = window_run fs (abs_window pw) es"
proof (induction es arbitrary: pw)
  case Nil
  then show ?case by simp
next
  case (Cons e es)
  from p_window_step_ok [OF Cons.prems] obtain pw1 where
    "p_window_step fs pw e = Inr pw1" "pw_ok pw1" "abs_window pw1 = window_step fs (abs_window pw) e"
    by blast
  with Cons.IH [of pw1] show ?case by simp
qed

lemma qDeleteAll_all:
  "distinct as \<Longrightarrow> 0 \<notin> set as \<Longrightarrow> dom h = set as \<Longrightarrow> qDeleteAll as h = Inr Map.empty"
proof (induction as arbitrary: h)
  case Nil
  then show ?case by simp
next
  case (Cons a as)
  then have "a \<in> dom h" by simp
  then obtain v where "h a = Some v" by auto
  moreover have "dom (h(a := None)) = set as"
    using Cons.prems by auto
  ultimately show ?case
    using Cons by simp
qed

text \<open>Deleting an address twice is the error \<open>qDeleteAll\<close> would meet on a repeated pointer.\<close>

lemma qDeleteAll_repeated: "a \<noteq> 0 \<Longrightarrow> h a = Some v \<Longrightarrow> qDeleteAll [a, a] h = Inl (DoubleFree a)"
  by simp

lemma pw_ok_destroy:
  assumes "pw_ok pw"
  shows "mainWindow_destroy pw = Inr Map.empty"
  unfolding mainWindow_destroy_def
  using assms by (intro qDeleteAll_all) (auto simp: pw_ok_def list_all_iff)

lemma p_mainWindow_new_ok: "pw_ok p_mainWindow_new \<and> abs_window p_mainWindow_new = mainWindow_new"
  by (simp add: pw_ok_def p_mainWindow_new_def abs_window_def mainWindow_new_def)

subsection \<open>Properties\<close>

text \<open>
  (C9) The window with pointers implements the value-level
  window: from the constructor, every sequence of user events runs without a
  dereference of a dangling pointer, keeps the ownership invariant (tree items
  alias exactly the listed objects, nothing leaks), and abstracts to the run of
  \<open>window_run\<close>; in particular a double click on item \<open>k\<close> replays object
  \<open>k\<close>.
\<close>

theorem pointer_window_refines:
  "\<exists>pw. p_window_run fs p_mainWindow_new es = Inr pw \<and> pw_ok pw \<and>
        abs_window pw = window_run fs mainWindow_new es"
  using p_window_run_ok [of p_mainWindow_new fs es] p_mainWindow_new_ok by simp

text \<open>
  (C10) After any run, \<open>~MainWindow\<close> deletes every
  \<open>ViewportObject\<close> exactly once: \<open>qDeleteAll\<close> meets no freed
  address, and the store is empty afterwards.
\<close>

theorem destroy_frees_all:
  "\<exists>pw. p_window_run fs p_mainWindow_new es = Inr pw \<and> mainWindow_destroy pw = Inr Map.empty"
  using p_window_run_ok [of p_mainWindow_new fs es] p_mainWindow_new_ok pw_ok_destroy by blast

end
