(* ===== verification/GLState.thy ===== *)
theory GLState
  imports AppMain
begin

text \<open>
  The OpenGL state calls of \<open>PointCloudRenderer\<close> (\<open>src/pointcloudrenderer.cpp\<close>):
  \<open>initializeGL\<close>, \<open>setupShaders\<close>, \<open>setupVertexBuffers\<close>, \<open>paintGL\<close>,
  the \<open>makeCurrent\<close>/\<open>setupVertexBuffers\<close>/\<open>doneCurrent\<close> of the
  loaders and the destructor, each as the list of calls it makes, over a GL state
  with the semantics of the Qt classes involved. \<open>widget_step\<close> pairs the
  renderer's step with these calls, and \<open>widget_reach\<close> is the widget's life
  as Qt drives it (\<open>initializeGL\<close> once, before every other callback). The
  context's format is the default format the application sets (theory
  \<open>AppMain\<close>).
\<close>

text \<open>The capabilities \<open>initializeGL\<close> enables and the two shader stages.\<close>

datatype gl_cap = DepthTest | ProgramPointSize

datatype shader_stage = VertexStage | FragmentStage

text \<open>
  The OpenGL and Qt OpenGL calls of \<open>PointCloudRenderer\<close>. A call whose
  result the code checks carries the message the code prints when it fails.
\<close>

datatype gl_call =
    InitializeOpenGLFunctions
  | ClearColor "real \<times> real \<times> real \<times> real"
  | Enable gl_cap
  | AddShader shader_stage string string
  | LinkProgram string
  | ProgramBind
  | ProgramRelease
  | VaoCreate
  | VaoBind
  | VaoRelease
  | VboCreate
  | VboBind
  | VboSetUsage
  | VboAllocate nat
  | EnableAttributeArray nat
  | SetAttributeBuffer attrib_buffer
  | SetUniform string
  | Clear
  | DrawArrays nat
  | MakeCurrent
  | DoneCurrent
  | VboDestroy
  | VaoDestroy
  | ProgramDeleteLater

text \<open>What one \<open>glDrawArrays\<close> found bound and enabled.\<close>

record gl_draw =
  dr_count :: nat
  dr_current :: bool
  dr_program :: bool
  dr_vao :: bool
  dr_attribs :: bool
  dr_depth :: bool
  dr_point_size :: bool

text \<open>
  The GL state the widget's calls act on: the context's format, whether it is
  current, the enabled capabilities, the compiled shaders and the link status of
  \<open>m_program\<close>, the VAO and the VBO (created, bound, bytes allocated), the
  attribute arrays enabled in the VAO, the messages printed, and the draws.
\<close>

record gl_state =
  gs_format :: surface_format
  gs_functions :: bool
  gs_current :: bool
  gs_clear :: "real \<times> real \<times> real \<times> real"
  gs_caps :: "gl_cap list"
  gs_shaders :: "shader_stage list"
  gs_linked :: bool
  gs_program_bound :: bool
  gs_vao :: bool
  gs_vao_bound :: bool
  gs_attribs :: "nat list"
  gs_vbo :: bool
  gs_vbo_bound :: bool
  gs_vbo_bytes :: nat
  gs_log :: "string list"
  gs_draws :: "gl_draw list"

definition gl_new :: "surface_format \<Rightarrow> gl_state" where
  "gl_new f =
     \<lparr>gs_format = f, gs_functions = False, gs_current = False, gs_clear = (0, 0, 0, 0), gs_caps = [],
      gs_shaders = [], gs_linked = False, gs_program_bound = False, gs_vao = False, gs_vao_bound = False,
      gs_attribs = [], gs_vbo = False, gs_vbo_bound = False, gs_vbo_bytes = 0, gs_log = [], gs_draws = []\<rparr>"

text \<open>
  A shader compiles when the context's version supports every \<open>#version\<close> it
  declares (the other checks of the GLSL compiler are not modelled).
\<close>

definition shader_compiles :: "surface_format \<Rightarrow> string \<Rightarrow> bool" where
  "shader_compiles f src \<longleftrightarrow> list_all (\<lambda>(v, p). digits_val v \<le> glsl_max f) (glsl_versions src)"

definition vao_warning :: string where
  "vao_warning = ''QOpenGLVertexArrayObject::create() VAO is already created''"

text \<open>
  The effect of one call, following Qt: \<open>addShaderFromSourceCode\<close> attaches
  only a shader that compiles, \<open>link\<close> needs both stages,
  \<open>bind\<close> of an unlinked program fails, \<open>QOpenGLVertexArrayObject::create\<close>
  on a created VAO prints a warning and does nothing, \<open>QOpenGLBuffer::create\<close>
  on a created buffer does nothing, \<open>allocate\<close> needs a bound buffer, and
  attribute arrays are recorded in the bound VAO.
\<close>

fun gl_exec :: "gl_state \<Rightarrow> gl_call \<Rightarrow> gl_state" where
  "gl_exec g InitializeOpenGLFunctions = g\<lparr>gs_functions := True\<rparr>"
| "gl_exec g (ClearColor c) = g\<lparr>gs_clear := c\<rparr>"
| "gl_exec g (Enable c) = g\<lparr>gs_caps := List.insert c (gs_caps g)\<rparr>"
| "gl_exec g (AddShader st src msg) =
     (if shader_compiles (gs_format g) src then g\<lparr>gs_shaders := gs_shaders g @ [st]\<rparr>
      else g\<lparr>gs_log := gs_log g @ [msg]\<rparr>)"
| "gl_exec g (LinkProgram msg) =
     (if VertexStage \<in> set (gs_shaders g) \<and> FragmentStage \<in> set (gs_shaders g) then g\<lparr>gs_linked := True\<rparr>
      else g\<lparr>gs_linked := False, gs_log := gs_log g @ [msg]\<rparr>)"
| "gl_exec g ProgramBind = g\<lparr>gs_program_bound := gs_linked g\<rparr>"
| "gl_exec g ProgramRelease = g\<lparr>gs_program_bound := False\<rparr>"
| "gl_exec g VaoCreate =
     (if gs_vao g then g\<lparr>gs_log := gs_log g @ [vao_warning]\<rparr> else g\<lparr>gs_vao := True\<rparr>)"
| "gl_exec g VaoBind = g\<lparr>gs_vao_bound := gs_vao g\<rparr>"
| "gl_exec g VaoRelease = g\<lparr>gs_vao_bound := False\<rparr>"
| "gl_exec g VboCreate = g\<lparr>gs_vbo := True\<rparr>"
| "gl_exec g VboBind = g\<lparr>gs_vbo_bound := gs_vbo g\<rparr>"
| "gl_exec g VboSetUsage = g"
| "gl_exec g (VboAllocate n) = (if gs_vbo_bound g then g\<lparr>gs_vbo_bytes := n\<rparr> else g)"
| "gl_exec g (EnableAttributeArray i) =
     (if gs_program_bound g \<and> gs_vao_bound g then g\<lparr>gs_attribs := List.insert i (gs_attribs g)\<rparr> else g)"
| "gl_exec g (SetAttributeBuffer ab) = g"
| "gl_exec g (SetUniform nm) = g"
| "gl_exec g Clear = g"
| "gl_exec g (DrawArrays n) =
     g\<lparr>gs_draws := gs_draws g @
        [\<lparr>dr_count = n, dr_current = gs_current g, dr_program = gs_program_bound g, dr_vao = gs_vao_bound g,
          dr_attribs = (0 \<in> set (gs_attribs g) \<and> 1 \<in> set (gs_attribs g)),
          dr_depth = (DepthTest \<in> set (gs_caps g)), dr_point_size = (ProgramPointSize \<in> set (gs_caps g))\<rparr>]\<rparr>"
| "gl_exec g MakeCurrent = g\<lparr>gs_current := True\<rparr>"
| "gl_exec g DoneCurrent = g\<lparr>gs_current := False\<rparr>"
| "gl_exec g VboDestroy = g\<lparr>gs_vbo := False, gs_vbo_bound := False, gs_vbo_bytes := 0\<rparr>"
| "gl_exec g VaoDestroy = g\<lparr>gs_vao := False, gs_vao_bound := False, gs_attribs := []\<rparr>"
| "gl_exec g ProgramDeleteLater = g\<lparr>gs_linked := False, gs_program_bound := False\<rparr>"

definition gl_run :: "gl_state \<Rightarrow> gl_call list \<Rightarrow> gl_state" where
  "gl_run g cs = fold (\<lambda>c g. gl_exec g c) cs g"

text \<open>\<open>m_backgroundColor(0.1f, 0.2f, 0.3f, 1.0f)\<close> of the constructor.\<close>

definition backgroundColor :: "real \<times> real \<times> real \<times> real" where
  "backgroundColor = (1 / 10, 2 / 10, 3 / 10, 1)"

text \<open>The calls each member function makes, in order.\<close>

definition setupShaders_calls :: "gl_call list" where
  "setupShaders_calls =
     [AddShader VertexStage vertexShaderSource ''Failed to compile vertex shader'',
      AddShader FragmentStage fragmentShaderSource ''Failed to compile fragment shader'',
      LinkProgram ''Failed to link shader program'']"

definition setupVertexBuffers_calls :: "vertex list \<Rightarrow> gl_call list" where
  "setupVertexBuffers_calls vs =
     [VaoCreate, VaoBind, VboCreate, VboBind, VboSetUsage] @
     (if vs \<noteq> [] then [VboAllocate (length vs * sizeof_vertex)] else []) @
     [ProgramBind,
      EnableAttributeArray 0, SetAttributeBuffer (vertex_attrib_buffers ! 0),
      EnableAttributeArray 1, SetAttributeBuffer (vertex_attrib_buffers ! 1),
      ProgramRelease, VaoRelease]"

definition initializeGL_calls :: "vertex list \<Rightarrow> gl_call list" where
  "initializeGL_calls vs =
     [InitializeOpenGLFunctions, ClearColor backgroundColor, Enable DepthTest, Enable ProgramPointSize] @
     setupShaders_calls @ setupVertexBuffers_calls vs"

definition paintGL_calls :: "vertex list \<Rightarrow> gl_call list" where
  "paintGL_calls vs =
     Clear #
     (if vs \<noteq> [] then
        [ProgramBind, VaoBind] @ map (SetUniform \<circ> fst) paintGL_uniforms @
        [DrawArrays (length vs), VaoRelease, ProgramRelease]
      else [])"

definition upload_calls :: "vertex list \<Rightarrow> gl_call list" where
  "upload_calls vs = [MakeCurrent] @ setupVertexBuffers_calls vs @ [DoneCurrent]"

definition destroy_calls :: "gl_call list" where
  "destroy_calls = [MakeCurrent, VboDestroy, VaoDestroy, ProgramDeleteLater, DoneCurrent]"

text \<open>
  One event of the widget: the renderer's step and the GL calls it makes. The
  context is current while Qt runs \<open>initializeGL\<close> and \<open>paintGL\<close>.
\<close>

fun widget_step :: "filesystem \<Rightarrow> renderer \<times> gl_state \<Rightarrow> event \<Rightarrow> renderer \<times> gl_state" where
  "widget_step fs (s, g) InitializeGL =
     (initializeGL s, gl_run (g\<lparr>gs_current := True\<rparr>) (initializeGL_calls (m_vertices s)))"
| "widget_step fs (s, g) PaintGL =
     (paintGL s, gl_run (g\<lparr>gs_current := True\<rparr>) (paintGL_calls (m_vertices s)))"
| "widget_step fs (s, g) (LoadPts f) =
     (case loadPtsFile fs f s of (ok, s') \<Rightarrow> (s', if ok then gl_run g (upload_calls (m_vertices s')) else g))"
| "widget_step fs (s, g) (LoadPly f) =
     (case loadPlyFile fs f s of (ok, s') \<Rightarrow> (s', if ok then gl_run g (upload_calls (m_vertices s')) else g))"
| "widget_step fs (s, g) e = (renderer_step fs s e, g)"

text \<open>
  The widget's life as Qt drives it: constructed with the default format of the
  application, \<open>initializeGL\<close> once before any other callback, then any
  events.
\<close>

inductive widget_reach :: "surface_format \<Rightarrow> filesystem \<Rightarrow> renderer \<times> gl_state \<Rightarrow> bool" where
  construct: "widget_reach f fs (renderer_new, gl_new f)"
| initialize: "widget_reach f fs (s, g) \<Longrightarrow> \<not> gs_functions g \<Longrightarrow> widget_reach f fs (widget_step fs (s, g) InitializeGL)"
| event: "widget_reach f fs (s, g) \<Longrightarrow> gs_functions g \<Longrightarrow> e \<noteq> InitializeGL \<Longrightarrow> widget_reach f fs (widget_step fs (s, g) e)"

text \<open>A draw with the context current, the program and the VAO bound, both attributes enabled, depth test and program point size on.\<close>

definition draw_ok :: "gl_draw \<Rightarrow> bool" where
  "draw_ok d \<longleftrightarrow> dr_current d \<and> dr_program d \<and> dr_vao d \<and> dr_attribs d \<and> dr_depth d \<and> dr_point_size d"

text \<open>The state between callbacks once \<open>initializeGL\<close> has run.\<close>

definition gl_ready :: "gl_state \<Rightarrow> bool" where
  "gl_ready g \<longleftrightarrow>
     gs_linked g \<and> gs_vao g \<and> \<not> gs_vao_bound g \<and> \<not> gs_program_bound g \<and>
     0 \<in> set (gs_attribs g) \<and> 1 \<in> set (gs_attribs g) \<and>
     DepthTest \<in> set (gs_caps g) \<and> ProgramPointSize \<in> set (gs_caps g)"

definition gl_inv :: "gl_state \<Rightarrow> bool" where
  "gl_inv g \<longleftrightarrow> list_all draw_ok (gs_draws g) \<and> (if gs_functions g then gl_ready g else gs_draws g = [] \<and> \<not> gs_vao g)"

text \<open>A file system with one \<open>.pts\<close> point, for the concrete runs.\<close>

definition demo_fs :: filesystem where
  "demo_fs = (\<lambda>_. Some ''1 2 3'')"


subsection \<open>Lemmas\<close>

lemma gl_run_append [simp]: "gl_run g (xs @ ys) = gl_run (gl_run g xs) ys"
  by (simp add: gl_run_def)

lemma gl_run_simps [simp]:
  "gl_run g [] = g"
  "gl_run g (c # cs) = gl_run (gl_exec g c) cs"
  by (simp_all add: gl_run_def)

lemma gl_exec_format [simp]: "gs_format (gl_exec g c) = gs_format g"
  by (cases c) simp_all

lemma gl_run_format [simp]: "gs_format (gl_run g cs) = gs_format g"
  by (induction cs arbitrary: g) simp_all

lemma gl_exec_functions [simp]: "gs_functions (gl_exec g c) = (gs_functions g \<or> c = InitializeOpenGLFunctions)"
  by (cases c) simp_all

lemma gl_run_functions [simp]:
  "gs_functions (gl_run g cs) = (gs_functions g \<or> InitializeOpenGLFunctions \<in> set cs)"
  by (induction cs arbitrary: g) auto

lemma shaders_compile_main:
  "shader_compiles main_format vertexShaderSource \<and> shader_compiles main_format fragmentShaderSource"
proof -
  have "digits_val ''330'' = 330" by code_simp
  then show ?thesis
    using shader_glsl_versions
    by (simp add: shader_compiles_def setupShaders_def main_format_def qsurfaceformat_default_def glsl_max_def)
qed

lemmas gl_call_defs = setupShaders_calls_def setupVertexBuffers_calls_def initializeGL_calls_def
  paintGL_calls_def upload_calls_def destroy_calls_def

lemma gl_init_ready:
  assumes "gs_format g = main_format" and "\<not> gs_vao g" and "gs_draws g = []"
  shows "gl_ready (gl_run g (initializeGL_calls vs)) \<and> gs_functions (gl_run g (initializeGL_calls vs)) \<and>
         gs_draws (gl_run g (initializeGL_calls vs)) = []"
  using assms shaders_compile_main
  by (simp add: gl_call_defs gl_ready_def paintGL_uniforms_def)

lemma gl_upload_ready:
  assumes "gl_ready g"
  shows "gl_ready (gl_run g (upload_calls vs)) \<and> gs_functions (gl_run g (upload_calls vs)) = gs_functions g \<and>
         gs_draws (gl_run g (upload_calls vs)) = gs_draws g"
  using assms by (simp add: gl_call_defs gl_ready_def)

lemma gl_paint_ready:
  assumes "gl_ready g"
  shows "gl_ready (gl_run (g\<lparr>gs_current := True\<rparr>) (paintGL_calls vs)) \<and>
         gs_functions (gl_run (g\<lparr>gs_current := True\<rparr>) (paintGL_calls vs)) = gs_functions g \<and>
         list_all draw_ok (gs_draws (gl_run (g\<lparr>gs_current := True\<rparr>) (paintGL_calls vs))) =
         list_all draw_ok (gs_draws g)"
  using assms by (simp add: gl_call_defs gl_ready_def paintGL_uniforms_def draw_ok_def)

lemma widget_reach_inv:
  "widget_reach f fs sg \<Longrightarrow> f = main_format \<Longrightarrow> gs_format (snd sg) = main_format \<and> gl_inv (snd sg)"
proof (induction rule: widget_reach.induct)
  case (construct f fs)
  then show ?case by (simp add: gl_new_def gl_inv_def)
next
  case (initialize f fs s g)
  then show ?case
    using gl_init_ready [of "g\<lparr>gs_current := True\<rparr>" "m_vertices s"]
    by (simp add: gl_inv_def)
next
  case (event f fs s g e)
  then have fmt: "gs_format g = main_format" and rd: "gl_ready g" and ok: "list_all draw_ok (gs_draws g)"
    by (simp_all add: gl_inv_def)
  show ?case
  proof (cases e)
    case PaintGL
    with fmt rd ok gl_paint_ready [OF rd, of "m_vertices s"] \<open>gs_functions g\<close> show ?thesis
      by (simp add: gl_inv_def)
  next
    case (LoadPts p)
    with fmt rd ok gl_upload_ready [OF rd] \<open>gs_functions g\<close> show ?thesis
      by (simp add: gl_inv_def split: prod.splits)
  next
    case (LoadPly p)
    with fmt rd ok gl_upload_ready [OF rd] \<open>gs_functions g\<close> show ?thesis
      by (simp add: gl_inv_def split: prod.splits)
  qed (use event.prems event.IH \<open>gs_functions g\<close> \<open>e \<noteq> InitializeGL\<close> in simp_all)
qed


lemma gl_upload_log:
  assumes "gl_ready g"
  shows "gs_log (gl_run g (upload_calls vs)) = gs_log g @ [vao_warning]"
  using assms by (simp add: gl_call_defs gl_ready_def)

lemma demo_run_reach:
  "widget_reach f demo_fs
     (widget_step demo_fs (widget_step demo_fs (widget_step demo_fs (renderer_new, gl_new f) InitializeGL)
        (LoadPts ''a.pts'')) PaintGL)"
proof -
  let ?s0 = "(renderer_new, gl_new f)"
  have r0: "widget_reach f demo_fs ?s0" by (rule widget_reach.construct)
  have r1: "widget_reach f demo_fs (widget_step demo_fs ?s0 InitializeGL)"
    by (rule widget_reach.initialize [OF r0]) (simp add: gl_new_def)
  obtain s1 g1 where e1: "widget_step demo_fs ?s0 InitializeGL = (s1, g1)"
    by (cases "widget_step demo_fs ?s0 InitializeGL")
  have g1: "g1 = gl_run (gl_new f\<lparr>gs_current := True\<rparr>) (initializeGL_calls (m_vertices renderer_new))"
    using e1 by simp
  have f1: "gs_functions g1"
    by (simp add: g1 initializeGL_calls_def)
  have r2: "widget_reach f demo_fs (widget_step demo_fs (s1, g1) (LoadPts ''a.pts''))"
    by (rule widget_reach.event [OF r1 [unfolded e1] f1]) simp
  obtain s2 g2 where e2: "widget_step demo_fs (s1, g1) (LoadPts ''a.pts'') = (s2, g2)"
    by (cases "widget_step demo_fs (s1, g1) (LoadPts ''a.pts'')")
  have f2: "gs_functions g2"
  proof (cases "loadPtsFile demo_fs ''a.pts'' s1")
    case (Pair ok s')
    with e2 f1 show ?thesis by (cases ok) auto
  qed
  have "widget_reach f demo_fs (widget_step demo_fs (s2, g2) PaintGL)"
    by (rule widget_reach.event [OF r2 [unfolded e2] f2]) simp
  then show ?thesis by (simp only: e1 e2)
qed

lemma gl_destroy:
  "\<not> gs_vao (gl_run g destroy_calls) \<and> \<not> gs_vbo (gl_run g destroy_calls) \<and>
   \<not> gs_linked (gl_run g destroy_calls) \<and> \<not> gs_current (gl_run g destroy_calls)"
  by (simp add: destroy_calls_def)

subsection \<open>Properties\<close>

text \<open>
  (C15) With the core-profile 3.3 format of \<open>main\<close>, every
  \<open>glDrawArrays\<close> the widget issues, in any run Qt can drive, finds the context
  current, the linked program and the VAO bound, both vertex attributes enabled,
  and depth test and program point size on.
\<close>

theorem draws_well_formed:
  assumes "widget_reach main_format fs (s, g)"
  shows "list_all draw_ok (gs_draws g)"
  using widget_reach_inv [OF assms refl] by (simp add: gl_inv_def)

theorem draws_well_formed_witness:
  "widget_reach main_format demo_fs
     (widget_step demo_fs (widget_step demo_fs (widget_step demo_fs (renderer_new, gl_new main_format) InitializeGL)
        (LoadPts ''a.pts'')) PaintGL) \<and>
   list_all draw_ok (gs_draws (snd (widget_step demo_fs (widget_step demo_fs (widget_step demo_fs
     (renderer_new, gl_new main_format) InitializeGL) (LoadPts ''a.pts'')) PaintGL)))"
  using draws_well_formed [of demo_fs "fst (widget_step demo_fs (widget_step demo_fs (widget_step demo_fs
     (renderer_new, gl_new main_format) InitializeGL) (LoadPts ''a.pts'')) PaintGL)"
     "snd (widget_step demo_fs (widget_step demo_fs (widget_step demo_fs
     (renderer_new, gl_new main_format) InitializeGL) (LoadPts ''a.pts'')) PaintGL)", unfolded prod.collapse]
    demo_run_reach [of main_format]
  by blast

text \<open>
  (C24) Every successful load after \<open>initializeGL\<close>, of a \<open>.pts\<close> or a
  \<open>.ply\<close> file, calls \<open>m_vao.create()\<close> on the VAO that already exists: Qt
  prints its "already created" warning and keeps the old VAO.
\<close>

theorem reload_warns:
  assumes "widget_reach main_format fs (s, g)" and "gs_functions g"
    and "(e = LoadPts f \<and> fst (loadPtsFile fs f s)) \<or> (e = LoadPly f \<and> fst (loadPlyFile fs f s))"
  shows "gs_log (snd (widget_step fs (s, g) e)) = gs_log g @ [vao_warning]"
proof -
  have "gl_ready g"
    using widget_reach_inv [OF assms(1) refl] assms(2) by (simp add: gl_inv_def)
  then show ?thesis
    using assms(3) by (auto simp: gl_upload_log split: prod.splits)
qed

theorem reload_warns_witness:
  "widget_reach main_format demo_fs
     (widget_step demo_fs (widget_step demo_fs (renderer_new, gl_new main_format) InitializeGL) (LoadPts ''a.pts'')) \<and>
   fst (loadPtsFile demo_fs ''a.pts'' (fst (widget_step demo_fs (renderer_new, gl_new main_format) InitializeGL))) \<and>
   gs_log (snd (widget_step demo_fs (widget_step demo_fs (renderer_new, gl_new main_format) InitializeGL) (LoadPts ''a.pts''))) =
   gs_log (snd (widget_step demo_fs (renderer_new, gl_new main_format) InitializeGL)) @ [vao_warning]"
proof -
  let ?s0 = "(renderer_new, gl_new main_format)"
  obtain s1 g1 where e1: "widget_step demo_fs ?s0 InitializeGL = (s1, g1)"
    by (cases "widget_step demo_fs ?s0 InitializeGL")
  have r1: "widget_reach main_format demo_fs (s1, g1)"
    using widget_reach.initialize [OF widget_reach.construct, of main_format demo_fs] e1 by (simp add: gl_new_def)
  have g1: "g1 = gl_run (gl_new main_format\<lparr>gs_current := True\<rparr>) (initializeGL_calls (m_vertices renderer_new))"
    using e1 by simp
  have f1: "gs_functions g1"
    by (simp add: g1 initializeGL_calls_def)
  have l: "loadPtsFile demo_fs ''a.pts'' s1 = (True, snd (loadPtsFile demo_fs ''a.pts'' s1))"
    by (simp add: demo_fs_def loadPtsFile_some)
  have "widget_reach main_format demo_fs (widget_step demo_fs (s1, g1) (LoadPts ''a.pts''))"
    by (rule widget_reach.event [OF r1 f1]) simp
  moreover have lf: "fst (loadPtsFile demo_fs ''a.pts'' s1)"
    using l by (metis fst_conv)
  moreover have "gs_log (snd (widget_step demo_fs (s1, g1) (LoadPts ''a.pts''))) = gs_log g1 @ [vao_warning]"
    using lf by (intro reload_warns [OF r1 f1, of "LoadPts ''a.pts''" "''a.pts''"]) simp
  ultimately show ?thesis using e1 by simp
qed

end
