(* ===== verification/Spec2Isabelle.thy ===== *)
theory Spec2Isabelle
  imports Viewports Overlay ViewModel AppMain Ownership GLState
begin

text \<open>
  \<^bold>\<open>A verification development of the Qt point-cloud viewer in \<open>src/\<close>.\<close>

  \<^medskip>\<^bold>\<open>The program.\<close> \<open>MainWindow\<close> (\<open>src/mainwindow.cpp\<close>) owns one
  \<open>PointCloudRenderer\<close> widget (\<open>src/pointcloudrenderer.cpp\<close>) and a list of
  \<open>ViewportObject\<close>s (\<open>src/viewportobject.cpp\<close>) shown in a tree. Its slots open
  a \<open>.pts\<close> or \<open>.ply\<close> file (dispatch on the extension, case-insensitively), reset
  the view, save the renderer's viewport parameters as a named object (the name
  counts with the file-static \<open>unsigned s_viewportIndex\<close>), save a viewport
  with a centre the user types in, and replay a saved object on a double click.
  The renderer loads the files into \<open>m_vertices\<close> and a bounding box, frames the
  cloud (centre and camera distance from the box), uploads the vertices to a GPU
  buffer, and keeps a model-view matrix built from distance, rotation and centre;
  mouse drags rotate, the wheel zooms.

  \<^medskip>\<^bold>\<open>The theories.\<close>
  \<^item> \<open>Prelude\<close>: \<open>QVector3D\<close> as the record \<open>vec3\<close> of reals and its
    operations; fold lemmas on \<open>min\<close>/\<open>max\<close> the box proofs share.
  \<^item> \<open>Text\<close>: the library calls the loaders rely on, as they behave at the call
    sites: \<open>QString::trimmed\<close>, \<open>split(\s+, SkipEmptyParts)\<close>
    (\<open>split_ws\<close>), \<open>QTextStream::readLine\<close> (\<open>qt_lines\<close>),
    \<open>QString::toFloat\<close> (\<open>qt_toFloat\<close>), \<open>QString::arg\<close> of an unsigned
    (\<open>nat_to_dec\<close>), and an \<open>std::istream\<close> (record \<open>istream\<close>: unread
    input, \<open>eofbit\<close>, \<open>failbit\<close>) with \<open>std::getline\<close>, \<open>operator>>\<close>
    for \<open>std::string\<close>, \<open>int\<close> and \<open>float\<close> and \<open>read\<close>, following
    libstdc++ (a failed sentry leaves the target unwritten, a failed conversion
    stores 0, an out-of-range one the type's extreme value; failures are sticky).
  \<^item> \<open>Geometry\<close>: the vertex record, the bounding box (\<open>bbox_init\<close> is the
    sentinel pair \<open>FLT_MAX\<close>/\<open>-FLT_MAX\<close>, \<open>bbox_add\<close> one update of lines
    273--279), \<open>QMatrix4x4\<close> as row-major \<open>real list list\<close> with
    \<open>translate\<close>/\<open>rotate\<close> multiplying on the right, and \<open>mv_matrix\<close>, the
    body of \<open>updateModelViewMatrix\<close>.
  \<^item> \<open>PtsFormat\<close>: the parsing loop of \<open>loadPtsFile\<close> (\<open>pts_loop\<close>,
    \<open>pts_parse\<close>), shown equal to a filter-map over the lines with the box
    folded over the result.
  \<^item> \<open>PlyHeader\<close>: the header loop of \<open>loadPlyFile\<close> as the terminating
    function \<open>ply_header_loop\<close> (measure: the length of the unread input, which
    every successful \<open>getline\<close> shortens) over the record of its locals.
  \<^item> \<open>PlyBody\<close>: the ASCII and binary bodies, binary32 decoding of
    little-endian bytes, and \<open>ply_parse\<close>, whose result \<open>ply_outcome\<close> is a
    complete cloud, a rejected header, or a binary body cut short with the vertices
    read before the failure.
  \<^item> \<open>Renderer\<close>: the record \<open>renderer\<close> of the members the implemented
    handlers use, the GPU buffer contents as the field \<open>m_vbo\<close> and a pending
    \<open>update()\<close> as \<open>m_updatePending\<close>; one definition per handler, the loaders
    over a \<open>filesystem\<close> (path to contents, \<open>None\<close> when the open fails), and
    \<open>renderer_step\<close>/\<open>renderer_run\<close> over the widget's events.
  \<^item> \<open>Viewports\<close>: \<open>ViewportObject\<close> and the \<open>MainWindow\<close> slots over the
    record \<open>main_window\<close> (renderer, object list, tree item texts, the counter
    as a \<open>32 word\<close>, the message boxes shown), and \<open>window_step\<close> over the
    actions \<open>setupActions\<close> connects.
  \<^item> \<open>Overlay\<close>: \<open>paintEvent\<close> and \<open>drawCoordinateSystem\<close> as the list of
    \<open>QPainter\<close> calls they make (\<open>draw_cmd\<close>), with \<open>QMatrix4x4::map\<close>
    (\<open>mat_map\<close>) and the truncation of \<open>float\<close> arguments to \<open>int\<close>.
  \<^item> \<open>ViewModel\<close>: the abstract camera the renderer refines (\<open>camera\<close>,
    \<open>cam_apply\<close>, \<open>cam_event\<close>, the relation \<open>cam_rel\<close>).
  \<^item> \<open>GLPipeline\<close>: \<open>setupShaders\<close>, \<open>setupVertexBuffers\<close> and the draw
    of \<open>paintGL\<close>: the two GLSL sources as strings and the declarations read
    from them (\<open>glsl_decls\<close>), the uniforms \<open>paintGL\<close> sets, the attribute
    buffers (location, byte offset, components, stride of \<open>sizeof(Vertex)\<close>),
    the buffer image of \<open>m_vertices\<close> (\<open>vbo_image\<close>) and the GPU fetch from
    it, and the shader \<open>main\<close>s (\<open>vertex_main\<close>, \<open>fragment_main\<close>).
  \<^item> \<open>AppMain\<close>: \<open>main\<close> (\<open>src/main.cpp\<close>): the default
    \<open>QSurfaceFormat\<close> it installs and the window its event loop drives.
  \<^item> \<open>GLState\<close>: the OpenGL and Qt OpenGL calls each member function makes
    (\<open>gl_call\<close>, \<open>initializeGL_calls\<close>, \<open>setupVertexBuffers_calls\<close>,
    \<open>paintGL_calls\<close>, the loaders' \<open>upload_calls\<close>, the destructor's
    \<open>destroy_calls\<close>) over a GL state with the semantics of
    \<open>QOpenGLShaderProgram\<close>, \<open>QOpenGLBuffer\<close> and
    \<open>QOpenGLVertexArrayObject\<close> (\<open>gl_exec\<close>); \<open>widget_step\<close> composes
    them with the renderer's step and the inductive \<open>widget_reach\<close> is the
    widget's life as Qt drives it, from the format \<open>main\<close> installs.
  \<^item> \<open>Ownership\<close>: the same window with its pointers (\<open>pwindow\<close>): the
    \<open>ViewportObject\<close>s in a store indexed by addresses, \<open>m_viewportList\<close> and
    the tree items' \<open>QVariant\<close>s as addresses into it, \<open>new\<close>, calls through
    pointers, and \<open>~MainWindow\<close> with \<open>qDeleteAll\<close>; a dangling
    dereference or a second \<open>delete\<close> is an error value (\<open>ptr_error\<close>).
    \<open>abs_window\<close> maps it to the value-level window of \<open>Viewports\<close>.
  \<^item> This theory: the invariants of whole window runs (\<open>registry_ok\<close>,
    the view matrix).

  \<^medskip>\<^bold>\<open>What is proved.\<close> Loading: the records and the box of a \<open>.pts\<close> file
  (count, containment), a print/parse round trip for clouds of natural-number
  points, and the equivalence of the \<open>.pts\<close> loop with a filter-map reference;
  on a header of property declarations the PLY header loop stops exactly at
  \<open>end_header\<close> and stores the recognised properties in order, dropping the
  others (so a property of another type shifts the indices of the later ones);
  a binary body is complete iff enough bytes remain; count and box of a
  successful parse, the partial result of a truncated one; once the input of an
  ASCII body is exhausted, every remaining record repeats the last line.
  Renderer: it refines the abstract camera (a functional refinement through
  \<open>cam_of\<close>, with the matrix the camera determines); the wheel keeps the
  distance in \<open>[0.1, 1000]\<close> and 101 notches inward always reach 0.1; after
  \<open>initializeGL\<close> the view matrix always agrees with distance, rotation and
  centre; parameters set and read back are the ones set, with the matrix
  recomputed; every opened PLY file leaves the box equal to the box of the
  vertices; after a truncated PLY load \<open>paintGL\<close> draws from the previous
  cloud's buffer and over-reads it exactly when that cloud was smaller; a
  \<open>.pts\<close> cloud of identical points gets camera distance 0; the overlay never
  draws outside its corner square.
  Pipeline: the offsets and stride of the attribute buffers read back the
  positions \<open>allocate\<close> wrote, so \<open>paintGL\<close> draws the vertex shader applied
  to \<open>m_vertices\<close>; the orbit centre projects to the middle of the viewport; the
  fragment shader keeps exactly the disc of the point sprite.
  GL state: in every run Qt can drive from the format of \<open>main\<close>, each draw
  finds the program and the VAO bound, both attributes enabled and the
  capabilities on (rule induction over \<open>widget_reach\<close>); every successful
  reload of either format triggers Qt's "VAO is already created" warning.
  Ownership: the pointer-level window refines the value-level one on every run
  from the constructor, without a dangling dereference, keeping tree items
  aliased to the listed objects; the destructor deletes every object exactly once
  and leaves nothing allocated.
  Window: saving and replaying a viewport restores the saved parameters, the
  32-bit counter wraps to \<open>Viewport #0\<close>, the saved user-coordinate viewport
  keeps the stale matrix, a replay installs the saved box over the current
  cloud, and every window run keeps the tree in step with the object list and
  the view matrix consistent. No loop needs fuel: every recursion is structural
  or has a measure, so each definition is total and evaluates by
  \<open>simp\<close>/\<open>code_simp\<close>.

  \<^medskip>\<^bold>\<open>Abstractions.\<close> \<open>float\<close> is \<open>real\<close>: rounding is not modelled, and
  \<open>inf\<close>/\<open>NaN\<close> (exponent 255, the words \<open>inf\<close>/\<open>nan\<close>) are outside the
  model. Overflow of \<open>int\<close>/\<open>float\<close> extraction and the unsigned counter are
  modelled at their widths. The host is little-endian (as the code assumes).
  Characters are bytes and white space is the C locale's. An uninitialised value
  the C++ code reads (a short ASCII PLY line) is 0 in the model.

  \<^medskip>\<^bold>\<open>Not modelled.\<close> The GLSL compiler beyond the version check
  (the shader \<open>main\<close>s are translated by hand into
  \<open>vertex_main\<close>/\<open>fragment_main\<close>), rasterisation and the pixels
  produced, \<open>glClear\<close>'s effect on the framebuffer, the pen widths and fonts
  of the overlay; the members the header declares without a definition in
  \<open>src/\<close> (saving files, view presets, point size, colour modes, filters,
  measuring tools: there is no code to model); the Qt objects of \<open>main\<close>
  other than the format and the window (\<open>QApplication\<close>'s own state); the
  file dialog (a file name argument) and the rounding of
  \<open>QInputDialog::getDouble\<close> to two decimals. \<open>resizeGL\<close> is faithful
  for a non-zero height only: with height 0 the C++ aspect ratio is infinite or
  NaN, which reals do not represent (the model's \<open>w / 0 = 0\<close> makes
  \<open>perspective\<close> keep the identity).
\<close>

text \<open>The tree shows exactly the names of the saved objects, in order.\<close>

definition registry_ok :: "main_window \<Rightarrow> bool" where
  "registry_ok w \<longleftrightarrow> w_treeItems w = map vo_name (w_viewportList w)"

subsection \<open>Lemmas\<close>

lemma registry_ok_addToDB: "registry_ok w \<Longrightarrow> registry_ok (addToDB vo w)"
  by (simp add: registry_ok_def addToDB_def)

lemma registry_ok_frame [simp]:
  "registry_ok (w\<lparr>w_renderer := r\<rparr>) = registry_ok w"
  "registry_ok (w\<lparr>s_viewportIndex := i\<rparr>) = registry_ok w"
  "registry_ok (notify n w) = registry_ok w"
  by (simp_all add: registry_ok_def notify_def)

lemma registry_ok_step: "registry_ok w \<Longrightarrow> registry_ok (window_step fs w e)"
proof (cases e)
  case (SaveViewportWithCoords x y z)
  assume "registry_ok w"
  then show ?thesis using SaveViewportWithCoords
    by (auto simp: doActionSaveViewportWithUserCoords_def Let_def registry_ok_addToDB split: option.splits)
qed (auto simp: openPointCloudFile_def mw_resetView_def doActionSaveViewportAsObject_def Let_def
       onTreeWidgetItemDoubleClicked_def registry_ok_addToDB split: option.splits prod.splits)

lemma mv_ok_window_step: "mv_ok (w_renderer w) \<Longrightarrow> mv_ok (w_renderer (window_step fs w e))"
proof (cases e)
  case (OpenFile f)
  assume m: "mv_ok (w_renderer w)"
  have p: "mv_ok (snd (loadPtsFile fs f (w_renderer w)))"
    using mv_ok_step [OF m, of fs "LoadPts f"] by simp
  have l: "mv_ok (snd (loadPlyFile fs f (w_renderer w)))"
    using mv_ok_step [OF m, of fs "LoadPly f"] by simp
  show ?thesis using OpenFile m p l
    by (auto simp: openPointCloudFile_def notify_def Let_def split: prod.splits)
next
  case (SaveViewportWithCoords x y z)
  assume "mv_ok (w_renderer w)"
  then show ?thesis using SaveViewportWithCoords
    by (auto simp: doActionSaveViewportWithUserCoords_def Let_def addToDB_def notify_def setViewport_def
        split: option.splits)
next
  case (RendererEvent ev)
  assume "mv_ok (w_renderer w)"
  then show ?thesis using RendererEvent by (simp add: mv_ok_step)
qed (auto simp: mw_resetView_def doActionSaveViewportAsObject_def Let_def addToDB_def
       onTreeWidgetItemDoubleClicked_def applyViewport_def setViewport_def split: option.splits)

lemma notify_fields [simp]:
  "w_viewportList (notify n w) = w_viewportList w" "w_renderer (notify n w) = w_renderer w"
  by (simp_all add: notify_def)

subsection \<open>Properties\<close>

text \<open>
  (C19) From a fresh window, every sequence of user actions and renderer events
  keeps the tree items equal to the names of the saved viewport objects, in order.
\<close>

theorem registry_ok_run: "registry_ok (window_run fs mainWindow_new es)"
proof -
  have "registry_ok w \<Longrightarrow> registry_ok (window_run fs w es)" for w
    by (induction es arbitrary: w) (simp_all add: registry_ok_step)
  then show ?thesis by (simp add: registry_ok_def mainWindow_new_def)
qed

text \<open>
  (C20) Every sequence of window events keeps the renderer's model-view matrix
  equal to the one built from its distance, rotation and centre, once it is.
\<close>

theorem window_mv_ok_run: "mv_ok (w_renderer w) \<Longrightarrow> mv_ok (w_renderer (window_run fs w es))"
  by (induction es arbitrary: w) (simp_all add: mv_ok_window_step)

theorem window_mv_ok_run_witness:
  "mv_ok (w_renderer (mainWindow_new\<lparr>w_renderer := initializeGL renderer_new\<rparr>)) \<and>
   mv_ok (w_renderer (window_run (\<lambda>_. None) (mainWindow_new\<lparr>w_renderer := initializeGL renderer_new\<rparr>)
            [SaveViewport, ResetViewAction]))"
proof -
  have m: "mv_ok (w_renderer (mainWindow_new\<lparr>w_renderer := initializeGL renderer_new\<rparr>))"
    by (simp add: initializeGL_def)
  show ?thesis using m window_mv_ok_run [OF m, of "\<lambda>_. None" "[SaveViewport, ResetViewAction]"] by (rule conjI)
qed

end
